theory Spec2Isabelle
  imports Main "HOL-Library.Char_ord" "HOL-Library.List_Lexorder"
begin

section \<open>Errors\<close>

text \<open>
  The exceptions of \<^verbatim>\<open>cachi2.core.errors\<close> raised by \<^verbatim>\<open>gomod.py\<close>, and the Python built-in
  exceptions its dictionary and string operations can raise. Each carries what the message of
  the source is built from.
\<close>

datatype rejection =
    VendorFlagRequired
  | VendorChanged
  | ReplacementsDontApply "string set"

datatype unsupported =
    ContainsParentDir string
  | AbsolutePath string

datatype malformed =
    PackageHasNoParentModule string
  | UnexpectedLine string

datatype error =
    PackageRejected rejection
  | UnsupportedFeature unsupported
  | UnexpectedFormat malformed
  | GoModError
  | FetchError
  | GitCommandError
  | OSError
  | ValueError
  | KeyError string
  | TypeError
  | AttributeError
  | RuntimeError string

section \<open>Python string operations\<close>

definition startswith :: "string \<Rightarrow> string \<Rightarrow> bool" where
  "startswith s p = (take (length p) s = p)"

section \<open>Vendoring decision\<close>

text \<open>
  What \<^verbatim>\<open>app_dir/vendor\<close> is on disk: \<^verbatim>\<open>Path.exists\<close> holds for anything that is there,
  \<^verbatim>\<open>Path.is_dir\<close> only for a directory.
\<close>

datatype path_kind = Absent | Directory | NotDirectory

definition path_exists :: "path_kind \<Rightarrow> bool" where
  "path_exists k = (k \<noteq> Absent)"

definition path_is_dir :: "path_kind \<Rightarrow> bool" where
  "path_is_dir k = (k = Directory)"

text \<open>\<^verbatim>\<open>_should_vendor_deps(flags, app_dir, strict)\<close>; the second argument is the kind of
  \<^verbatim>\<open>app_dir/vendor\<close>. The result is (should vendor, can make changes).\<close>

definition should_vendor_deps :: "string list \<Rightarrow> path_kind \<Rightarrow> bool \<Rightarrow> error + (bool \<times> bool)" where
  "should_vendor_deps flags vendor strict =
     (if ''gomod-vendor-check'' \<in> set flags then Inr (True, \<not> path_exists vendor)
      else if ''gomod-vendor'' \<in> set flags then Inr (True, True)
      else if strict \<and> path_is_dir vendor then Inl (PackageRejected VendorFlagRequired)
      else Inr (False, False))"

section \<open>Parsing vendor/modules.txt\<close>

text \<open>
  \<^verbatim>\<open>_module_lines_from_modules_txt\<close>, from the lines of the file
  (\<^verbatim>\<open>modules_txt.read_text().splitlines()\<close>). The loop carries \<^verbatim>\<open>module_lines\<close> and the
  dictionary \<^verbatim>\<open>has_packages\<close>, which is keyed by the text of a module line.
\<close>

fun modules_txt_loop ::
  "string list \<Rightarrow> string list \<Rightarrow> (string \<rightharpoonup> bool) \<Rightarrow> error + (string list \<times> (string \<rightharpoonup> bool))" where
  "modules_txt_loop [] module_lines has_packages = Inr (module_lines, has_packages)"
| "modules_txt_loop (line # rest) module_lines has_packages =
     (if \<not> startswith line ''#'' then
        (if module_lines = [] then Inl (UnexpectedFormat (PackageHasNoParentModule line))
         else modules_txt_loop rest module_lines (has_packages(last module_lines \<mapsto> True)))
      else if startswith line ''# '' then
        modules_txt_loop rest (module_lines @ [drop 2 line]) has_packages
      else if \<not> startswith line ''##'' then Inl (UnexpectedFormat (UnexpectedLine line))
      else modules_txt_loop rest module_lines has_packages)"

definition module_lines_from_modules_txt :: "string list \<Rightarrow> error + string list" where
  "module_lines_from_modules_txt lines =
     (case modules_txt_loop lines [] Map.empty of
        Inl e \<Rightarrow> Inl e
      | Inr (module_lines, has_packages) \<Rightarrow>
          Inr (filter (\<lambda>m. has_packages m = Some True) module_lines))"

text \<open>
  The four kinds of line the parser tells apart, and the reading of the specification:
  a module line counts when a package line follows it before the next module line
  (marker lines in between are skipped).
\<close>

definition is_package_line :: "string \<Rightarrow> bool" where
  "is_package_line l = (\<not> startswith l ''#'')"

definition is_module_line :: "string \<Rightarrow> bool" where
  "is_module_line l = startswith l ''# ''"

definition is_marker_line :: "string \<Rightarrow> bool" where
  "is_marker_line l = startswith l ''##''"

definition is_unknown_line :: "string \<Rightarrow> bool" where
  "is_unknown_line l = (startswith l ''#'' \<and> \<not> startswith l ''# '' \<and> \<not> startswith l ''##'')"

fun package_follows :: "string list \<Rightarrow> bool" where
  "package_follows [] = False"
| "package_follows (l # ls) =
     (if is_package_line l then True
      else if is_module_line l then False
      else package_follows ls)"

fun modules_with_packages :: "string list \<Rightarrow> string list" where
  "modules_with_packages [] = []"
| "modules_with_packages (l # ls) =
     (if is_module_line l \<and> package_follows ls then drop 2 l # modules_with_packages ls
      else modules_with_packages ls)"

definition module_texts :: "string list \<Rightarrow> string list" where
  "module_texts lines = map (drop 2) (filter is_module_line lines)"

definition malformed_modules_txt :: "string list \<Rightarrow> bool" where
  "malformed_modules_txt lines =
     ((\<exists>pre l post. lines = pre @ l # post \<and> is_package_line l \<and> \<not> list_ex is_module_line pre)
      \<or> list_ex is_unknown_line lines)"

text \<open>A package line met before any module line, as a scan of the lines.\<close>

fun orphan_package :: "string list \<Rightarrow> bool" where
  "orphan_package [] = False"
| "orphan_package (l # ls) = (is_package_line l \<or> (\<not> is_module_line l \<and> orphan_package ls))"

section \<open>Library functions used by the version oracle\<close>

subsection \<open>Decimal numerals\<close>

definition is_digit :: "char \<Rightarrow> bool" where
  "is_digit c = (c \<in> set ''0123456789'')"

definition digit_val :: "char \<Rightarrow> nat" where
  "digit_val c = length (takeWhile (\<lambda>d. d \<noteq> c) ''0123456789'')"

text \<open>\<^verbatim>\<open>int(s)\<close> on a string of decimal digits.\<close>

definition int_of_digits :: "string \<Rightarrow> nat" where
  "int_of_digits s = foldl (\<lambda>n c. 10 * n + digit_val c) 0 s"

text \<open>\<^verbatim>\<open>str(n)\<close> for a non-negative integer.\<close>

function str_nat :: "nat \<Rightarrow> string" where
  "str_nat n = (if n < 10 then [''0123456789'' ! n]
                else str_nat (n div 10) @ [''0123456789'' ! (n mod 10)])"
  by pat_completeness auto
termination
  by (relation "measure id") auto

declare str_nat.simps [simp del]

subsection \<open>str.replace\<close>

text \<open>
  \<^verbatim>\<open>s.replace(old, new)\<close>: every occurrence of \<^verbatim>\<open>old\<close>, found from left to right without
  overlap, is replaced. The source only calls it with a non-empty \<^verbatim>\<open>old\<close>; for an empty one
  the model returns \<^verbatim>\<open>s\<close>.
\<close>

function str_replace :: "string \<Rightarrow> string \<Rightarrow> string \<Rightarrow> string" where
  "str_replace old new [] = []"
| "str_replace old new (c # cs) =
     (if old \<noteq> [] \<and> startswith (c # cs) old
      then new @ str_replace old new (drop (length old) (c # cs))
      else c # str_replace old new cs)"
  by pat_completeness auto
termination
  by (relation "measure (\<lambda>(old, new, s). length s)") auto

subsection \<open>datetime.utcfromtimestamp and strftime\<close>

record datetime =
  year :: nat
  month :: nat
  day :: nat
  hour :: nat
  minute :: nat
  second :: nat

text \<open>
  The proleptic Gregorian date of a day number counted from 1970-01-01, by the era
  arithmetic on 400-year cycles that start on 1 March.
\<close>

definition civil_from_days :: "nat \<Rightarrow> nat \<times> nat \<times> nat" where
  "civil_from_days days =
     (let z = days + 719468;
          era = z div 146097;
          doe = z mod 146097;
          yoe = (doe - doe div 1460 + doe div 36524 - doe div 146096) div 365;
          y = yoe + era * 400;
          doy = doe - (365 * yoe + yoe div 4 - yoe div 100);
          mp = (5 * doy + 2) div 153;
          d = doy - (153 * mp + 2) div 5 + 1;
          m = (if mp < 10 then mp + 3 else mp - 9)
      in (if m \<le> 2 then y + 1 else y, m, d))"

text \<open>
  \<^verbatim>\<open>datetime.utcfromtimestamp(t)\<close> for a commit time \<^verbatim>\<open>t\<close>, which Git stores as a
  non-negative number of seconds since the epoch. Python raises beyond year 9999.
\<close>

definition utcfromtimestamp :: "nat \<Rightarrow> error + datetime" where
  "utcfromtimestamp t =
     (if t > 253402300799 then Inl ValueError
      else (case civil_from_days (t div 86400) of (y, m, d) \<Rightarrow>
        Inr \<lparr>year = y, month = m, day = d,
             hour = t mod 86400 div 3600, minute = t mod 3600 div 60, second = t mod 60\<rparr>))"

definition pad2 :: "nat \<Rightarrow> string" where
  "pad2 n = (if n < 10 then ''0'' @ str_nat n else str_nat n)"

text \<open>\<^verbatim>\<open>dt.strftime("%Y%m%d%H%M%S")\<close>; the years here have four digits.\<close>

definition strftime_YmdHMS :: "datetime \<Rightarrow> string" where
  "strftime_YmdHMS dt =
     str_nat (year dt) @ pad2 (month dt) @ pad2 (day dt) @
     pad2 (hour dt) @ pad2 (minute dt) @ pad2 (second dt)"

subsection \<open>The semver library\<close>

text \<open>
  \<^verbatim>\<open>semver.VersionInfo\<close>: the fields, \<^verbatim>\<open>parse\<close> (the grammar of Semantic Versioning 2.0.0,
  on ASCII), \<^verbatim>\<open>str\<close>, \<^verbatim>\<open>bump_patch\<close> and the precedence that \<^verbatim>\<open>></\<close> compares by.
\<close>

record VersionInfo =
  major :: nat
  minor :: nat
  patch :: nat
  prerelease :: "string option"
  build :: "string option"

text \<open>\<^verbatim>\<open>s.split(sep)\<close> for a one-character separator.\<close>

fun split_on :: "char \<Rightarrow> string \<Rightarrow> string list" where
  "split_on sep [] = [[]]"
| "split_on sep (c # cs) =
     (case split_on sep cs of
        [] \<Rightarrow> [[c]]
      | p # ps \<Rightarrow> if c = sep then [] # p # ps else (c # p) # ps)"

definition is_alnum_hyphen :: "char \<Rightarrow> bool" where
  "is_alnum_hyphen c =
     (c \<in> set ''0123456789abcdefghijklmnopqrstuvwxyzABCDEFGHIJKLMNOPQRSTUVWXYZ-'')"

definition numeric_identifier :: "string \<Rightarrow> bool" where
  "numeric_identifier s = (s \<noteq> [] \<and> list_all is_digit s \<and> (s = ''0'' \<or> hd s \<noteq> CHR ''0''))"

definition prerelease_identifier :: "string \<Rightarrow> bool" where
  "prerelease_identifier s =
     (s \<noteq> [] \<and> list_all is_alnum_hyphen s \<and> (\<not> list_all is_digit s \<or> numeric_identifier s))"

definition build_identifier :: "string \<Rightarrow> bool" where
  "build_identifier s = (s \<noteq> [] \<and> list_all is_alnum_hyphen s)"

text \<open>The text before the first occurrence of a character, and the text after it if any.\<close>

definition partition_at :: "char \<Rightarrow> string \<Rightarrow> string \<times> string option" where
  "partition_at sep s =
     (let front = takeWhile (\<lambda>c. c \<noteq> sep) s
      in (front, if length front < length s then Some (drop (Suc (length front)) s) else None))"

definition VersionInfo_parse :: "string \<Rightarrow> error + VersionInfo" where
  "VersionInfo_parse s =
     (case partition_at (CHR ''+'') s of (core_pre, bld) \<Rightarrow>
      (case partition_at (CHR ''-'') core_pre of (core, pre) \<Rightarrow>
       (case split_on (CHR ''.'') core of
          [ma, mi, pa] \<Rightarrow>
            if numeric_identifier ma \<and> numeric_identifier mi \<and> numeric_identifier pa
               \<and> (case pre of None \<Rightarrow> True
                   | Some p \<Rightarrow> list_all prerelease_identifier (split_on (CHR ''.'') p))
               \<and> (case bld of None \<Rightarrow> True
                   | Some b \<Rightarrow> list_all build_identifier (split_on (CHR ''.'') b))
            then Inr \<lparr>major = int_of_digits ma, minor = int_of_digits mi, patch = int_of_digits pa,
                      prerelease = pre, build = bld\<rparr>
            else Inl ValueError
        | _ \<Rightarrow> Inl ValueError)))"

text \<open>Truth value of an optional string: \<^verbatim>\<open>None\<close> and the empty string are false.\<close>

definition truthy_str :: "string option \<Rightarrow> bool" where
  "truthy_str s = (case s of None \<Rightarrow> False | Some t \<Rightarrow> t \<noteq> [])"

definition VersionInfo_str :: "VersionInfo \<Rightarrow> string" where
  "VersionInfo_str v =
     str_nat (major v) @ ''.'' @ str_nat (minor v) @ ''.'' @ str_nat (patch v) @
     (if truthy_str (prerelease v) then ''-'' @ the (prerelease v) else '''') @
     (if truthy_str (build v) then ''+'' @ the (build v) else '''')"

definition bump_patch :: "VersionInfo \<Rightarrow> VersionInfo" where
  "bump_patch v =
     \<lparr>major = major v, minor = minor v, patch = patch v + 1, prerelease = None, build = None\<rparr>"

text \<open>
  Precedence. Numeric parts first; then the pre-release tags, identifier by identifier: two
  numbers by value, a number below a word, two words as strings, and, when one list is a
  prefix of the other, the shorter text first. A version without a pre-release is above the
  same version with one. The build is ignored.
\<close>

datatype prerelease_part = Num nat | Word string

definition convert_part :: "string \<Rightarrow> prerelease_part" where
  "convert_part t = (if t \<noteq> [] \<and> list_all is_digit t then Num (int_of_digits t) else Word t)"

definition cmp :: "'a::linorder \<Rightarrow> 'a \<Rightarrow> int" where
  "cmp a b = (if a < b then -1 else if a = b then 0 else 1)"

fun cmp_prerelease_tag :: "prerelease_part \<Rightarrow> prerelease_part \<Rightarrow> int" where
  "cmp_prerelease_tag (Num a) (Num b) = cmp a b"
| "cmp_prerelease_tag (Num a) (Word b) = -1"
| "cmp_prerelease_tag (Word a) (Num b) = 1"
| "cmp_prerelease_tag (Word a) (Word b) = cmp a b"

fun cmp_parts :: "prerelease_part list \<Rightarrow> prerelease_part list \<Rightarrow> int option" where
  "cmp_parts (a # as) (b # bs) =
     (let r = cmp_prerelease_tag a b in if r \<noteq> 0 then Some r else cmp_parts as bs)"
| "cmp_parts _ _ = None"

definition nat_cmp :: "string option \<Rightarrow> string option \<Rightarrow> int" where
  "nat_cmp a b =
     (let a' = (case a of None \<Rightarrow> '''' | Some s \<Rightarrow> s);
          b' = (case b of None \<Rightarrow> '''' | Some s \<Rightarrow> s)
      in case cmp_parts (map convert_part (split_on (CHR ''.'') a'))
                        (map convert_part (split_on (CHR ''.'') b')) of
           Some r \<Rightarrow> r
         | None \<Rightarrow> cmp (length a') (length b'))"

definition VersionInfo_compare :: "VersionInfo \<Rightarrow> VersionInfo \<Rightarrow> int" where
  "VersionInfo_compare v1 v2 =
     (let x = (if major v1 \<noteq> major v2 then cmp (major v1) (major v2)
               else if minor v1 \<noteq> minor v2 then cmp (minor v1) (minor v2)
               else cmp (patch v1) (patch v2))
      in if x \<noteq> 0 then x
         else let rccmp = nat_cmp (prerelease v1) (prerelease v2)
              in if rccmp = 0 then 0
                 else if \<not> truthy_str (prerelease v1) then 1
                 else if \<not> truthy_str (prerelease v2) then -1
                 else rccmp)"

section \<open>The Git version oracle\<close>

text \<open>
  What the oracle reads from the repository: the commit behind \<^verbatim>\<open>HEAD\<close>, the commit
  objects, whether fetching the tags works, and the names printed by
  \<^verbatim>\<open>git tag --points-at\<close> and by \<^verbatim>\<open>git for-each-ref refs/tags --merged\<close> for a commit
  (\<^verbatim>\<open>None\<close> when the command fails).
\<close>

record commit =
  hexsha :: string
  committed_date :: nat

record repo =
  head_sha :: string
  commit_of :: "string \<Rightarrow> commit option"
  fetch_tags_ok :: bool
  tags_points_at :: "string \<Rightarrow> string list option"
  tags_merged :: "string \<Rightarrow> string list option"

text \<open>\<^verbatim>\<open>_get_semantic_version_from_tag(tag_name, subpath)\<close>\<close>

definition get_semantic_version_from_tag :: "string \<Rightarrow> string option \<Rightarrow> error + VersionInfo" where
  "get_semantic_version_from_tag tag_name subpath =
     (let semantic_version =
            (if truthy_str subpath then str_replace (the subpath @ ''/v'') '''' tag_name
             else drop 1 tag_name)
      in VersionInfo_parse semantic_version)"

text \<open>
  The loop of \<^verbatim>\<open>_get_highest_semver_tag\<close> over the filtered tag names; \<^verbatim>\<open>highest\<close> is the
  pair of the tag name and its parsed version.
\<close>

fun highest_loop ::
  "string list \<Rightarrow> string option \<Rightarrow> nat \<Rightarrow> (string \<times> VersionInfo) option
   \<Rightarrow> (string \<times> VersionInfo) option" where
  "highest_loop [] subpath major_version highest = highest"
| "highest_loop (tag_name # rest) subpath major_version highest =
     (case get_semantic_version_from_tag tag_name subpath of
        Inl e \<Rightarrow> highest_loop rest subpath major_version highest
      | Inr semantic_version \<Rightarrow>
          if major semantic_version \<noteq> major_version
          then highest_loop rest subpath major_version highest
          else if highest = None \<or> VersionInfo_compare semantic_version (snd (the highest)) > 0
          then highest_loop rest subpath major_version (Some (tag_name, semantic_version))
          else highest_loop rest subpath major_version highest)"

text \<open>\<^verbatim>\<open>_get_highest_semver_tag\<close>; the result is the name of the tag found.\<close>

definition get_highest_semver_tag ::
  "repo \<Rightarrow> commit \<Rightarrow> nat \<Rightarrow> bool \<Rightarrow> string option \<Rightarrow> error + string option" where
  "get_highest_semver_tag r target_commit major_version all_reachable subpath =
     (case (if all_reachable then tags_merged r (hexsha target_commit)
            else tags_points_at r (hexsha target_commit)) of
        None \<Rightarrow> Inl GitCommandError
      | Some tag_names \<Rightarrow>
          (let prefix = (if truthy_str subpath then the subpath @ ''/v'' else ''v'');
               filtered_tags = filter (\<lambda>tag_name. startswith tag_name prefix) tag_names
           in Inr (map_option fst (highest_loop filtered_tags subpath major_version None))))"

text \<open>\<^verbatim>\<open>_get_golang_pseudo_version(commit, tag, module_major_version, subpath)\<close>; \<^verbatim>\<open>tag\<close> is
  the name of the pseudo-base tag.\<close>

definition get_golang_pseudo_version ::
  "commit \<Rightarrow> string option \<Rightarrow> nat option \<Rightarrow> string option \<Rightarrow> error + string" where
  "get_golang_pseudo_version c tag module_major_version subpath =
     (case utcfromtimestamp (committed_date c) of
        Inl e \<Rightarrow> Inl e
      | Inr committed_dt \<Rightarrow>
          (let commit_timestamp = strftime_YmdHMS committed_dt;
               commit_hash = take 12 (hexsha c)
           in case tag of
                None \<Rightarrow>
                  Inr (''v'' @ (case module_major_version of
                                  None \<Rightarrow> ''0''
                                | Some n \<Rightarrow> if n = 0 then ''0'' else str_nat n)
                       @ ''.0.0-'' @ commit_timestamp @ ''-'' @ commit_hash)
              | Some tag_name \<Rightarrow>
                  (case get_semantic_version_from_tag tag_name subpath of
                     Inl e \<Rightarrow> Inl e
                   | Inr tag_semantic_version \<Rightarrow>
                       (let (version_seperator, pseudo_semantic_version) =
                              (if truthy_str (prerelease tag_semantic_version)
                               then (''.'', tag_semantic_version)
                               else (''-'', bump_patch tag_semantic_version))
                        in Inr (''v'' @ VersionInfo_str pseudo_semantic_version @ version_seperator
                                @ ''0.'' @ commit_timestamp @ ''-'' @ commit_hash)))))"

text \<open>
  The match of \<^verbatim>\<open>(?:.+/v)(?P<major_version>\d+)$\<close> at the start of the module name: the
  digits that end the name (a final line break aside), after \<^verbatim>\<open>/v\<close> and at least one more
  character, none of them a line break.
\<close>

definition match_major_version :: "string \<Rightarrow> nat option" where
  "match_major_version module_name =
     (let s = (if module_name \<noteq> [] \<and> last module_name = CHR 0x0A then butlast module_name
               else module_name);
          digits = rev (takeWhile is_digit (rev s));
          front = take (length s - length digits) s
      in if digits \<noteq> [] \<and> length front \<ge> 3
            \<and> drop (length front - 2) front = ''/v''
            \<and> CHR 0x0A \<notin> set front
         then Some (int_of_digits digits) else None)"

text \<open>The choice of \<^verbatim>\<open>major_versions_to_try\<close>.\<close>

definition major_versions_to_try :: "nat option \<Rightarrow> nat list" where
  "major_versions_to_try module_major_version =
     (if module_major_version \<noteq> None \<and> module_major_version \<noteq> Some 0
      then [the module_major_version]
      else [1, 0])"

text \<open>The first loop of \<^verbatim>\<open>_get_golang_version\<close>: a semantic version tag on the commit.\<close>

fun tag_on_commit_loop ::
  "repo \<Rightarrow> commit \<Rightarrow> string option \<Rightarrow> nat list \<Rightarrow> error + string option" where
  "tag_on_commit_loop r c subpath [] = Inr None"
| "tag_on_commit_loop r c subpath (major_version # rest) =
     (case get_highest_semver_tag r c major_version False subpath of
        Inl e \<Rightarrow> Inl e
      | Inr None \<Rightarrow> tag_on_commit_loop r c subpath rest
      | Inr (Some tag_on_commit) \<Rightarrow>
          Inr (Some (if \<not> truthy_str subpath then tag_on_commit
                     else str_replace (the subpath @ ''/'') '''' tag_on_commit)))"

text \<open>The second loop: a pseudo-version from the highest tag reachable from the commit.\<close>

fun pseudo_base_loop ::
  "repo \<Rightarrow> commit \<Rightarrow> string option \<Rightarrow> nat list \<Rightarrow> error + string option" where
  "pseudo_base_loop r c subpath [] = Inr None"
| "pseudo_base_loop r c subpath (major_version # rest) =
     (case get_highest_semver_tag r c major_version True subpath of
        Inl e \<Rightarrow> Inl e
      | Inr None \<Rightarrow> pseudo_base_loop r c subpath rest
      | Inr (Some pseudo_base_tag) \<Rightarrow>
          map_sum id Some (get_golang_pseudo_version c (Some pseudo_base_tag) (Some major_version) subpath))"

text \<open>\<^verbatim>\<open>_get_golang_version(module_name, git_path, commit_sha, update_tags, subpath)\<close>\<close>

definition get_golang_version ::
  "string \<Rightarrow> repo \<Rightarrow> string option \<Rightarrow> bool \<Rightarrow> string option \<Rightarrow> error + string" where
  "get_golang_version module_name r commit_sha update_tags subpath =
     (let module_major_version = match_major_version module_name
      in if update_tags \<and> \<not> fetch_tags_ok r then Inl FetchError
         else
           (let majors = major_versions_to_try module_major_version;
                sha = (case commit_sha of None \<Rightarrow> head_sha r | Some s \<Rightarrow> s)
            in case commit_of r sha of
                 None \<Rightarrow> Inl ValueError
               | Some c \<Rightarrow>
                   (case tag_on_commit_loop r c subpath majors of
                      Inl e \<Rightarrow> Inl e
                    | Inr (Some v) \<Rightarrow> Inr v
                    | Inr None \<Rightarrow>
                        (case pseudo_base_loop r c subpath majors of
                           Inl e \<Rightarrow> Inl e
                         | Inr (Some v) \<Rightarrow> Inr v
                         | Inr None \<Rightarrow>
                             get_golang_pseudo_version c None module_major_version subpath))))"

text \<open>
  The candidate major versions as the specification words them: a declared major version is
  a trailing \<^verbatim>\<open>/vN\<close> with \<^verbatim>\<open>N\<close> at least 2, and only then is \<^verbatim>\<open>N\<close> alone tried.
\<close>

definition spec_major_versions_to_try :: "string \<Rightarrow> nat list" where
  "spec_major_versions_to_try module_name =
     (case match_major_version module_name of
        Some n \<Rightarrow> if n \<ge> 2 then [n] else [1, 0]
      | None \<Rightarrow> [1, 0])"

text \<open>The name under which a tag found on the commit is returned.\<close>

definition returned_tag_name :: "string option \<Rightarrow> string \<Rightarrow> string" where
  "returned_tag_name subpath tag_name =
     (if \<not> truthy_str subpath then tag_name
      else str_replace (the subpath @ ''/'') '''' tag_name)"

section \<open>JSON values and Python truth\<close>

text \<open>
  The values that \<^verbatim>\<open>json\<close> decoding yields; an object is the list of its key-value pairs,
  with distinct keys. \<^verbatim>\<open>JNull\<close> is Python's \<^verbatim>\<open>None\<close>.
\<close>

datatype json =
    JNull
  | JBool bool
  | JNum int
  | JStr string
  | JArr "json list"
  | JObj "(string \<times> json) list"

fun truthy :: "json \<Rightarrow> bool" where
  "truthy JNull = False"
| "truthy (JBool b) = b"
| "truthy (JNum n) = (n \<noteq> 0)"
| "truthy (JStr s) = (s \<noteq> [])"
| "truthy (JArr xs) = (xs \<noteq> [])"
| "truthy (JObj kvs) = (kvs \<noteq> [])"

text \<open>\<^verbatim>\<open>a or b\<close>\<close>

definition py_or :: "json \<Rightarrow> json \<Rightarrow> json" where
  "py_or a b = (if truthy a then a else b)"

text \<open>\<^verbatim>\<open>d.get(k)\<close> on a dictionary, and on any value: only a dictionary has \<^verbatim>\<open>get\<close>.\<close>

definition dict_get :: "(string \<times> json) list \<Rightarrow> string \<Rightarrow> json" where
  "dict_get d k = (case map_of d k of None \<Rightarrow> JNull | Some v \<Rightarrow> v)"

definition py_get :: "json \<Rightarrow> string \<Rightarrow> error + json" where
  "py_get x k = (case x of JObj d \<Rightarrow> Inr (dict_get d k) | _ \<Rightarrow> Inl AttributeError)"

section \<open>Loading the package listing\<close>

text \<open>
  \<^verbatim>\<open>_load_list_deps\<close>, from the objects that \<^verbatim>\<open>load_json_stream\<close> yields for the output of
  \<^verbatim>\<open>go list -deps -json\<close>. The model covers listings whose \<^verbatim>\<open>ImportPath\<close> is a string, the
  only keys the resolver looks up; any other value is reported as a \<^verbatim>\<open>TypeError\<close>.
\<close>

type_synonym info = "(string \<times> json) list"

definition retained_info :: "(string \<times> json) list \<Rightarrow> info" where
  "retained_info pkg =
     filter (\<lambda>(k, v). v \<noteq> JNull) (map (\<lambda>k. (k, dict_get pkg k)) [''Module'', ''Deps'', ''Standard''])"

fun load_list_deps_loop :: "json list \<Rightarrow> (string \<rightharpoonup> info) \<Rightarrow> error + (string \<rightharpoonup> info)" where
  "load_list_deps_loop [] package_info = Inr package_info"
| "load_list_deps_loop (pkg # rest) package_info =
     (case pkg of
        JObj d \<Rightarrow>
          (case map_of d ''ImportPath'' of
             None \<Rightarrow> Inl (KeyError ''ImportPath'')
           | Some (JStr import_path) \<Rightarrow>
               load_list_deps_loop rest (package_info(import_path \<mapsto> retained_info d))
           | Some _ \<Rightarrow> Inl TypeError)
      | _ \<Rightarrow> Inl AttributeError)"

definition load_list_deps :: "json list \<Rightarrow> error + (string \<rightharpoonup> info)" where
  "load_list_deps objects = load_list_deps_loop objects Map.empty"

section \<open>Module-level dependencies and replacements\<close>

record replacement =
  rep_name :: string
  rep_new_name :: "string option"
  rep_version :: string

text \<open>A module record of type \<^verbatim>\<open>gomod\<close>; \<^verbatim>\<open>replaces\<close> holds the old name and old version.\<close>

record module_dep =
  mod_name :: string
  mod_replaces :: "(string \<times> string) option"
  mod_version :: string

text \<open>
  The body of the loop over \<^verbatim>\<open>module_lines\<close> in \<^verbatim>\<open>_resolve_gomod\<close>: the module record of a
  line, if it has one of the three shapes, and the replaced name it uses, if that name is
  among the requested ones.
\<close>

definition parse_module_line :: "string set \<Rightarrow> string \<Rightarrow> module_dep option \<times> string option" where
  "parse_module_line replaced_dep_names line =
     (let parts = split_on (CHR '' '') line;
          (parts', replaces, used) =
            (if length parts = 4 \<and> parts ! 2 = ''=>'' then ([parts ! 0, parts ! 3], None, None)
             else if length parts = 5 \<and> parts ! 2 = ''=>'' then
               (let old_name = parts ! 0; old_version = parts ! 1
                in if old_name \<in> replaced_dep_names
                   then (drop 3 parts, Some (old_name, old_version), Some old_name)
                   else (drop 3 parts, None, None))
             else (parts, None, None))
      in (if length parts' = 2
          then Some \<lparr>mod_name = parts' ! 0, mod_replaces = replaces, mod_version = parts' ! 1\<rparr>
          else None,
          used))"

fun module_lines_loop ::
  "string set \<Rightarrow> string list \<Rightarrow> module_dep list \<Rightarrow> string set \<Rightarrow> module_dep list \<times> string set" where
  "module_lines_loop replaced_dep_names [] module_level_deps used_replaced_dep_names =
     (module_level_deps, used_replaced_dep_names)"
| "module_lines_loop replaced_dep_names (line # rest) module_level_deps used_replaced_dep_names =
     (case parse_module_line replaced_dep_names line of (dep, used) \<Rightarrow>
        module_lines_loop replaced_dep_names rest
          (case dep of None \<Rightarrow> module_level_deps | Some d \<Rightarrow> module_level_deps @ [d])
          (case used of None \<Rightarrow> used_replaced_dep_names
           | Some n \<Rightarrow> insert n used_replaced_dep_names))"

section \<open>Package-level dependencies\<close>

record package_dep =
  dep_name :: string
  dep_version :: json

text \<open>A top-level package with its dependencies; its own version is the module version.\<close>

record package =
  pkg_name :: string
  pkg_version :: string
  pkg_deps :: "package_dep list"

text \<open>\<^verbatim>\<open>_get_dep_version(dep_info)\<close>\<close>

definition get_dep_version :: "info \<Rightarrow> error + json" where
  "get_dep_version dep_info =
     (let module = dict_get dep_info ''Module''
      in if \<not> truthy module then Inr JNull
         else (case py_get module ''Replace'' of
                 Inl e \<Rightarrow> Inl e
               | Inr replace \<Rightarrow>
                   if truthy replace then
                     (case py_get replace ''Version'' of
                        Inl e \<Rightarrow> Inl e
                      | Inr v \<Rightarrow> if truthy v then Inr v else py_get replace ''Path'')
                   else py_get module ''Version''))"

text \<open>
  The version given to one dependency in the inner loop of \<^verbatim>\<open>_resolve_gomod\<close>:
  \<^verbatim>\<open>None\<close> if \<^verbatim>\<open>"Standard" in dep_info\<close>, else
  \<^verbatim>\<open>_get_dep_version(dep_info) or module_version\<close>.
\<close>

definition assign_version :: "info \<Rightarrow> string \<Rightarrow> error + json" where
  "assign_version dep_info module_version =
     (if map_of dep_info ''Standard'' \<noteq> None then Inr JNull
      else (case get_dep_version dep_info of
              Inl e \<Rightarrow> Inl e
            | Inr v \<Rightarrow> Inr (py_or v (JStr module_version))))"

text \<open>
  \<^verbatim>\<open>package_info[pkg_name].get("Deps", [])\<close>. The model covers a \<^verbatim>\<open>Deps\<close> that is a list of
  strings, as \<^verbatim>\<open>go list\<close> prints it; anything else is reported as a \<^verbatim>\<open>TypeError\<close>.
\<close>

fun string_list :: "json list \<Rightarrow> string list option" where
  "string_list [] = Some []"
| "string_list (JStr s # rest) = map_option ((#) s) (string_list rest)"
| "string_list (_ # rest) = None"

definition deps_of :: "info \<Rightarrow> error + string list" where
  "deps_of pkg_info =
     (case map_of pkg_info ''Deps'' of
        None \<Rightarrow> Inr []
      | Some (JArr xs) \<Rightarrow> (case string_list xs of None \<Rightarrow> Inl TypeError | Some ns \<Rightarrow> Inr ns)
      | Some _ \<Rightarrow> Inl TypeError)"

text \<open>The inner loop over the \<^verbatim>\<open>Deps\<close> of one top-level package.\<close>

fun pkg_deps_loop ::
  "(string \<rightharpoonup> info) \<Rightarrow> string \<Rightarrow> string list \<Rightarrow> string set \<Rightarrow> package_dep list
   \<Rightarrow> error + (package_dep list \<times> string set)" where
  "pkg_deps_loop package_info module_version [] processed_pkg_deps pkg_level_deps =
     Inr (pkg_level_deps, processed_pkg_deps)"
| "pkg_deps_loop package_info module_version (name # rest) processed_pkg_deps pkg_level_deps =
     (case package_info name of
        None \<Rightarrow> Inl (KeyError name)
      | Some dep_info \<Rightarrow>
          (case assign_version dep_info module_version of
             Inl e \<Rightarrow> Inl e
           | Inr version \<Rightarrow>
               pkg_deps_loop package_info module_version rest (insert name processed_pkg_deps)
                 (pkg_level_deps @ [\<lparr>dep_name = name, dep_version = version\<rparr>])))"

text \<open>The outer loop over \<^verbatim>\<open>package_list\<close>.\<close>

fun packages_loop ::
  "(string \<rightharpoonup> info) \<Rightarrow> string \<Rightarrow> string list \<Rightarrow> string set \<Rightarrow> package list
   \<Rightarrow> error + package list" where
  "packages_loop package_info module_version [] processed_pkg_deps packages = Inr packages"
| "packages_loop package_info module_version (name # rest) processed_pkg_deps packages =
     (if name \<in> processed_pkg_deps
      then packages_loop package_info module_version rest processed_pkg_deps packages
      else (case package_info name of
              None \<Rightarrow> Inl (KeyError name)
            | Some pkg_info \<Rightarrow>
                (case deps_of pkg_info of
                   Inl e \<Rightarrow> Inl e
                 | Inr deps \<Rightarrow>
                     (case pkg_deps_loop package_info module_version deps processed_pkg_deps [] of
                        Inl e \<Rightarrow> Inl e
                      | Inr (pkg_level_deps, processed') \<Rightarrow>
                          packages_loop package_info module_version rest processed'
                            (packages @ [\<lparr>pkg_name = name, pkg_version = module_version,
                                          pkg_deps = pkg_level_deps\<rparr>])))))"

section \<open>Local paths\<close>

subsection \<open>pathlib and os.path\<close>

text \<open>
  \<^verbatim>\<open>Path(v).parts\<close> of a POSIX path: the root, if any, and the components between slashes,
  empty ones and \<^verbatim>\<open>.\<close> left out.
\<close>

definition posix_path_parts :: "string \<Rightarrow> string list" where
  "posix_path_parts v =
     (let stripped = dropWhile (\<lambda>c. c = CHR ''/'') v;
          slashes = length v - length stripped;
          root = (if slashes = 0 then [] else if slashes = 2 then [''//''] else [''/''])
      in root @ filter (\<lambda>x. x \<noteq> [] \<and> x \<noteq> ''.'') (split_on (CHR ''/'') stripped))"

text \<open>
  \<^verbatim>\<open>PureWindowsPath(v).root\<close>, as \<^verbatim>\<open>pathlib\<close> splits a path before Python 3.12: slashes
  count as backslashes; an extended-path prefix \<^verbatim>\<open>\\?\\<close> is set aside; what remains has a root
  if it starts with a backslash or with a drive letter, a colon and a backslash.
\<close>

definition backslash :: char where
  "backslash = CHR 0x5C"

definition ascii_letter :: "char \<Rightarrow> bool" where
  "ascii_letter c = (c \<in> set ''abcdefghijklmnopqrstuvwxyzABCDEFGHIJKLMNOPQRSTUVWXYZ'')"

definition split_extended_path :: "string \<Rightarrow> string" where
  "split_extended_path s =
     (if startswith s [backslash, backslash, CHR ''?'', backslash] then
        (let s' = drop 4 s
         in if startswith s' (''UNC'' @ [backslash]) then backslash # drop 3 s' else s')
      else s)"

definition PureWindowsPath_root :: "string \<Rightarrow> string" where
  "PureWindowsPath_root v =
     (let part = map (\<lambda>c. if c = CHR ''/'' then backslash else c) v;
          part = (if take 2 part = [backslash, backslash] then split_extended_path part else part);
          first = take 1 part;
          second = take 1 (drop 1 part);
          third = take 1 (drop 2 part);
          first = (if second = '':'' \<and> first \<noteq> [] \<and> ascii_letter (hd first) then third else first)
      in if first = [backslash] then [backslash] else [])"

text \<open>\<^verbatim>\<open>os.path.join(a, b)\<close> on POSIX.\<close>

definition os_path_join :: "string \<Rightarrow> string \<Rightarrow> string" where
  "os_path_join a b =
     (if startswith b ''/'' then b
      else if a = [] \<or> last a = CHR ''/'' then a @ b
      else a @ ''/'' @ b)"

subsection \<open>Vetting\<close>

text \<open>The checks of \<^verbatim>\<open>_vet_local_deps\<close> on the version of one dependency.\<close>

definition vet_version :: "json \<Rightarrow> error + unit" where
  "vet_version version =
     (if \<not> truthy version then Inr ()
      else (case version of
              JStr v \<Rightarrow>
                if startswith v ''.'' \<and> ''..'' \<in> set (posix_path_parts v)
                then Inl (UnsupportedFeature (ContainsParentDir v))
                else if startswith v ''/'' \<or> PureWindowsPath_root v \<noteq> []
                then Inl (UnsupportedFeature (AbsolutePath v))
                else Inr ()
            | _ \<Rightarrow> Inl AttributeError))"

text \<open>\<^verbatim>\<open>_vet_local_deps\<close>, on the versions of the dependencies in order.\<close>

fun vet_local_deps :: "json list \<Rightarrow> error + unit" where
  "vet_local_deps [] = Inr ()"
| "vet_local_deps (version # rest) =
     (case vet_version version of Inl e \<Rightarrow> Inl e | Inr _ \<Rightarrow> vet_local_deps rest)"

subsection \<open>Rewriting\<close>

text \<open>\<^verbatim>\<open>_contains_package(parent_name, package_name)\<close>\<close>

definition contains_package :: "string \<Rightarrow> string \<Rightarrow> bool" where
  "contains_package parent_name package_name =
     (if \<not> startswith package_name parent_name then False
      else if length package_name > length parent_name
      then package_name ! length parent_name = CHR ''/''
      else True)"

text \<open>\<^verbatim>\<open>_path_to_subpackage(parent_name, subpackage_name)\<close>\<close>

definition path_to_subpackage :: "string \<Rightarrow> string \<Rightarrow> error + string" where
  "path_to_subpackage parent_name subpackage_name =
     (if \<not> contains_package parent_name subpackage_name then Inl ValueError
      else Inr (dropWhile (\<lambda>c. c = CHR ''/'') (drop (length parent_name) subpackage_name)))"

text \<open>\<^verbatim>\<open>max(names, key=len, default=None)\<close>: the first of the longest names.\<close>

fun max_by_len :: "string list \<Rightarrow> string option \<Rightarrow> string option" where
  "max_by_len [] best = best"
| "max_by_len (x # xs) best =
     max_by_len xs (case best of None \<Rightarrow> Some x
                    | Some b \<Rightarrow> if length x > length b then Some x else Some b)"

text \<open>\<^verbatim>\<open>_match_parent_module(package_name, module_names)\<close>\<close>

definition match_parent_module :: "string \<Rightarrow> string list \<Rightarrow> string option" where
  "match_parent_module package_name module_names =
     max_by_len (filter (\<lambda>parent_name. contains_package parent_name package_name) module_names) None"

text \<open>The loop of \<^verbatim>\<open>_set_full_local_dep_relpaths\<close> over the dependencies of a package.\<close>

fun relpaths_loop :: "package_dep list \<Rightarrow> string list \<Rightarrow> error + package_dep list" where
  "relpaths_loop [] locally_replaced_mod_names = Inr []"
| "relpaths_loop (dep # rest) locally_replaced_mod_names =
     (case (if \<not> truthy (dep_version dep) then Inr dep
            else (case dep_version dep of
                    JStr dep_path \<Rightarrow>
                      if \<not> startswith dep_path ''.'' then Inr dep
                      else (case match_parent_module (dep_name dep) locally_replaced_mod_names of
                              None \<Rightarrow> Inl (RuntimeError (dep_name dep))
                            | Some dep_module_name \<Rightarrow>
                                (case path_to_subpackage dep_module_name (dep_name dep) of
                                   Inl e \<Rightarrow> Inl e
                                 | Inr path_from_module_to_pkg \<Rightarrow>
                                     if path_from_module_to_pkg \<noteq> []
                                     then Inr (dep\<lparr>dep_version :=
                                            JStr (os_path_join dep_path path_from_module_to_pkg)\<rparr>)
                                     else Inr dep))
                  | _ \<Rightarrow> Inl AttributeError)) of
        Inl e \<Rightarrow> Inl e
      | Inr dep' \<Rightarrow> map_sum id ((#) dep') (relpaths_loop rest locally_replaced_mod_names))"

definition set_full_local_dep_relpaths :: "package_dep list \<Rightarrow> module_dep list \<Rightarrow> error + package_dep list" where
  "set_full_local_dep_relpaths deps main_module_deps =
     relpaths_loop deps
       (map mod_name (filter (\<lambda>module. startswith (mod_version module) ''.'') main_module_deps))"

section \<open>The resolver\<close>

text \<open>The last loop of \<^verbatim>\<open>_resolve_gomod\<close>: vet, then rewrite, package by package.\<close>

fun vet_packages_loop :: "package list \<Rightarrow> module_dep list \<Rightarrow> error + package list" where
  "vet_packages_loop [] module_level_deps = Inr []"
| "vet_packages_loop (pkg # rest) module_level_deps =
     (case vet_local_deps (map dep_version (pkg_deps pkg)) of
        Inl e \<Rightarrow> Inl e
      | Inr _ \<Rightarrow>
          (case set_full_local_dep_relpaths (pkg_deps pkg) module_level_deps of
             Inl e \<Rightarrow> Inl e
           | Inr deps \<Rightarrow>
               map_sum id ((#) (pkg\<lparr>pkg_deps := deps\<rparr>)) (vet_packages_loop rest module_level_deps)))"

subsection \<open>The toolchain and the work tree\<close>

text \<open>
  What one run of \<^verbatim>\<open>_resolve_gomod\<close> gets from outside the function. For each command of the
  Go toolchain: whether it exits with status zero (for the two download commands, within the
  configured number of tries) and, where the function reads it, its output, \<open>None\<close> when
  the command fails. \<open>go_list_m\<close> is the output of \<^verbatim>\<open>go list -m\<close> without its trailing white
  space, the three other listings are the lines, or the decoded objects, of the output. For
  the work tree: what is at \<^verbatim>\<open>vendor\<close> in the application directory before anything runs, the
  lines of \<^verbatim>\<open>vendor/modules.txt\<close> after vendoring (\<open>None\<close> when the file cannot be read), the
  results of the git commands of \<^verbatim>\<open>_vendor_changed\<close> (\<open>None\<close> for a diff that fails), and
  whether the module cache can be put into the bundle directory.
\<close>

record environment =
  go_mod_edit_ok :: "replacement \<Rightarrow> bool"
  go_mod_vendor_ok :: bool
  go_mod_download_ok :: bool
  go_mod_tidy_ok :: bool
  go_list_m :: "string option"
  go_list_m_all :: "string list option"
  go_list_find :: "string list option"
  go_list_deps :: "json list option"
  go_clean_modcache_ok :: bool
  vendor_dir :: path_kind
  vendor_modules_txt :: "string list option"
  git_add_ok :: bool
  modules_txt_diff :: "string option"
  vendor_diff :: "string option"
  git_reset_ok :: bool
  bundle_dir_ok :: bool

text \<open>\<^verbatim>\<open>_run_gomod_cmd\<close>: the output of the command, \<^verbatim>\<open>GoModError\<close> when it fails.\<close>

definition run_gomod_cmd :: "'a option \<Rightarrow> error + 'a" where
  "run_gomod_cmd output = (case output of None \<Rightarrow> Inl GoModError | Some out \<Rightarrow> Inr out)"

text \<open>
  \<^verbatim>\<open>_vendor_changed\<close>: the diff of \<^verbatim>\<open>modules.txt\<close>, then, if that is empty, the diff of the
  vendor directory; the reset runs in the \<^verbatim>\<open>finally\<close> clause, so its failure is the one
  reported.
\<close>

definition vendor_changed :: "environment \<Rightarrow> error + bool" where
  "vendor_changed env =
     (if \<not> git_add_ok env then Inl GitCommandError
      else
        (let result =
           (case modules_txt_diff env of
              None \<Rightarrow> Inl GitCommandError
            | Some diff_of_modules_txt \<Rightarrow>
                if diff_of_modules_txt \<noteq> [] then Inr True
                else
                  (case vendor_diff env of
                     None \<Rightarrow> Inl GitCommandError
                   | Some diff_of_vendor \<Rightarrow> if diff_of_vendor \<noteq> [] then Inr True else Inr False))
         in if git_reset_ok env then result else Inl GitCommandError))"

text \<open>\<^verbatim>\<open>_vendor_deps\<close>: \<^verbatim>\<open>go mod vendor\<close>, then the check that is made when no change is allowed.\<close>

definition vendor_deps :: "environment \<Rightarrow> bool \<Rightarrow> error + unit" where
  "vendor_deps env can_make_changes =
     (if \<not> go_mod_vendor_ok env then Inl GoModError
      else if can_make_changes then Inr ()
      else
        (case vendor_changed env of
           Inl e \<Rightarrow> Inl e
         | Inr changed \<Rightarrow> if changed then Inl (PackageRejected VendorChanged) else Inr ()))"

text \<open>The first loop of \<^verbatim>\<open>_resolve_gomod\<close>: one \<^verbatim>\<open>go mod edit -replace\<close> for each replacement.\<close>

fun apply_replacements :: "environment \<Rightarrow> replacement list \<Rightarrow> error + unit" where
  "apply_replacements env [] = Inr ()"
| "apply_replacements env (dep_replacement # rest) =
     (if go_mod_edit_ok env dep_replacement then apply_replacements env rest
      else Inl GoModError)"

text \<open>
  \<^verbatim>\<open>_resolve_gomod\<close> up to the point where it has the name of the main module and the module
  lines: the replacements are applied, the dependencies are vendored or downloaded,
  \<^verbatim>\<open>go mod tidy\<close> runs if it is forced or a replacement is requested, and the module lines
  are those of \<^verbatim>\<open>vendor/modules.txt\<close> when vendoring, of \<^verbatim>\<open>go list -m all\<close> otherwise.
\<close>

definition module_listing ::
  "environment \<Rightarrow> string list \<Rightarrow> bool \<Rightarrow> replacement list \<Rightarrow> error + (string \<times> string list)" where
  "module_listing env flags strict dep_replacements =
     (case apply_replacements env dep_replacements of
        Inl e \<Rightarrow> Inl e
      | Inr _ \<Rightarrow>
     (case should_vendor_deps flags (vendor_dir env) strict of
        Inl e \<Rightarrow> Inl e
      | Inr (should_vendor, can_make_changes) \<Rightarrow>
     (case (if should_vendor then vendor_deps env can_make_changes
            else if go_mod_download_ok env then Inr () else Inl GoModError) of
        Inl e \<Rightarrow> Inl e
      | Inr _ \<Rightarrow>
          if (''force-gomod-tidy'' \<in> set flags \<or> dep_replacements \<noteq> []) \<and> \<not> go_mod_tidy_ok env
          then Inl GoModError
          else
            (case run_gomod_cmd (go_list_m env) of
               Inl e \<Rightarrow> Inl e
             | Inr module_name \<Rightarrow>
                 if should_vendor then
                   (case vendor_modules_txt env of
                      None \<Rightarrow> Inl OSError
                    | Some lines \<Rightarrow>
                        map_sum id (Pair module_name) (module_lines_from_modules_txt lines))
                 else map_sum id (Pair module_name) (run_gomod_cmd (go_list_m_all env))))))"

subsection \<open>The resolve\<close>

record resolved =
  res_module :: "string \<times> string"
  res_module_deps :: "module_dep list"
  res_packages :: "package list"

text \<open>
  \<^verbatim>\<open>_resolve_gomod\<close> from there: the module lines are parsed and the replacements checked,
  the version of the main module is asked of the repository, the module cache goes to the
  bundle directory, the packages and their dependencies are listed, and the local
  dependencies are vetted and rewritten.
\<close>

definition resolve_after_listing ::
  "environment \<Rightarrow> replacement list \<Rightarrow> string \<Rightarrow> string list \<Rightarrow> repo \<Rightarrow> string option
   \<Rightarrow> error + resolved" where
  "resolve_after_listing env dep_replacements module_name module_lines git_repo subpath =
     (let replaced_dep_names = set (map rep_name dep_replacements)
      in case module_lines_loop replaced_dep_names module_lines [] {} of
           (module_level_deps, used_replaced_dep_names) \<Rightarrow>
             (let unused_dep_replacements = replaced_dep_names - used_replaced_dep_names
              in if unused_dep_replacements \<noteq> {}
                 then Inl (PackageRejected (ReplacementsDontApply unused_dep_replacements))
                 else
                   (case get_golang_version module_name git_repo None True subpath of
                      Inl e \<Rightarrow> Inl e
                    | Inr module_version \<Rightarrow>
                   (case (if bundle_dir_ok env then Inr () else Inl OSError) of
                      Inl e \<Rightarrow> Inl e
                    | Inr _ \<Rightarrow>
                   (case run_gomod_cmd (go_list_find env) of
                      Inl e \<Rightarrow> Inl e
                    | Inr package_list \<Rightarrow>
                   (case run_gomod_cmd (go_list_deps env) of
                      Inl e \<Rightarrow> Inl e
                    | Inr list_deps \<Rightarrow>
                   (case load_list_deps list_deps of
                      Inl e \<Rightarrow> Inl e
                    | Inr package_info \<Rightarrow>
                   (case packages_loop package_info module_version package_list {} [] of
                      Inl e \<Rightarrow> Inl e
                    | Inr packages \<Rightarrow>
                   (case vet_local_deps (map (JStr \<circ> mod_version) module_level_deps) of
                      Inl e \<Rightarrow> Inl e
                    | Inr _ \<Rightarrow>
                   (case vet_packages_loop packages module_level_deps of
                      Inl e \<Rightarrow> Inl e
                    | Inr packages' \<Rightarrow>
                        Inr \<lparr>res_module = (module_name, module_version),
                             res_module_deps = module_level_deps,
                             res_packages = packages'\<rparr>))))))))))"

text \<open>
  \<^verbatim>\<open>_resolve_gomod\<close>, for the flags of the request, the \<^verbatim>\<open>gomod_strict_vendor\<close> setting, the
  requested replacements, the repository and the sub-path of the module in it. The body
  runs inside \<^verbatim>\<open>GoCacheTemporaryDirectory\<close>, whose exit runs \<^verbatim>\<open>go clean -modcache\<close> whether the
  body returned or raised: when that command fails, its \<^verbatim>\<open>GoModError\<close> is what the caller
  gets.
\<close>

definition resolve_gomod ::
  "environment \<Rightarrow> string list \<Rightarrow> bool \<Rightarrow> replacement list \<Rightarrow> repo \<Rightarrow> string option
   \<Rightarrow> error + resolved" where
  "resolve_gomod env flags strict dep_replacements git_repo subpath =
     (let result =
        (case module_listing env flags strict dep_replacements of
           Inl e \<Rightarrow> Inl e
         | Inr (module_name, module_lines) \<Rightarrow>
             resolve_after_listing env dep_replacements module_name module_lines git_repo subpath)
      in if go_clean_modcache_ok env then result else Inl GoModError)"

section \<open>Notions used to state the properties\<close>

text \<open>
  The requested names that the module listing reports as replaced: those with a line
  \<^verbatim>\<open>OLDNAME OLDVER => NEWNAME NEWVER\<close> of their own.
\<close>

definition honored :: "string set \<Rightarrow> string list \<Rightarrow> string set" where
  "honored requested module_lines =
     {n \<in> requested. \<exists>l \<in> set module_lines. \<exists>ov nn nv.
        split_on (CHR '' '') l = [n, ov, ''=>'', nn, nv]}"

fun is_rejection :: "error \<Rightarrow> bool" where
  "is_rejection (PackageRejected _) = True"
| "is_rejection _ = False"

text \<open>
  The version of a package-level dependency as the specification words it: null for an
  entry with \<^verbatim>\<open>Standard\<close>, else the first of \<^verbatim>\<open>Replace.Version\<close>, \<^verbatim>\<open>Replace.Path\<close> and
  \<^verbatim>\<open>Module.Version\<close> that is there and not empty, else the version of the main module.
\<close>

definition spec_dep_version :: "info \<Rightarrow> string \<Rightarrow> json" where
  "spec_dep_version dep_info module_version =
     (if map_of dep_info ''Standard'' \<noteq> None then JNull
      else
        (let module = dict_get dep_info ''Module'';
             replace = (case module of JObj m \<Rightarrow> dict_get m ''Replace'' | _ \<Rightarrow> JNull);
             replace_version = (case replace of JObj r \<Rightarrow> dict_get r ''Version'' | _ \<Rightarrow> JNull);
             replace_path = (case replace of JObj r \<Rightarrow> dict_get r ''Path'' | _ \<Rightarrow> JNull);
             module_own_version = (case module of JObj m \<Rightarrow> dict_get m ''Version'' | _ \<Rightarrow> JNull)
         in py_or (py_or replace_version (py_or replace_path module_own_version))
                  (JStr module_version)))"

text \<open>The \<^verbatim>\<open>Deps\<close> that the listing gives for a package name, empty if it gives none.\<close>

definition listed_deps :: "(string \<rightharpoonup> info) \<Rightarrow> string \<Rightarrow> string list" where
  "listed_deps package_info name =
     (case package_info name of
        None \<Rightarrow> []
      | Some pkg_info \<Rightarrow> (case deps_of pkg_info of Inl e \<Rightarrow> [] | Inr deps \<Rightarrow> deps))"

text \<open>
  The enumeration of top-level packages as the specification words it: a processed set,
  a package in it is skipped, a package that is emitted adds its dependencies to it.
\<close>

fun enumerate_packages :: "(string \<Rightarrow> string list) \<Rightarrow> string list \<Rightarrow> string set \<Rightarrow> string list" where
  "enumerate_packages deps [] processed = []"
| "enumerate_packages deps (p # ps) processed =
     (if p \<in> processed then enumerate_packages deps ps processed
      else p # enumerate_packages deps ps (processed \<union> set (deps p)))"

text \<open>No package of the list is among the names seen or the dependencies of a package before it.\<close>

fun no_earlier_dep :: "string set \<Rightarrow> package list \<Rightarrow> bool" where
  "no_earlier_dep seen [] = True"
| "no_earlier_dep seen (p # ps) =
     (pkg_name p \<notin> seen \<and> no_earlier_dep (seen \<union> dep_name ` set (pkg_deps p)) ps)"



text \<open>
  What the vetting lets through, for a string that is not empty: it is not an absolute
  path, on POSIX or on Windows, and if it starts with a dot it has no \<^verbatim>\<open>..\<close> among its parts.
\<close>

definition vetted :: "string \<Rightarrow> bool" where
  "vetted v =
     (\<not> startswith v ''/'' \<and> PureWindowsPath_root v = []
      \<and> (startswith v ''.'' \<longrightarrow> ''..'' \<notin> set (posix_path_parts v)))"


section \<open>Properties of the vendoring decision\<close>

text \<open>
  Claim C7. The decision follows the flag table. With neither vendor flag, a \<^verbatim>\<open>vendor\<close>
  directory under strict configuration is rejected with \<^verbatim>\<open>PackageRejected\<close> and anything else
  proceeds without vendoring; \<^verbatim>\<open>gomod-vendor\<close> alone vendors and may modify;
  \<^verbatim>\<open>gomod-vendor-check\<close> vendors and may modify exactly when nothing exists at
  \<^verbatim>\<open>vendor\<close>; with both flags and an existing \<^verbatim>\<open>vendor\<close> directory the decision is to vendor
  without modifying.
\<close>

theorem should_vendor_deps_table:
  "(''gomod-vendor'' \<notin> set flags \<and> ''gomod-vendor-check'' \<notin> set flags \<longrightarrow>
      should_vendor_deps flags vendor strict =
        (if strict \<and> vendor = Directory then Inl (PackageRejected VendorFlagRequired)
         else Inr (False, False))) \<and>
   (''gomod-vendor'' \<in> set flags \<and> ''gomod-vendor-check'' \<notin> set flags \<longrightarrow>
      should_vendor_deps flags vendor strict = Inr (True, True)) \<and>
   (''gomod-vendor-check'' \<in> set flags \<longrightarrow>
      should_vendor_deps flags vendor strict = Inr (True, vendor = Absent)) \<and>
   (''gomod-vendor'' \<in> set flags \<and> ''gomod-vendor-check'' \<in> set flags \<and> vendor = Directory \<longrightarrow>
      should_vendor_deps flags vendor strict = Inr (True, False))"
  by (auto simp: should_vendor_deps_def path_exists_def path_is_dir_def)

theorem should_vendor_deps_table_witness:
  "should_vendor_deps [] Directory True = Inl (PackageRejected VendorFlagRequired) \<and>
   should_vendor_deps [] Directory False = Inr (False, False) \<and>
   should_vendor_deps [''cgo-disable''] Absent True = Inr (False, False) \<and>
   should_vendor_deps [''gomod-vendor''] Directory True = Inr (True, True) \<and>
   should_vendor_deps [''gomod-vendor-check''] Absent False = Inr (True, True) \<and>
   should_vendor_deps [''gomod-vendor-check''] Directory False = Inr (True, False) \<and>
   should_vendor_deps [''gomod-vendor'', ''gomod-vendor-check''] Directory True = Inr (True, False)"
  using should_vendor_deps_table [of "[]" Directory True]
    should_vendor_deps_table [of "[]" Directory False]
    should_vendor_deps_table [of "[''cgo-disable'']" Absent True]
    should_vendor_deps_table [of "[''gomod-vendor'']" Directory True]
    should_vendor_deps_table [of "[''gomod-vendor-check'']" Absent False]
    should_vendor_deps_table [of "[''gomod-vendor-check'']" Directory False]
    should_vendor_deps_table [of "[''gomod-vendor'', ''gomod-vendor-check'']" Directory True]
  by simp

section \<open>Properties of the modules.txt parser\<close>

lemma line_kinds:
  "is_package_line l \<Longrightarrow> \<not> is_module_line l"
  "is_package_line l \<Longrightarrow> \<not> is_marker_line l"
  "is_package_line l \<Longrightarrow> \<not> is_unknown_line l"
  "is_module_line l \<Longrightarrow> \<not> is_marker_line l"
  "is_module_line l \<Longrightarrow> \<not> is_unknown_line l"
  "is_marker_line l \<Longrightarrow> \<not> is_unknown_line l"
  "is_package_line l \<or> is_module_line l \<or> is_marker_line l \<or> is_unknown_line l"
  by (auto simp: is_package_line_def is_module_line_def is_marker_line_def is_unknown_line_def
      startswith_def take_Suc_conv_app_nth split: if_splits) (cases l; cases "tl l"; auto)+

lemma loop_step:
  "modules_txt_loop (l # rest) ml hp =
     (if is_package_line l then
        (if ml = [] then Inl (UnexpectedFormat (PackageHasNoParentModule l))
         else modules_txt_loop rest ml (hp(last ml \<mapsto> True)))
      else if is_module_line l then modules_txt_loop rest (ml @ [drop 2 l]) hp
      else if is_marker_line l then modules_txt_loop rest ml hp
      else Inl (UnexpectedFormat (UnexpectedLine l)))"
  by (simp add: is_package_line_def is_module_line_def is_marker_line_def)

lemma loop_error_kind:
  "modules_txt_loop lines ml hp = Inl e \<Longrightarrow> \<exists>m. e = UnexpectedFormat m"
  by (induction lines ml hp rule: modules_txt_loop.induct) (auto split: if_splits)

declare modules_txt_loop.simps(2) [simp del]

lemma orphan_package_iff:
  "orphan_package lines \<longleftrightarrow>
     (\<exists>pre l post. lines = pre @ l # post \<and> is_package_line l \<and> \<not> list_ex is_module_line pre)"
proof (induction lines)
  case Nil
  then show ?case by simp
next
  case (Cons a lines)
  show ?case
  proof
    assume "orphan_package (a # lines)"
    then consider "is_package_line a" | "\<not> is_module_line a" "orphan_package lines" by auto
    then show "\<exists>pre l post. a # lines = pre @ l # post \<and> is_package_line l \<and> \<not> list_ex is_module_line pre"
    proof cases
      case 1
      then have "a # lines = [] @ a # lines \<and> is_package_line a \<and> \<not> list_ex is_module_line []" by simp
      then show ?thesis by blast
    next
      case 2
      with Cons.IH obtain pre l post where
        "lines = pre @ l # post" "is_package_line l" "\<not> list_ex is_module_line pre" by blast
      with 2 have "a # lines = (a # pre) @ l # post \<and> is_package_line l \<and> \<not> list_ex is_module_line (a # pre)"
        by simp
      then show ?thesis by blast
    qed
  next
    assume "\<exists>pre l post. a # lines = pre @ l # post \<and> is_package_line l \<and> \<not> list_ex is_module_line pre"
    then obtain pre l post where
      *: "a # lines = pre @ l # post" "is_package_line l" "\<not> list_ex is_module_line pre" by blast
    show "orphan_package (a # lines)"
    proof (cases pre)
      case Nil
      with * show ?thesis by simp
    next
      case (Cons b pre')
      with * have "lines = pre' @ l # post" "\<not> is_module_line a" "\<not> list_ex is_module_line pre'" by auto
      with *(2) Cons.IH show ?thesis by auto
    qed
  qed
qed

lemma malformed_modules_txt_scan:
  "malformed_modules_txt lines \<longleftrightarrow> orphan_package lines \<or> list_ex is_unknown_line lines"
  by (simp add: malformed_modules_txt_def orphan_package_iff)

lemma loop_fails_iff:
  "isl (modules_txt_loop lines ml hp) \<longleftrightarrow>
     (ml = [] \<and> orphan_package lines) \<or> list_ex is_unknown_line lines"
proof (induction lines arbitrary: ml hp)
  case Nil
  then show ?case by simp
next
  case (Cons l lines)
  from line_kinds(7)[of l] consider "is_package_line l" | "is_module_line l" | "is_marker_line l" | "is_unknown_line l"
    by blast
  then show ?case
  proof cases
    case 1
    then show ?thesis using line_kinds(1,3)[of l] by (simp add: loop_step Cons.IH)
  next
    case 2
    then show ?thesis using line_kinds(1,5)[of l] by (auto simp add: loop_step Cons.IH)
  next
    case 3
    then show ?thesis using line_kinds(2,4,6)[of l] by (auto simp add: loop_step Cons.IH)
  next
    case 4
    then show ?thesis using line_kinds(3,5,6)[of l] by (auto simp add: loop_step Cons.IH)
  qed
qed

lemma package_follows_orphan:
  "package_follows lines \<Longrightarrow> orphan_package lines \<or> list_ex is_unknown_line lines"
  using line_kinds(7) by (induction lines) (auto split: if_splits)

lemma loop_result:
  "modules_txt_loop lines ml hp = Inr (ml', hp') \<Longrightarrow>
     ml' = ml @ module_texts lines \<and>
     {m. hp' m = Some True} =
       {m. hp m = Some True} \<union> set (modules_with_packages lines) \<union>
       (if package_follows lines then {last ml} else {})"
proof (induction lines arbitrary: ml hp)
  case Nil
  then show ?case by (simp add: module_texts_def)
next
  case (Cons l lines)
  from line_kinds(7)[of l] consider "is_package_line l" | "is_module_line l" | "is_marker_line l" | "is_unknown_line l"
    by blast
  then show ?case
  proof cases
    case 1
    with Cons.prems have ne: "ml \<noteq> []" and
      r: "modules_txt_loop lines ml (hp(last ml \<mapsto> True)) = Inr (ml', hp')"
      by (auto simp: loop_step split: if_splits)
    from Cons.IH[OF r] 1 line_kinds(1)[of l] show ?thesis
      by (auto simp: module_texts_def)
  next
    case 2
    with Cons.prems line_kinds(1)[of l] have
      r: "modules_txt_loop lines (ml @ [drop 2 l]) hp = Inr (ml', hp')"
      by (auto simp: loop_step split: if_splits)
    from Cons.IH[OF r] 2 line_kinds(1)[of l] show ?thesis
      by (auto simp: module_texts_def)
  next
    case 3
    with Cons.prems line_kinds(2,4)[of l] have
      r: "modules_txt_loop lines ml hp = Inr (ml', hp')"
      by (auto simp: loop_step split: if_splits)
    from Cons.IH[OF r] 3 line_kinds(2,4)[of l] show ?thesis
      by (auto simp: module_texts_def)
  next
    case 4
    with Cons.prems line_kinds(3,5,6)[of l] show ?thesis
      by (auto simp: loop_step split: if_splits)
  qed
qed

lemma modules_with_packages_subset:
  "set (modules_with_packages lines) \<subseteq> set (module_texts lines)"
  by (induction lines) (auto simp: module_texts_def)

lemma filter_modules_with_packages:
  "distinct (module_texts lines) \<Longrightarrow>
   filter (\<lambda>m. m \<in> set (modules_with_packages lines)) (module_texts lines) = modules_with_packages lines"
proof (induction lines)
  case Nil
  then show ?case by (simp add: module_texts_def)
next
  case (Cons l lines)
  show ?case
  proof (cases "is_module_line l")
    case False
    with Cons show ?thesis by (simp add: module_texts_def)
  next
    case True
    with Cons.prems have d: "distinct (module_texts lines)" and
      n: "drop 2 l \<notin> set (module_texts lines)" by (auto simp: module_texts_def)
    have mt: "module_texts (l # lines) = drop 2 l # module_texts lines"
      using True by (simp add: module_texts_def)
    have n': "drop 2 l \<notin> set (modules_with_packages lines)"
      using n modules_with_packages_subset by blast
    have "filter (\<lambda>m. m = drop 2 l \<or> m \<in> set (modules_with_packages lines)) (module_texts lines)
            = filter (\<lambda>m. m \<in> set (modules_with_packages lines)) (module_texts lines)"
      using n by (intro filter_cong) auto
    with Cons.IH[OF d] True n' show ?thesis by (simp add: mt)
  qed
qed

text \<open>
  Claim C9, as stated, fails on a module line whose text occurs twice: \<^verbatim>\<open>has_packages\<close> is keyed
  by the text, so the second \<^verbatim>\<open># a\<close>, which no package line follows, is returned as well.
\<close>

theorem modules_txt_repeated_line_counterexample:
  "module_lines_from_modules_txt [''# a'', ''x'', ''# a''] = Inr [''a'', ''a''] \<and>
   modules_with_packages [''# a'', ''x'', ''# a''] = [''a'']"
  by (simp add: module_lines_from_modules_txt_def modules_txt_loop.simps(2) startswith_def
      is_module_line_def is_package_line_def)

text \<open>
  Claim C9, amended. The parser fails, with \<^verbatim>\<open>UnexpectedFormat\<close>, if and only if a package line
  (one not starting with \<^verbatim>\<open>#\<close>) comes before any module line or some line starts with \<^verbatim>\<open>#\<close>
  but with neither \<^verbatim>\<open># \<close> nor \<^verbatim>\<open>##\<close>; marker lines are skipped. Otherwise it returns, in
  order and with the \<^verbatim>\<open># \<close> prefix stripped, every module line whose text is the text of a
  module line that a package line follows before the next module line; when the texts of
  the module lines are distinct, these are exactly the module lines with at least one
  package line associated.
\<close>

theorem modules_txt_parse:
  "(isl (module_lines_from_modules_txt lines) \<longleftrightarrow> malformed_modules_txt lines) \<and>
   (\<forall>e. module_lines_from_modules_txt lines = Inl e \<longrightarrow> (\<exists>m. e = UnexpectedFormat m)) \<and>
   (\<not> malformed_modules_txt lines \<longrightarrow>
      module_lines_from_modules_txt lines =
        Inr (filter (\<lambda>m. m \<in> set (modules_with_packages lines)) (module_texts lines))) \<and>
   (\<not> malformed_modules_txt lines \<and> distinct (module_texts lines) \<longrightarrow>
      module_lines_from_modules_txt lines = Inr (modules_with_packages lines))"
proof -
  have fails: "isl (module_lines_from_modules_txt lines) \<longleftrightarrow> malformed_modules_txt lines"
    using loop_fails_iff[of lines "[]" Map.empty]
    by (auto simp: module_lines_from_modules_txt_def malformed_modules_txt_scan split: sum.splits)
  have kind: "\<forall>e. module_lines_from_modules_txt lines = Inl e \<longrightarrow> (\<exists>m. e = UnexpectedFormat m)"
    using loop_error_kind[of lines "[]" Map.empty]
    by (auto simp: module_lines_from_modules_txt_def split: sum.splits)
  have ok: "module_lines_from_modules_txt lines =
        Inr (filter (\<lambda>m. m \<in> set (modules_with_packages lines)) (module_texts lines))"
    if nm: "\<not> malformed_modules_txt lines"
  proof -
    from nm fails obtain ml hp where r: "modules_txt_loop lines [] Map.empty = Inr (ml, hp)"
      by (auto simp: module_lines_from_modules_txt_def split: sum.splits)
    from nm malformed_modules_txt_scan package_follows_orphan have npf: "\<not> package_follows lines"
      by blast
    from loop_result[OF r] npf have "ml = module_texts lines"
      and "{m. hp m = Some True} = set (modules_with_packages lines)" by auto
    then have "filter (\<lambda>m. hp m = Some True) ml =
        filter (\<lambda>m. m \<in> set (modules_with_packages lines)) (module_texts lines)"
      by (intro filter_cong) auto
    with r show ?thesis by (simp add: module_lines_from_modules_txt_def)
  qed
  from fails kind ok filter_modules_with_packages show ?thesis by auto
qed

theorem modules_txt_parse_witness:
  "\<not> malformed_modules_txt
       [''# rsc.io/quote v1.5.2 => rsc.io/quote v1.5.1'', ''## explicit'', ''rsc.io/quote'',
        ''# rsc.io/sampler v1.3.0'', ''rsc.io/sampler'', ''# rsc.io/quote => rsc.io/quote v1.5.1''] \<and>
   distinct (module_texts
       [''# rsc.io/quote v1.5.2 => rsc.io/quote v1.5.1'', ''## explicit'', ''rsc.io/quote'',
        ''# rsc.io/sampler v1.3.0'', ''rsc.io/sampler'', ''# rsc.io/quote => rsc.io/quote v1.5.1'']) \<and>
   module_lines_from_modules_txt
       [''# rsc.io/quote v1.5.2 => rsc.io/quote v1.5.1'', ''## explicit'', ''rsc.io/quote'',
        ''# rsc.io/sampler v1.3.0'', ''rsc.io/sampler'', ''# rsc.io/quote => rsc.io/quote v1.5.1'']
     = Inr [''rsc.io/quote v1.5.2 => rsc.io/quote v1.5.1'', ''rsc.io/sampler v1.3.0''] \<and>
   malformed_modules_txt [''#invalid-line''] \<and>
   isl (module_lines_from_modules_txt [''#invalid-line''])"
proof -
  let ?L = "[''# rsc.io/quote v1.5.2 => rsc.io/quote v1.5.1'', ''## explicit'', ''rsc.io/quote'',
        ''# rsc.io/sampler v1.3.0'', ''rsc.io/sampler'', ''# rsc.io/quote => rsc.io/quote v1.5.1'']"
  have h: "\<not> malformed_modules_txt ?L \<and> distinct (module_texts ?L)"
    by (simp add: malformed_modules_txt_scan module_texts_def startswith_def
        is_module_line_def is_package_line_def is_unknown_line_def)
  have v: "modules_with_packages ?L =
      [''rsc.io/quote v1.5.2 => rsc.io/quote v1.5.1'', ''rsc.io/sampler v1.3.0'']"
    by (simp add: startswith_def is_module_line_def is_package_line_def)
  have m: "malformed_modules_txt [''#invalid-line'']"
    by (simp add: malformed_modules_txt_scan startswith_def
        is_module_line_def is_package_line_def is_unknown_line_def)
  from h modules_txt_parse [of ?L]
  have "module_lines_from_modules_txt ?L = Inr (modules_with_packages ?L)" by blast
  then have r: "module_lines_from_modules_txt ?L =
      Inr [''rsc.io/quote v1.5.2 => rsc.io/quote v1.5.1'', ''rsc.io/sampler v1.3.0'']"
    by (simp only: v)
  from m modules_txt_parse [of "[''#invalid-line'']"]
  have f: "isl (module_lines_from_modules_txt [''#invalid-line''])" by blast
  from h r m f show ?thesis by blast
qed

section \<open>Properties of the version oracle\<close>

text \<open>
  Claim C1. With \<open>T\<close> the commit time in UTC as \<^verbatim>\<open>YYYYMMDDHHMMSS\<close> and \<open>H\<close> the first twelve
  characters of the commit hash: without a pseudo-base tag the pseudo-version is
  \<^verbatim>\<open>v{declared_major or 0}.0.0-{T}-{H}\<close>; with a pseudo-base tag whose parsed version has a
  non-empty pre-release it is \<^verbatim>\<open>v{base}.0.{T}-{H}\<close>, the base unchanged; with a pseudo-base tag
  without pre-release the patch is bumped by one and it is \<^verbatim>\<open>v{base_bumped}-0.{T}-{H}\<close>.
\<close>

theorem pseudo_version_format:
  "(utcfromtimestamp (committed_date c) = Inr dt \<longrightarrow>
      get_golang_pseudo_version c None module_major_version subpath =
        Inr (''v'' @ str_nat (case module_major_version of None \<Rightarrow> 0 | Some n \<Rightarrow> n)
             @ ''.0.0-'' @ strftime_YmdHMS dt @ ''-'' @ take 12 (hexsha c))) \<and>
   (utcfromtimestamp (committed_date c) = Inr dt \<and>
    get_semantic_version_from_tag tag_name subpath = Inr base \<and>
    truthy_str (prerelease base) \<longrightarrow>
      get_golang_pseudo_version c (Some tag_name) module_major_version subpath =
        Inr (''v'' @ VersionInfo_str base
             @ ''.0.'' @ strftime_YmdHMS dt @ ''-'' @ take 12 (hexsha c))) \<and>
   (utcfromtimestamp (committed_date c) = Inr dt \<and>
    get_semantic_version_from_tag tag_name subpath = Inr base \<and>
    \<not> truthy_str (prerelease base) \<longrightarrow>
      get_golang_pseudo_version c (Some tag_name) module_major_version subpath =
        Inr (''v'' @ str_nat (major base) @ ''.'' @ str_nat (minor base) @ ''.''
             @ str_nat (patch base + 1)
             @ ''-0.'' @ strftime_YmdHMS dt @ ''-'' @ take 12 (hexsha c)))"
  by (auto simp: get_golang_pseudo_version_def VersionInfo_str_def bump_patch_def truthy_str_def
      str_nat.simps[of 0] split: option.splits)

lemma utcfromtimestamp_20191107202936:
  "utcfromtimestamp 1573158576 =
     Inr \<lparr>year = 2019, month = 11, day = 7, hour = 20, minute = 29, second = 36\<rparr>"
  unfolding utcfromtimestamp_def civil_from_days_def Let_def by simp

lemma utcfromtimestamp_20191107204050:
  "utcfromtimestamp 1573159250 =
     Inr \<lparr>year = 2019, month = 11, day = 7, hour = 20, minute = 40, second = 50\<rparr>"
  unfolding utcfromtimestamp_def civil_from_days_def Let_def by simp

lemma utcfromtimestamp_20191108212303:
  "utcfromtimestamp 1573248183 =
     Inr \<lparr>year = 2019, month = 11, day = 8, hour = 21, minute = 23, second = 3\<rparr>"
  unfolding utcfromtimestamp_def civil_from_days_def Let_def by simp

lemma semantic_version_v1_0_0:
  "get_semantic_version_from_tag ''v1.0.0'' None =
     Inr \<lparr>major = 1, minor = 0, patch = 0, prerelease = None, build = None\<rparr>"
  by (simp add: get_semantic_version_from_tag_def truthy_str_def VersionInfo_parse_def
      partition_at_def numeric_identifier_def is_digit_def int_of_digits_def digit_val_def)

lemma semantic_version_v2_2_0_alpha:
  "get_semantic_version_from_tag ''v2.2.0-alpha'' None =
     Inr \<lparr>major = 2, minor = 2, patch = 0, prerelease = Some ''alpha'', build = None\<rparr>"
  by (simp add: get_semantic_version_from_tag_def truthy_str_def VersionInfo_parse_def
      partition_at_def numeric_identifier_def prerelease_identifier_def is_alnum_hyphen_def
      is_digit_def int_of_digits_def digit_val_def)

theorem pseudo_version_format_witness:
  "utcfromtimestamp (committed_date
      \<lparr>hexsha = ''6c7249e8c989852f2a0ee0900378d55d8e1d7fe0'', committed_date = 1573248183\<rparr>)
     = Inr \<lparr>year = 2019, month = 11, day = 8, hour = 21, minute = 23, second = 3\<rparr> \<and>
   get_golang_pseudo_version
      \<lparr>hexsha = ''6c7249e8c989852f2a0ee0900378d55d8e1d7fe0'', committed_date = 1573248183\<rparr>
      None (Some 2) None = Inr ''v2.0.0-20191108212303-6c7249e8c989'' \<and>
   utcfromtimestamp (committed_date
      \<lparr>hexsha = ''863073fae6efd5e04bb972a05db0b0706ec8276e'', committed_date = 1573159250\<rparr>)
     = Inr \<lparr>year = 2019, month = 11, day = 7, hour = 20, minute = 40, second = 50\<rparr> \<and>
   get_semantic_version_from_tag ''v2.2.0-alpha'' None =
     Inr \<lparr>major = 2, minor = 2, patch = 0, prerelease = Some ''alpha'', build = None\<rparr> \<and>
   truthy_str (Some ''alpha'') \<and>
   get_golang_pseudo_version
      \<lparr>hexsha = ''863073fae6efd5e04bb972a05db0b0706ec8276e'', committed_date = 1573159250\<rparr>
      (Some ''v2.2.0-alpha'') (Some 2) None
     = Inr ''v2.2.0-alpha.0.20191107204050-863073fae6ef'' \<and>
   utcfromtimestamp (committed_date
      \<lparr>hexsha = ''e92462c73bbaa21540f7385e90cb08749091b66f'', committed_date = 1573158576\<rparr>)
     = Inr \<lparr>year = 2019, month = 11, day = 7, hour = 20, minute = 29, second = 36\<rparr> \<and>
   get_semantic_version_from_tag ''v1.0.0'' None =
     Inr \<lparr>major = 1, minor = 0, patch = 0, prerelease = None, build = None\<rparr> \<and>
   \<not> truthy_str None \<and>
   get_golang_pseudo_version
      \<lparr>hexsha = ''e92462c73bbaa21540f7385e90cb08749091b66f'', committed_date = 1573158576\<rparr>
      (Some ''v1.0.0'') (Some 1) None
     = Inr ''v1.0.1-0.20191107202936-e92462c73bba''"
proof -
  let ?c0 = "\<lparr>hexsha = ''6c7249e8c989852f2a0ee0900378d55d8e1d7fe0'', committed_date = 1573248183\<rparr>"
  let ?c1 = "\<lparr>hexsha = ''863073fae6efd5e04bb972a05db0b0706ec8276e'', committed_date = 1573159250\<rparr>"
  let ?c2 = "\<lparr>hexsha = ''e92462c73bbaa21540f7385e90cb08749091b66f'', committed_date = 1573158576\<rparr>"
  let ?d0 = "\<lparr>year = 2019, month = 11, day = 8, hour = 21, minute = 23, second = 3\<rparr>"
  let ?d1 = "\<lparr>year = 2019, month = 11, day = 7, hour = 20, minute = 40, second = 50\<rparr>"
  let ?d2 = "\<lparr>year = 2019, month = 11, day = 7, hour = 20, minute = 29, second = 36\<rparr>"
  let ?alpha = "\<lparr>major = 2, minor = 2, patch = 0, prerelease = Some ''alpha'', build = None\<rparr>"
  let ?one = "\<lparr>major = 1, minor = 0, patch = 0, prerelease = None, build = None\<rparr>"
  have t0: "utcfromtimestamp (committed_date ?c0) = Inr ?d0"
    by (simp add: utcfromtimestamp_20191108212303)
  have t1: "utcfromtimestamp (committed_date ?c1) = Inr ?d1"
    by (simp add: utcfromtimestamp_20191107204050)
  have t2: "utcfromtimestamp (committed_date ?c2) = Inr ?d2"
    by (simp add: utcfromtimestamp_20191107202936)
  have p1: "truthy_str (prerelease ?alpha)" and p1': "truthy_str (Some ''alpha'')"
    and p2: "\<not> truthy_str (prerelease ?one)" and p2': "\<not> truthy_str None"
    by (simp_all add: truthy_str_def)
  have "get_golang_pseudo_version ?c0 None (Some 2) None =
      Inr (''v'' @ str_nat (case Some 2 of None \<Rightarrow> 0 | Some n \<Rightarrow> n)
           @ ''.0.0-'' @ strftime_YmdHMS ?d0 @ ''-'' @ take 12 (hexsha ?c0))"
    using pseudo_version_format [of ?c0 ?d0 "Some 2" None] t0 by blast
  then have r0: "get_golang_pseudo_version ?c0 None (Some 2) None =
      Inr ''v2.0.0-20191108212303-6c7249e8c989''"
    by (simp add: strftime_YmdHMS_def pad2_def str_nat.simps)
  have "get_golang_pseudo_version ?c1 (Some ''v2.2.0-alpha'') (Some 2) None =
      Inr (''v'' @ VersionInfo_str ?alpha
           @ ''.0.'' @ strftime_YmdHMS ?d1 @ ''-'' @ take 12 (hexsha ?c1))"
    using pseudo_version_format [of ?c1 ?d1 "Some 2" None "''v2.2.0-alpha''" ?alpha]
      t1 semantic_version_v2_2_0_alpha p1 by blast
  then have r1: "get_golang_pseudo_version ?c1 (Some ''v2.2.0-alpha'') (Some 2) None =
      Inr ''v2.2.0-alpha.0.20191107204050-863073fae6ef''"
    by (simp add: VersionInfo_str_def truthy_str_def strftime_YmdHMS_def pad2_def str_nat.simps)
  have "get_golang_pseudo_version ?c2 (Some ''v1.0.0'') (Some 1) None =
      Inr (''v'' @ str_nat (major ?one) @ ''.'' @ str_nat (minor ?one) @ ''.''
           @ str_nat (patch ?one + 1)
           @ ''-0.'' @ strftime_YmdHMS ?d2 @ ''-'' @ take 12 (hexsha ?c2))"
    using pseudo_version_format [of ?c2 ?d2 "Some 1" None "''v1.0.0''" ?one]
      t2 semantic_version_v1_0_0 p2 by blast
  then have r2: "get_golang_pseudo_version ?c2 (Some ''v1.0.0'') (Some 1) None =
      Inr ''v1.0.1-0.20191107202936-e92462c73bba''"
    by (simp add: strftime_YmdHMS_def pad2_def str_nat.simps)
  from t0 r0 t1 semantic_version_v2_2_0_alpha p1' r1 t2 semantic_version_v1_0_0 p2' r2
  show ?thesis by blast
qed

lemma takeWhile_stop:
  "\<forall>x\<in>set xs. P x \<Longrightarrow> \<not> P y \<Longrightarrow> takeWhile P (xs @ y # ys) = xs"
  by (induction xs) auto

lemma match_major_version_suffix:
  assumes "p \<noteq> []" "CHR 0x0A \<notin> set p" "ds \<noteq> []" "list_all is_digit ds"
  shows "match_major_version (p @ ''/v'' @ ds) = Some (int_of_digits ds)"
proof -
  let ?s = "p @ ''/v'' @ ds"
  have nd: "\<not> is_digit (CHR 0x0A)" "\<not> is_digit (CHR ''v'')" by (simp_all add: is_digit_def)
  have "last ?s \<in> set ds" using assms(3) by simp
  then have l: "last ?s \<noteq> CHR 0x0A" using assms(4) nd(1) by (auto simp: list_all_iff)
  have tw: "takeWhile is_digit (rev ?s) = rev ds"
  proof -
    have "rev ?s = rev ds @ CHR ''v'' # CHR ''/'' # rev p" by simp
    moreover have "\<forall>x\<in>set (rev ds). is_digit x" using assms(4) by (simp add: list_all_iff)
    ultimately show ?thesis using nd(2) takeWhile_stop[of "rev ds" is_digit "CHR ''v''"]
      by simp
  qed
  have dg: "rev (takeWhile is_digit (rev ?s)) = ds" by (simp only: tw rev_rev_ident)
  have fr: "take (length ?s - length ds) ?s = p @ ''/v''" by simp
  have se: "(if ?s \<noteq> [] \<and> last ?s = CHR 0x0A then butlast ?s else ?s) = ?s"
    using l by simp
  have "match_major_version ?s =
      (if ds \<noteq> [] \<and> length (p @ ''/v'') \<ge> 3
          \<and> drop (length (p @ ''/v'') - 2) (p @ ''/v'') = ''/v''
          \<and> CHR 0x0A \<notin> set (p @ ''/v'')
       then Some (int_of_digits ds) else None)"
    by (simp only: match_major_version_def Let_def se dg fr)
  also have "\<dots> = Some (int_of_digits ds)"
    using assms(1,2,3) by (cases p) auto
  finally show ?thesis .
qed

lemma match_major_version_shape:
  assumes "match_major_version name = Some n"
  shows "\<exists>p ds. (name = p @ ''/v'' @ ds \<or> name = p @ ''/v'' @ ds @ [CHR 0x0A]) \<and>
           p \<noteq> [] \<and> CHR 0x0A \<notin> set p \<and> ds \<noteq> [] \<and> list_all is_digit ds \<and>
           n = int_of_digits ds"
proof -
  define s where "s = (if name \<noteq> [] \<and> last name = CHR 0x0A then butlast name else name)"
  define ds where "ds = rev (takeWhile is_digit (rev s))"
  define front where "front = take (length s - length ds) s"
  from assms have c: "ds \<noteq> []" "length front \<ge> 3" "drop (length front - 2) front = ''/v''"
    "CHR 0x0A \<notin> set front" "n = int_of_digits ds"
    unfolding match_major_version_def Let_def s_def[symmetric] ds_def[symmetric] front_def[symmetric]
    by (auto split: if_splits)
  have sname: "name = s \<or> name = s @ [CHR 0x0A]"
  proof (cases "name \<noteq> [] \<and> last name = CHR 0x0A")
    case True
    then have "butlast name @ [CHR 0x0A] = name" using append_butlast_last_id[of name] by simp
    with True show ?thesis unfolding s_def by simp
  next
    case False
    then show ?thesis unfolding s_def by auto
  qed
  have "rev s = takeWhile is_digit (rev s) @ dropWhile is_digit (rev s)" by simp
  then have "rev (rev s) = rev (takeWhile is_digit (rev s) @ dropWhile is_digit (rev s))"
    by simp
  then have "s = rev (dropWhile is_digit (rev s)) @ ds"
    unfolding ds_def by (simp only: rev_append rev_rev_ident)
  then obtain A where A: "s = A @ ds" ..
  have "take (length (A @ ds) - length ds) (A @ ds) = A" by simp
  then have "front = A" unfolding front_def A[symmetric] .
  with A have sf: "s = front @ ds" by simp
  have dig: "list_all is_digit ds"
    unfolding ds_def list_all_iff using set_takeWhileD by fastforce
  define p where "p = take (length front - 2) front"
  have fp: "front = p @ ''/v''"
    unfolding p_def using c(3) append_take_drop_id[of "length front - 2" front] by simp
  have pne: "p \<noteq> []" using c(2) unfolding p_def by auto
  have pnl: "CHR 0x0A \<notin> set p" using c(4) fp by auto
  from sname sf fp have "name = p @ ''/v'' @ ds \<or> name = p @ ''/v'' @ ds @ [CHR 0x0A]" by auto
  with pne pnl c(1,5) dig show ?thesis by blast
qed

lemma tag_on_commit_returned:
  assumes "update_tags \<longrightarrow> fetch_tags_ok r"
    and "commit_of r (case commit_sha of None \<Rightarrow> head_sha r | Some s \<Rightarrow> s) = Some c"
    and "major_versions_to_try (match_major_version name) = m # rest"
    and "get_highest_semver_tag r c m False subpath = Inr (Some t)"
  shows "get_golang_version name r commit_sha update_tags subpath = Inr (returned_tag_name subpath t)"
  using assms by (auto simp: get_golang_version_def returned_tag_name_def Let_def)

text \<open>
  Claim C2, as stated, fails for a module name that ends in \<^verbatim>\<open>/v1\<close>: the suffix is matched
  whatever the number, so 1 is taken as the declared major version and only major version 1
  is tried, where the claim has the candidates 1 then 0.
\<close>

theorem major_versions_v1_suffix_counterexample:
  "major_versions_to_try (match_major_version ''example.com/mod/v1'') = [1] \<and>
   spec_major_versions_to_try ''example.com/mod/v1'' = [1, 0]"
  by (simp add: major_versions_to_try_def spec_major_versions_to_try_def match_major_version_def
      is_digit_def int_of_digits_def digit_val_def)

text \<open>
  Claim C2, amended. A trailing \<^verbatim>\<open>/vN\<close> (decimal digits \<open>N\<close>, after at least one other character)
  is parsed as the declared major version \<open>N\<close>, and nothing else is. When the declared major
  version is not zero only \<open>N\<close> is tried; when there is none, or it is zero, the candidates are
  1 then 0 in that order, so that a \<^verbatim>\<open>v1\<close> tag on the commit is returned whatever \<^verbatim>\<open>v0\<close> tags
  are on it.
\<close>

theorem major_versions_tried:
  "(p \<noteq> [] \<and> CHR 0x0A \<notin> set p \<and> ds \<noteq> [] \<and> list_all is_digit ds \<longrightarrow>
      match_major_version (p @ ''/v'' @ ds) = Some (int_of_digits ds)) \<and>
   (match_major_version name = Some n \<longrightarrow>
      (\<exists>p ds. (name = p @ ''/v'' @ ds \<or> name = p @ ''/v'' @ ds @ [CHR 0x0A]) \<and>
           p \<noteq> [] \<and> CHR 0x0A \<notin> set p \<and> ds \<noteq> [] \<and> list_all is_digit ds \<and>
           n = int_of_digits ds)) \<and>
   major_versions_to_try (match_major_version name) =
     (case match_major_version name of
        Some n \<Rightarrow> if n = 0 then [1, 0] else [n]
      | None \<Rightarrow> [1, 0]) \<and>
   ((update_tags \<longrightarrow> fetch_tags_ok r) \<and>
    commit_of r (case commit_sha of None \<Rightarrow> head_sha r | Some s \<Rightarrow> s) = Some c \<and>
    major_versions_to_try (match_major_version name) = [1, 0] \<and>
    get_highest_semver_tag r c 1 False subpath = Inr (Some t) \<longrightarrow>
      get_golang_version name r commit_sha update_tags subpath =
        Inr (returned_tag_name subpath t))"
proof -
  have "major_versions_to_try (match_major_version name) =
     (case match_major_version name of
        Some n \<Rightarrow> if n = 0 then [1, 0] else [n]
      | None \<Rightarrow> [1, 0])"
    by (auto simp: major_versions_to_try_def split: option.splits)
  with match_major_version_suffix [of p ds] match_major_version_shape [where name = name and n = n]
    tag_on_commit_returned [where update_tags = update_tags and r = r and commit_sha = commit_sha
      and c = c and name = name and m = 1 and rest = "[0]" and subpath = subpath and t = t]
  show ?thesis by blast
qed

theorem major_versions_tried_witness:
  "match_major_version ''example.com/mod/v2'' = Some 2 \<and>
   major_versions_to_try (match_major_version ''example.com/mod/v2'') = [2] \<and>
   major_versions_to_try (match_major_version ''example.com/mod'') = [1, 0] \<and>
   get_highest_semver_tag
     \<lparr>head_sha = ''d1b74311a7bf'',
      commit_of = (\<lambda>s. Some \<lparr>hexsha = s, committed_date = 1573158576\<rparr>),
      fetch_tags_ok = True,
      tags_points_at = (\<lambda>s. Some [''v0.9.0'', ''v1.0.0'']),
      tags_merged = (\<lambda>s. Some [''v0.9.0'', ''v1.0.0''])\<rparr>
     \<lparr>hexsha = ''d1b74311a7bf'', committed_date = 1573158576\<rparr> 1 False None
     = Inr (Some ''v1.0.0'') \<and>
   get_golang_version ''example.com/mod''
     \<lparr>head_sha = ''d1b74311a7bf'',
      commit_of = (\<lambda>s. Some \<lparr>hexsha = s, committed_date = 1573158576\<rparr>),
      fetch_tags_ok = True,
      tags_points_at = (\<lambda>s. Some [''v0.9.0'', ''v1.0.0'']),
      tags_merged = (\<lambda>s. Some [''v0.9.0'', ''v1.0.0''])\<rparr>
     None True None = Inr ''v1.0.0''"
proof -
  let ?r = "\<lparr>head_sha = ''d1b74311a7bf'',
      commit_of = (\<lambda>s. Some \<lparr>hexsha = s, committed_date = 1573158576\<rparr>),
      fetch_tags_ok = True,
      tags_points_at = (\<lambda>s. Some [''v0.9.0'', ''v1.0.0'']),
      tags_merged = (\<lambda>s. Some [''v0.9.0'', ''v1.0.0''])\<rparr>"
  let ?c = "\<lparr>hexsha = ''d1b74311a7bf'', committed_date = 1573158576\<rparr>"
  have d: "''example.com/mod'' \<noteq> [] \<and> CHR 0x0A \<notin> set ''example.com/mod'' \<and>
      ''2'' \<noteq> [] \<and> list_all is_digit ''2''"
    by (simp add: is_digit_def)
  have "match_major_version (''example.com/mod'' @ ''/v'' @ ''2'') = Some (int_of_digits ''2'')"
    using major_versions_tried [of "''example.com/mod''" "''2''"] d by blast
  then have m2: "match_major_version ''example.com/mod/v2'' = Some 2"
    by (simp add: int_of_digits_def digit_val_def)
  have t2: "major_versions_to_try (match_major_version ''example.com/mod/v2'') = [2]"
    using major_versions_tried [where name = "''example.com/mod/v2''"] m2 by simp
  have m0: "match_major_version ''example.com/mod'' = None"
    by (simp add: match_major_version_def is_digit_def)
  have t0: "major_versions_to_try (match_major_version ''example.com/mod'') = [1, 0]"
    using major_versions_tried [where name = "''example.com/mod''"] m0 by simp
  have f: "True \<longrightarrow> fetch_tags_ok ?r" by simp
  have co: "commit_of ?r (case None of None \<Rightarrow> head_sha ?r | Some s \<Rightarrow> s) = Some ?c" by simp
  have h: "get_highest_semver_tag ?r ?c 1 False None = Inr (Some ''v1.0.0'')"
    by (simp add: get_highest_semver_tag_def truthy_str_def startswith_def
        get_semantic_version_from_tag_def VersionInfo_parse_def partition_at_def
        numeric_identifier_def is_digit_def int_of_digits_def digit_val_def)
  have "get_golang_version ''example.com/mod'' ?r None True None =
      Inr (returned_tag_name None ''v1.0.0'')"
    using major_versions_tried [where name = "''example.com/mod''" and r = ?r and c = ?c
        and update_tags = True and commit_sha = None and subpath = None and t = "''v1.0.0''"]
      f co t0 h by blast
  then have g: "get_golang_version ''example.com/mod'' ?r None True None = Inr ''v1.0.0''"
    by (simp add: returned_tag_name_def truthy_str_def)
  from m2 t2 t0 h g show ?thesis by blast
qed

section \<open>Errors of the resolver's stages\<close>

lemma map_sum_id_Inl [simp]: "(map_sum id f x = Inl e) = (x = Inl e)"
  by (cases x) auto

lemma map_sum_id_Inr [simp]: "(map_sum id f x = Inr y) = (\<exists>z. x = Inr z \<and> y = f z)"
  by (cases x) auto

lemma VersionInfo_parse_error: "VersionInfo_parse s = Inl e \<Longrightarrow> e = ValueError"
  by (auto simp: VersionInfo_parse_def split: prod.splits list.splits if_splits)

lemma get_semantic_version_from_tag_error:
  "get_semantic_version_from_tag t sp = Inl e \<Longrightarrow> e = ValueError"
  by (auto simp: get_semantic_version_from_tag_def Let_def dest: VersionInfo_parse_error)

lemma utcfromtimestamp_error: "utcfromtimestamp t = Inl e \<Longrightarrow> e = ValueError"
  by (auto simp: utcfromtimestamp_def split: if_splits prod.splits)

lemma get_golang_pseudo_version_error:
  "get_golang_pseudo_version c tag mmv sp = Inl e \<Longrightarrow> e = ValueError"
  by (auto simp: get_golang_pseudo_version_def Let_def split: sum.splits option.splits if_splits
      dest: utcfromtimestamp_error get_semantic_version_from_tag_error)

lemma get_highest_semver_tag_error:
  "get_highest_semver_tag r c m a sp = Inl e \<Longrightarrow> e = GitCommandError"
  by (auto simp: get_highest_semver_tag_def Let_def split: option.splits)

lemma tag_on_commit_loop_error: "tag_on_commit_loop r c sp ms = Inl e \<Longrightarrow> e = GitCommandError"
  by (induction ms) (auto split: sum.splits option.splits dest: get_highest_semver_tag_error)

lemma pseudo_base_loop_error:
  "pseudo_base_loop r c sp ms = Inl e \<Longrightarrow> e = GitCommandError \<or> e = ValueError"
  by (induction ms)
     (auto split: sum.splits option.splits
       dest: get_highest_semver_tag_error get_golang_pseudo_version_error)

lemma get_golang_version_error:
  "get_golang_version n r sha u sp = Inl e \<Longrightarrow>
     e = FetchError \<or> e = GitCommandError \<or> e = ValueError"
  by (auto simp: get_golang_version_def Let_def split: if_splits option.splits sum.splits
      dest: tag_on_commit_loop_error pseudo_base_loop_error get_golang_pseudo_version_error)

lemma get_golang_version_not_rejection [simp]:
  "get_golang_version n r sha u sp \<noteq> Inl (PackageRejected x)"
  using get_golang_version_error by blast

lemma load_list_deps_loop_not_rejection [simp]:
  "load_list_deps_loop objs pi \<noteq> Inl (PackageRejected x)"
  by (induction objs arbitrary: pi) (auto split: json.splits option.splits)

lemma get_dep_version_error: "get_dep_version i = Inl e \<Longrightarrow> e = AttributeError"
  by (auto simp: get_dep_version_def py_get_def Let_def split: if_splits sum.splits json.splits)

lemma assign_version_error: "assign_version i mv = Inl e \<Longrightarrow> e = AttributeError"
  by (auto simp: assign_version_def split: if_splits sum.splits dest: get_dep_version_error)

lemma pkg_deps_loop_not_rejection [simp]:
  "pkg_deps_loop pi mv ds p acc \<noteq> Inl (PackageRejected x)"
  by (induction ds arbitrary: p acc)
     (auto split: option.splits sum.splits dest: assign_version_error)

lemma deps_of_error: "deps_of i = Inl e \<Longrightarrow> e = TypeError"
  by (auto simp: deps_of_def split: option.splits json.splits)

lemma packages_loop_not_rejection [simp]:
  "packages_loop pi mv ns p acc \<noteq> Inl (PackageRejected x)"
  by (induction ns arbitrary: p acc)
     (auto split: option.splits sum.splits if_splits prod.splits dest: deps_of_error)

lemma vet_version_error:
  "vet_version v = Inl e \<Longrightarrow> e = AttributeError \<or> (\<exists>u. e = UnsupportedFeature u)"
  by (auto simp: vet_version_def split: if_splits json.splits)

lemma vet_local_deps_error:
  "vet_local_deps vs = Inl e \<Longrightarrow> e = AttributeError \<or> (\<exists>u. e = UnsupportedFeature u)"
  by (induction vs) (auto split: sum.splits dest: vet_version_error)

lemma vet_local_deps_not_rejection [simp]: "vet_local_deps vs \<noteq> Inl (PackageRejected x)"
  using vet_local_deps_error by blast

lemma relpaths_loop_not_rejection [simp]: "relpaths_loop ds ms \<noteq> Inl (PackageRejected x)"
  by (induction ds)
     (auto simp: path_to_subpackage_def split: sum.splits if_splits json.splits option.splits)

lemma vet_packages_loop_not_rejection [simp]:
  "vet_packages_loop ps ms \<noteq> Inl (PackageRejected x)"
  by (induction ps) (auto simp: set_full_local_dep_relpaths_def split: sum.splits)

section \<open>Properties of the replacement reconciliation\<close>

lemma list_of_length_5: "length xs = 5 \<Longrightarrow> \<exists>a b c d e. xs = [a, b, c, d, e]"
  by (auto simp: length_Suc_conv eval_nat_numeral)

lemma parse_module_line_used_iff:
  "snd (parse_module_line R l) = Some n \<longleftrightarrow>
     n \<in> R \<and> (\<exists>ov nn nv. split_on (CHR '' '') l = [n, ov, ''=>'', nn, nv])"
proof (cases "length (split_on (CHR '' '') l) = 5 \<and> split_on (CHR '' '') l ! 2 = ''=>''")
  case True
  then obtain a b c d e where s: "split_on (CHR '' '') l = [a, b, c, d, e]"
    using list_of_length_5 by blast
  with True have c: "c = ''=>''" by simp
  show ?thesis by (auto simp: parse_module_line_def Let_def s c)
next
  case False
  then show ?thesis by (auto simp: parse_module_line_def Let_def split: if_splits)
qed

lemma parse_module_line_replaces:
  "split_on (CHR '' '') l = [n, ov, ''=>'', nn, nv] \<Longrightarrow> n \<in> R \<Longrightarrow>
   fst (parse_module_line R l) =
     Some \<lparr>mod_name = nn, mod_replaces = Some (n, ov), mod_version = nv\<rparr>"
  by (simp add: parse_module_line_def Let_def)

lemma module_lines_loop_eq:
  "module_lines_loop R lines deps used =
     (deps @ List.map_filter (\<lambda>l. fst (parse_module_line R l)) lines,
      used \<union> {n. \<exists>l \<in> set lines. snd (parse_module_line R l) = Some n})"
proof (induction lines arbitrary: deps used)
  case Nil
  then show ?case by (simp add: List.map_filter_simps)
next
  case (Cons l lines)
  obtain d u where p: "parse_module_line R l = (d, u)" by (cases "parse_module_line R l")
  show ?case
    by (cases d; cases u) (auto simp: p Cons.IH List.map_filter_simps)
qed

lemma used_eq_honored:
  "snd (module_lines_loop R lines [] {}) = honored R lines"
  by (auto simp: module_lines_loop_eq honored_def parse_module_line_used_iff)

lemma honored_has_record:
  assumes "n \<in> honored R lines"
  shows "\<exists>d \<in> set (fst (module_lines_loop R lines [] {})). \<exists>ov. mod_replaces d = Some (n, ov)"
proof -
  from assms obtain l ov nn nv where l: "l \<in> set lines" "n \<in> R"
    "split_on (CHR '' '') l = [n, ov, ''=>'', nn, nv]"
    by (auto simp: honored_def)
  then have "fst (parse_module_line R l) =
      Some \<lparr>mod_name = nn, mod_replaces = Some (n, ov), mod_version = nv\<rparr>"
    using parse_module_line_replaces by blast
  with l(1) have "\<lparr>mod_name = nn, mod_replaces = Some (n, ov), mod_version = nv\<rparr>
      \<in> set (fst (module_lines_loop R lines [] {}))"
    by (force simp: module_lines_loop_eq List.map_filter_def)
  then show ?thesis by force
qed

lemma bind_Inl:
  "(case x of Inl e \<Rightarrow> Inl e | Inr v \<Rightarrow> f v) = Inl e' \<Longrightarrow>
     x = Inl e' \<or> (\<exists>v. x = Inr v \<and> f v = Inl e')"
  by (cases x) auto

lemma bind_Inr:
  "(case x of Inl e \<Rightarrow> Inl e | Inr v \<Rightarrow> f v) = Inr y \<Longrightarrow> \<exists>v. x = Inr v \<and> f v = Inr y"
  by (cases x) auto

lemma bind_InrE:
  assumes "(case x of Inl e \<Rightarrow> Inl e | Inr v \<Rightarrow> f v) = Inr y"
  obtains v where "x = Inr v" "f v = Inr y"
  using bind_Inr[OF assms] by blast

lemma bind_not_rejection:
  assumes "x \<noteq> Inl (PackageRejected rej)" "\<And>v. f v \<noteq> Inl (PackageRejected rej)"
  shows "(case x of Inl e \<Rightarrow> Inl e | Inr v \<Rightarrow> f v) \<noteq> Inl (PackageRejected rej)"
  using assms by (cases x) auto

lemma run_gomod_cmd_not_rejection [simp]: "run_gomod_cmd out \<noteq> Inl (PackageRejected x)"
  by (cases out) (auto simp: run_gomod_cmd_def)

lemma run_gomod_cmd_Inr [simp]: "(run_gomod_cmd out = Inr v) = (out = Some v)"
  by (cases out) (auto simp: run_gomod_cmd_def)

lemma resolve_after_listing_cases:
  assumes "module_lines_loop (set (map rep_name reps)) lines [] {} = (mds, used)"
  shows "resolve_after_listing env reps name lines r sp =
     (if set (map rep_name reps) - used \<noteq> {}
      then Inl (PackageRejected (ReplacementsDontApply (set (map rep_name reps) - used)))
      else
        (case get_golang_version name r None True sp of
           Inl e \<Rightarrow> Inl e
         | Inr module_version \<Rightarrow>
        (case (if bundle_dir_ok env then Inr () else Inl OSError) of
           Inl e \<Rightarrow> Inl e
         | Inr _ \<Rightarrow>
        (case run_gomod_cmd (go_list_find env) of
           Inl e \<Rightarrow> Inl e
         | Inr package_list \<Rightarrow>
        (case run_gomod_cmd (go_list_deps env) of
           Inl e \<Rightarrow> Inl e
         | Inr list_deps \<Rightarrow>
        (case load_list_deps list_deps of
           Inl e \<Rightarrow> Inl e
         | Inr package_info \<Rightarrow>
        (case packages_loop package_info module_version package_list {} [] of
           Inl e \<Rightarrow> Inl e
         | Inr packages \<Rightarrow>
        (case vet_local_deps (map (JStr \<circ> mod_version) mds) of
           Inl e \<Rightarrow> Inl e
         | Inr _ \<Rightarrow>
        (case vet_packages_loop packages mds of
           Inl e \<Rightarrow> Inl e
         | Inr packages' \<Rightarrow>
             Inr \<lparr>res_module = (name, module_version),
                  res_module_deps = mds,
                  res_packages = packages'\<rparr>)))))))))"
  unfolding resolve_after_listing_def Let_def assms prod.case ..

lemma resolve_after_listing_rejected:
  "set (map rep_name reps) - honored (set (map rep_name reps)) lines \<noteq> {} \<Longrightarrow>
   resolve_after_listing env reps name lines r sp =
     Inl (PackageRejected (ReplacementsDontApply
            (set (map rep_name reps) - honored (set (map rep_name reps)) lines)))"
proof -
  assume a: "set (map rep_name reps) - honored (set (map rep_name reps)) lines \<noteq> {}"
  obtain mds used where ml: "module_lines_loop (set (map rep_name reps)) lines [] {} = (mds, used)"
    by (cases "module_lines_loop (set (map rep_name reps)) lines [] {}")
  with used_eq_honored[of "set (map rep_name reps)" lines]
  have u: "used = honored (set (map rep_name reps)) lines" by simp
  show ?thesis unfolding resolve_after_listing_cases[OF ml] u using a by simp
qed

lemma resolve_after_listing_success:
  assumes "resolve_after_listing env reps name lines r sp = Inr res"
  shows "\<exists>mds mv pl ld pi pkgs pkgs'.
     fst (module_lines_loop (set (map rep_name reps)) lines [] {}) = mds \<and>
     set (map rep_name reps) - honored (set (map rep_name reps)) lines = {} \<and>
     get_golang_version name r None True sp = Inr mv \<and>
     bundle_dir_ok env \<and>
     go_list_find env = Some pl \<and>
     go_list_deps env = Some ld \<and>
     load_list_deps ld = Inr pi \<and>
     packages_loop pi mv pl {} [] = Inr pkgs \<and>
     vet_local_deps (map (JStr \<circ> mod_version) mds) = Inr () \<and>
     vet_packages_loop pkgs mds = Inr pkgs' \<and>
     res = \<lparr>res_module = (name, mv), res_module_deps = mds, res_packages = pkgs'\<rparr>"
proof -
  obtain mds used where ml: "module_lines_loop (set (map rep_name reps)) lines [] {} = (mds, used)"
    by (cases "module_lines_loop (set (map rep_name reps)) lines [] {}")
  with used_eq_honored[of "set (map rep_name reps)" lines]
  have u: "used = honored (set (map rep_name reps)) lines" by simp
  from ml have m: "fst (module_lines_loop (set (map rep_name reps)) lines [] {}) = mds" by simp
  note a = assms[unfolded resolve_after_listing_cases[OF ml]]
  from a have e: "set (map rep_name reps) - used = {}" by (simp split: if_splits)
  from a have a1: "(case get_golang_version name r None True sp of
           Inl e \<Rightarrow> Inl e
         | Inr module_version \<Rightarrow>
        (case (if bundle_dir_ok env then Inr () else Inl OSError) of
           Inl e \<Rightarrow> Inl e
         | Inr _ \<Rightarrow>
        (case run_gomod_cmd (go_list_find env) of
           Inl e \<Rightarrow> Inl e
         | Inr package_list \<Rightarrow>
        (case run_gomod_cmd (go_list_deps env) of
           Inl e \<Rightarrow> Inl e
         | Inr list_deps \<Rightarrow>
        (case load_list_deps list_deps of
           Inl e \<Rightarrow> Inl e
         | Inr package_info \<Rightarrow>
        (case packages_loop package_info module_version package_list {} [] of
           Inl e \<Rightarrow> Inl e
         | Inr packages \<Rightarrow>
        (case vet_local_deps (map (JStr \<circ> mod_version) mds) of
           Inl e \<Rightarrow> Inl e
         | Inr _ \<Rightarrow>
        (case vet_packages_loop packages mds of
           Inl e \<Rightarrow> Inl e
         | Inr packages' \<Rightarrow>
             Inr \<lparr>res_module = (name, module_version),
                  res_module_deps = mds,
                  res_packages = packages'\<rparr>)))))))) = Inr res"
    unfolding e by simp
  from a1 obtain mv b pl ld pi pkgs v pkgs' where
    "get_golang_version name r None True sp = Inr mv"
    "(if bundle_dir_ok env then Inr () else Inl OSError) = Inr b"
    "run_gomod_cmd (go_list_find env) = Inr pl"
    "run_gomod_cmd (go_list_deps env) = Inr ld"
    "load_list_deps ld = Inr pi"
    "packages_loop pi mv pl {} [] = Inr pkgs"
    "vet_local_deps (map (JStr \<circ> mod_version) mds) = Inr v"
    "vet_packages_loop pkgs mds = Inr pkgs'"
    "Inr \<lparr>res_module = (name, mv), res_module_deps = mds, res_packages = pkgs'\<rparr> = Inr res"
    by (elim bind_InrE) blast
  with m e u show ?thesis by (auto split: if_splits)
qed

lemma resolve_after_listing_not_rejected:
  assumes "set (map rep_name reps) - honored (set (map rep_name reps)) lines = {}"
  shows "resolve_after_listing env reps name lines r sp \<noteq> Inl (PackageRejected rej)"
proof -
  obtain mds used where ml: "module_lines_loop (set (map rep_name reps)) lines [] {} = (mds, used)"
    by (cases "module_lines_loop (set (map rep_name reps)) lines [] {}")
  with used_eq_honored[of "set (map rep_name reps)" lines]
  have u: "used = honored (set (map rep_name reps)) lines" by simp
  have b: "(if bundle_dir_ok env then Inr () else Inl OSError) \<noteq> Inl (PackageRejected rej)"
    by simp
  have l: "load_list_deps ld \<noteq> Inl (PackageRejected rej)" for ld
    by (simp add: load_list_deps_def)
  show ?thesis
    unfolding resolve_after_listing_cases[OF ml] u
    using assms b l by (simp add: bind_not_rejection)
qed

section \<open>The resolve and its two halves\<close>

lemma resolve_gomod_clean_failed:
  "\<not> go_clean_modcache_ok env \<Longrightarrow> resolve_gomod env flags strict reps r sp = Inl GoModError"
  by (simp add: resolve_gomod_def)

lemma resolve_gomod_listing_failed:
  "go_clean_modcache_ok env \<Longrightarrow> module_listing env flags strict reps = Inl e \<Longrightarrow>
   resolve_gomod env flags strict reps r sp = Inl e"
  by (simp add: resolve_gomod_def)

lemma resolve_gomod_listed:
  "go_clean_modcache_ok env \<Longrightarrow> module_listing env flags strict reps = Inr (name, lines) \<Longrightarrow>
   resolve_gomod env flags strict reps r sp = resolve_after_listing env reps name lines r sp"
  by (simp add: resolve_gomod_def)

lemma resolve_gomod_success:
  assumes "resolve_gomod env flags strict reps r sp = Inr res"
  shows "\<exists>name lines. go_clean_modcache_ok env \<and>
     module_listing env flags strict reps = Inr (name, lines) \<and>
     resolve_after_listing env reps name lines r sp = Inr res"
  using assms by (auto simp: resolve_gomod_def Let_def split: if_splits sum.splits)

section \<open>Replacements and the module listing\<close>

lemma honored_line_record:
  assumes "n \<in> honored R lines"
  shows "\<exists>l \<in> set lines. \<exists>ov nn nv.
     split_on (CHR '' '') l = [n, ov, ''=>'', nn, nv] \<and>
     \<lparr>mod_name = nn, mod_replaces = Some (n, ov), mod_version = nv\<rparr>
       \<in> set (fst (module_lines_loop R lines [] {}))"
proof -
  from assms obtain l ov nn nv where l: "l \<in> set lines" "n \<in> R"
    "split_on (CHR '' '') l = [n, ov, ''=>'', nn, nv]"
    by (auto simp: honored_def)
  then have "fst (parse_module_line R l) =
      Some \<lparr>mod_name = nn, mod_replaces = Some (n, ov), mod_version = nv\<rparr>"
    using parse_module_line_replaces by blast
  with l(1) have "\<lparr>mod_name = nn, mod_replaces = Some (n, ov), mod_version = nv\<rparr>
      \<in> set (fst (module_lines_loop R lines [] {}))"
    by (force simp: module_lines_loop_eq List.map_filter_def)
  with l show ?thesis by blast
qed

lemma parse_module_line_replaces_line:
  assumes "fst (parse_module_line R l) = Some d" "mod_replaces d = Some (n, ov)"
  shows "n \<in> R \<and> split_on (CHR '' '') l = [n, ov, ''=>'', mod_name d, mod_version d]"
proof (cases "length (split_on (CHR '' '') l) = 5 \<and> split_on (CHR '' '') l ! 2 = ''=>''")
  case True
  then obtain a b c x y where s: "split_on (CHR '' '') l = [a, b, c, x, y]"
    using list_of_length_5 by blast
  with True have c: "c = ''=>''" by simp
  from assms show ?thesis
    by (auto simp: parse_module_line_def Let_def s c split: if_splits)
next
  case False
  with assms show ?thesis
    by (auto simp: parse_module_line_def Let_def split: if_splits)
qed

lemma replaces_record_line:
  assumes "d \<in> set (fst (module_lines_loop R lines [] {}))" "mod_replaces d = Some (n, ov)"
  shows "n \<in> R \<and>
     (\<exists>l \<in> set lines. split_on (CHR '' '') l = [n, ov, ''=>'', mod_name d, mod_version d])"
proof -
  from assms(1) obtain l where "l \<in> set lines" "fst (parse_module_line R l) = Some d"
    by (auto simp: module_lines_loop_eq List.map_filter_def)
  with parse_module_line_replaces_line[OF _ assms(2)] show ?thesis by blast
qed

lemma honored_example_none: "honored {''pizza''} ['''', ''rsc.io/quote v1.5.2''] = {}"
  by (auto simp: honored_def)

lemma split_on_example_pizza:
  "split_on (CHR '' '') ''pizza v1.0.0 => pizza v1.0.1'' = [''pizza'', ''v1.0.0'', ''=>'', ''pizza'', ''v1.0.1'']"
  by simp

lemma honored_example_pizza: "honored {''pizza''} [''pizza v1.0.0 => pizza v1.0.1''] = {''pizza''}"
  unfolding honored_def using split_on_example_pizza by auto

lemma split_on_example_quote:
  "split_on (CHR '' '') ''rsc.io/quote v1.5.2 => rsc.io/quote v1.5.1''
     = [''rsc.io/quote'', ''v1.5.2'', ''=>'', ''rsc.io/quote'', ''v1.5.1'']"
  by simp

lemma module_lines_loop_example: "module_lines_loop {''rsc.io/quote''} ['''', ''rsc.io/quote v1.5.2 => rsc.io/quote v1.5.1''] [] {} =
   ([\<lparr>mod_name = ''rsc.io/quote'', mod_replaces = Some (''rsc.io/quote'', ''v1.5.2''), mod_version = ''v1.5.1''\<rparr>], {''rsc.io/quote''})"
  by (simp add: parse_module_line_def Let_def)

lemma get_golang_version_example: "get_golang_version ''example.com/mod''
     \<lparr>head_sha = ''d1b74311a7bf'',
      commit_of = (\<lambda>s. Some \<lparr>hexsha = s, committed_date = 1573158576\<rparr>),
      fetch_tags_ok = True,
      tags_points_at = (\<lambda>s. Some [''v1.0.0'']),
      tags_merged = (\<lambda>s. Some [''v1.0.0''])\<rparr> None True None = Inr ''v1.0.0''"
  by (simp add: get_golang_version_def match_major_version_def major_versions_to_try_def is_digit_def
        get_highest_semver_tag_def truthy_str_def startswith_def
        get_semantic_version_from_tag_def VersionInfo_parse_def partition_at_def
        numeric_identifier_def int_of_digits_def digit_val_def)

lemma module_listing_example_quote:
  "module_listing \<lparr>go_mod_edit_ok = (\<lambda>r. True), go_mod_vendor_ok = True, go_mod_download_ok = True,
      go_mod_tidy_ok = True, go_list_m = Some ''example.com/mod'',
      go_list_m_all = Some ['''', ''rsc.io/quote v1.5.2 => rsc.io/quote v1.5.1''],
      go_list_find = Some [],
      go_list_deps = Some [],
      go_clean_modcache_ok = True, vendor_dir = Absent, vendor_modules_txt = None,
      git_add_ok = True, modules_txt_diff = Some [], vendor_diff = Some [],
      git_reset_ok = True, bundle_dir_ok = True\<rparr> [] True [\<lparr>rep_name = ''rsc.io/quote'', rep_new_name = None, rep_version = ''v1.5.1''\<rparr>]
     = Inr (''example.com/mod'', ['''', ''rsc.io/quote v1.5.2 => rsc.io/quote v1.5.1''])"
  by (simp add: module_listing_def should_vendor_deps_def path_is_dir_def run_gomod_cmd_def)

lemma module_listing_example_pizza:
  "module_listing \<lparr>go_mod_edit_ok = (\<lambda>r. True), go_mod_vendor_ok = True, go_mod_download_ok = True,
      go_mod_tidy_ok = True, go_list_m = Some ''example.com/mod'',
      go_list_m_all = Some ['''', ''rsc.io/quote v1.5.2''],
      go_list_find = Some [],
      go_list_deps = Some [],
      go_clean_modcache_ok = True, vendor_dir = Absent, vendor_modules_txt = None,
      git_add_ok = True, modules_txt_diff = Some [], vendor_diff = Some [],
      git_reset_ok = True, bundle_dir_ok = True\<rparr> [] True [\<lparr>rep_name = ''pizza'', rep_new_name = None, rep_version = ''v1.0.0''\<rparr>]
     = Inr (''example.com/mod'', ['''', ''rsc.io/quote v1.5.2''])"
  by (simp add: module_listing_def should_vendor_deps_def path_is_dir_def run_gomod_cmd_def)

lemma resolve_gomod_example:
  "resolve_gomod \<lparr>go_mod_edit_ok = (\<lambda>r. True), go_mod_vendor_ok = True, go_mod_download_ok = True,
      go_mod_tidy_ok = True, go_list_m = Some ''example.com/mod'',
      go_list_m_all = Some ['''', ''rsc.io/quote v1.5.2 => rsc.io/quote v1.5.1''],
      go_list_find = Some [],
      go_list_deps = Some [],
      go_clean_modcache_ok = True, vendor_dir = Absent, vendor_modules_txt = None,
      git_add_ok = True, modules_txt_diff = Some [], vendor_diff = Some [],
      git_reset_ok = True, bundle_dir_ok = True\<rparr> [] True [\<lparr>rep_name = ''rsc.io/quote'', rep_new_name = None, rep_version = ''v1.5.1''\<rparr>]
     \<lparr>head_sha = ''d1b74311a7bf'',
      commit_of = (\<lambda>s. Some \<lparr>hexsha = s, committed_date = 1573158576\<rparr>),
      fetch_tags_ok = True,
      tags_points_at = (\<lambda>s. Some [''v1.0.0'']),
      tags_merged = (\<lambda>s. Some [''v1.0.0''])\<rparr> None
   = Inr \<lparr>res_module = (''example.com/mod'', ''v1.0.0''),
          res_module_deps = [\<lparr>mod_name = ''rsc.io/quote'',
             mod_replaces = Some (''rsc.io/quote'', ''v1.5.2''), mod_version = ''v1.5.1''\<rparr>],
          res_packages = []\<rparr>"
proof -
  have ml: "module_lines_loop (set (map rep_name [\<lparr>rep_name = ''rsc.io/quote'', rep_new_name = None, rep_version = ''v1.5.1''\<rparr>]))
      ['''', ''rsc.io/quote v1.5.2 => rsc.io/quote v1.5.1''] [] {} =
   ([\<lparr>mod_name = ''rsc.io/quote'', mod_replaces = Some (''rsc.io/quote'', ''v1.5.2''), mod_version = ''v1.5.1''\<rparr>], {''rsc.io/quote''})"
    using module_lines_loop_example by simp
  have c: "go_clean_modcache_ok \<lparr>go_mod_edit_ok = (\<lambda>r. True), go_mod_vendor_ok = True, go_mod_download_ok = True,
      go_mod_tidy_ok = True, go_list_m = Some ''example.com/mod'',
      go_list_m_all = Some ['''', ''rsc.io/quote v1.5.2 => rsc.io/quote v1.5.1''],
      go_list_find = Some [],
      go_list_deps = Some [],
      go_clean_modcache_ok = True, vendor_dir = Absent, vendor_modules_txt = None,
      git_add_ok = True, modules_txt_diff = Some [], vendor_diff = Some [],
      git_reset_ok = True, bundle_dir_ok = True\<rparr>" by simp
  show ?thesis
    unfolding resolve_gomod_listed[OF c module_listing_example_quote]
      resolve_after_listing_cases[OF ml] get_golang_version_example
    by (simp add: load_list_deps_def vet_version_def startswith_def PureWindowsPath_root_def
        backslash_def Let_def run_gomod_cmd_def)
qed

text \<open>
  Claim C3, as worded, fails: a resolve can raise \<^verbatim>\<open>PackageRejected\<close> although every requested
  replacement is honored by the module listing, and it can end without a \<^verbatim>\<open>PackageRejected\<close>
  although a requested replacement is not honored. In a repository with a vendor directory,
  strict vendoring and no vendoring flag, the resolve of a request that replaces \<^verbatim>\<open>pizza\<close> is
  rejected for the missing flag, whatever the module listing says about \<^verbatim>\<open>pizza\<close>; and when
  \<^verbatim>\<open>go mod tidy\<close> fails, the resolve ends with \<^verbatim>\<open>GoModError\<close>, whatever was requested.
\<close>

theorem replacements_earlier_failure_counterexample:
  "resolve_gomod \<lparr>go_mod_edit_ok = (\<lambda>r. True), go_mod_vendor_ok = True, go_mod_download_ok = True,
      go_mod_tidy_ok = True, go_list_m = Some ''pizza'',
      go_list_m_all = Some [''pizza v1.0.0 => pizza v1.0.1''],
      go_list_find = Some [],
      go_list_deps = Some [],
      go_clean_modcache_ok = True, vendor_dir = Directory, vendor_modules_txt = None,
      git_add_ok = True, modules_txt_diff = Some [], vendor_diff = Some [],
      git_reset_ok = True, bundle_dir_ok = True\<rparr> [] True [\<lparr>rep_name = ''pizza'', rep_new_name = None, rep_version = ''v1.0.0''\<rparr>]
     \<lparr>head_sha = ''d1b74311a7bf'',
      commit_of = (\<lambda>s. Some \<lparr>hexsha = s, committed_date = 1573158576\<rparr>),
      fetch_tags_ok = True,
      tags_points_at = (\<lambda>s. Some [''v1.0.0'']),
      tags_merged = (\<lambda>s. Some [''v1.0.0''])\<rparr> None
     = Inl (PackageRejected VendorFlagRequired) \<and>
   go_list_m_all \<lparr>go_mod_edit_ok = (\<lambda>r. True), go_mod_vendor_ok = True, go_mod_download_ok = True,
      go_mod_tidy_ok = True, go_list_m = Some ''pizza'',
      go_list_m_all = Some [''pizza v1.0.0 => pizza v1.0.1''],
      go_list_find = Some [],
      go_list_deps = Some [],
      go_clean_modcache_ok = True, vendor_dir = Directory, vendor_modules_txt = None,
      git_add_ok = True, modules_txt_diff = Some [], vendor_diff = Some [],
      git_reset_ok = True, bundle_dir_ok = True\<rparr> = Some [''pizza v1.0.0 => pizza v1.0.1''] \<and>
   set (map rep_name [\<lparr>rep_name = ''pizza'', rep_new_name = None, rep_version = ''v1.0.0''\<rparr>])
     - honored (set (map rep_name [\<lparr>rep_name = ''pizza'', rep_new_name = None, rep_version = ''v1.0.0''\<rparr>])) [''pizza v1.0.0 => pizza v1.0.1''] = {} \<and>
   resolve_gomod \<lparr>go_mod_edit_ok = (\<lambda>r. True), go_mod_vendor_ok = True, go_mod_download_ok = True,
      go_mod_tidy_ok = False, go_list_m = Some ''example.com/mod'',
      go_list_m_all = Some ['''', ''rsc.io/quote v1.5.2''],
      go_list_find = Some [],
      go_list_deps = Some [],
      go_clean_modcache_ok = True, vendor_dir = Absent, vendor_modules_txt = None,
      git_add_ok = True, modules_txt_diff = Some [], vendor_diff = Some [],
      git_reset_ok = True, bundle_dir_ok = True\<rparr> [] True [\<lparr>rep_name = ''pizza'', rep_new_name = None, rep_version = ''v1.0.0''\<rparr>]
     \<lparr>head_sha = ''d1b74311a7bf'',
      commit_of = (\<lambda>s. Some \<lparr>hexsha = s, committed_date = 1573158576\<rparr>),
      fetch_tags_ok = True,
      tags_points_at = (\<lambda>s. Some [''v1.0.0'']),
      tags_merged = (\<lambda>s. Some [''v1.0.0''])\<rparr> None
     = Inl GoModError \<and>
   go_list_m_all \<lparr>go_mod_edit_ok = (\<lambda>r. True), go_mod_vendor_ok = True, go_mod_download_ok = True,
      go_mod_tidy_ok = False, go_list_m = Some ''example.com/mod'',
      go_list_m_all = Some ['''', ''rsc.io/quote v1.5.2''],
      go_list_find = Some [],
      go_list_deps = Some [],
      go_clean_modcache_ok = True, vendor_dir = Absent, vendor_modules_txt = None,
      git_add_ok = True, modules_txt_diff = Some [], vendor_diff = Some [],
      git_reset_ok = True, bundle_dir_ok = True\<rparr> = Some ['''', ''rsc.io/quote v1.5.2''] \<and>
   set (map rep_name [\<lparr>rep_name = ''pizza'', rep_new_name = None, rep_version = ''v1.0.0''\<rparr>])
     - honored (set (map rep_name [\<lparr>rep_name = ''pizza'', rep_new_name = None, rep_version = ''v1.0.0''\<rparr>])) ['''', ''rsc.io/quote v1.5.2''] = {''pizza''}"
proof -
  have 1: "resolve_gomod \<lparr>go_mod_edit_ok = (\<lambda>r. True), go_mod_vendor_ok = True, go_mod_download_ok = True,
      go_mod_tidy_ok = True, go_list_m = Some ''pizza'',
      go_list_m_all = Some [''pizza v1.0.0 => pizza v1.0.1''],
      go_list_find = Some [],
      go_list_deps = Some [],
      go_clean_modcache_ok = True, vendor_dir = Directory, vendor_modules_txt = None,
      git_add_ok = True, modules_txt_diff = Some [], vendor_diff = Some [],
      git_reset_ok = True, bundle_dir_ok = True\<rparr> [] True [\<lparr>rep_name = ''pizza'', rep_new_name = None, rep_version = ''v1.0.0''\<rparr>]
     \<lparr>head_sha = ''d1b74311a7bf'',
      commit_of = (\<lambda>s. Some \<lparr>hexsha = s, committed_date = 1573158576\<rparr>),
      fetch_tags_ok = True,
      tags_points_at = (\<lambda>s. Some [''v1.0.0'']),
      tags_merged = (\<lambda>s. Some [''v1.0.0''])\<rparr> None
     = Inl (PackageRejected VendorFlagRequired)"
    by (simp add: resolve_gomod_def module_listing_def should_vendor_deps_def path_is_dir_def)
  have 2: "set (map rep_name [\<lparr>rep_name = ''pizza'', rep_new_name = None, rep_version = ''v1.0.0''\<rparr>])
     - honored (set (map rep_name [\<lparr>rep_name = ''pizza'', rep_new_name = None, rep_version = ''v1.0.0''\<rparr>])) [''pizza v1.0.0 => pizza v1.0.1''] = {}"
    using honored_example_pizza by simp
  have 3: "resolve_gomod \<lparr>go_mod_edit_ok = (\<lambda>r. True), go_mod_vendor_ok = True, go_mod_download_ok = True,
      go_mod_tidy_ok = False, go_list_m = Some ''example.com/mod'',
      go_list_m_all = Some ['''', ''rsc.io/quote v1.5.2''],
      go_list_find = Some [],
      go_list_deps = Some [],
      go_clean_modcache_ok = True, vendor_dir = Absent, vendor_modules_txt = None,
      git_add_ok = True, modules_txt_diff = Some [], vendor_diff = Some [],
      git_reset_ok = True, bundle_dir_ok = True\<rparr> [] True [\<lparr>rep_name = ''pizza'', rep_new_name = None, rep_version = ''v1.0.0''\<rparr>]
     \<lparr>head_sha = ''d1b74311a7bf'',
      commit_of = (\<lambda>s. Some \<lparr>hexsha = s, committed_date = 1573158576\<rparr>),
      fetch_tags_ok = True,
      tags_points_at = (\<lambda>s. Some [''v1.0.0'']),
      tags_merged = (\<lambda>s. Some [''v1.0.0''])\<rparr> None
     = Inl GoModError"
    by (simp add: resolve_gomod_def module_listing_def should_vendor_deps_def path_is_dir_def)
  have 4: "set (map rep_name [\<lparr>rep_name = ''pizza'', rep_new_name = None, rep_version = ''v1.0.0''\<rparr>])
     - honored (set (map rep_name [\<lparr>rep_name = ''pizza'', rep_new_name = None, rep_version = ''v1.0.0''\<rparr>])) ['''', ''rsc.io/quote v1.5.2''] = {''pizza''}"
    using honored_example_none by simp
  from 1 2 3 4 show ?thesis by simp
qed

text \<open>
  Claim C3, amended. Take a resolve whose stages before the parsing of the module lines
  succeed, so that it has the module lines, and whose clean-up of the module cache succeeds.
  With \<open>requested\<close> the names of the requested replacements and \<open>honored\<close> those of them
  that a module line \<^verbatim>\<open>OLDNAME OLDVER => NEWNAME NEWVER\<close> reports as replaced: the resolve raises
  \<^verbatim>\<open>PackageRejected\<close> if and only if \<open>requested - honored\<close> is not empty, and then on exactly
  that set. So every requested name is either honored or named by the rejection. A resolve
  that succeeds emits, for every requested name, the module record of such a line:
  the new name and new version, with a \<^verbatim>\<open>replaces\<close> sub-record of the old name and the old
  version of the line; and every \<^verbatim>\<open>replaces\<close> sub-record it emits is that of a requested name
  and of such a line.
\<close>

theorem replacements_reconciled:
  assumes "go_clean_modcache_ok env"
    and "module_listing env flags strict reps = Inr (name, lines)"
  shows
  "((\<exists>rej. resolve_gomod env flags strict reps r sp = Inl (PackageRejected rej)) \<longleftrightarrow>
      set (map rep_name reps) - honored (set (map rep_name reps)) lines \<noteq> {}) \<and>
   (resolve_gomod env flags strict reps r sp = Inl (PackageRejected rej) \<longrightarrow>
      rej = ReplacementsDontApply
              (set (map rep_name reps) - honored (set (map rep_name reps)) lines)) \<and>
   (\<forall>rep \<in> set reps.
      rep_name rep \<in> honored (set (map rep_name reps)) lines \<or>
      (rep_name rep \<in> set (map rep_name reps) - honored (set (map rep_name reps)) lines \<and>
       resolve_gomod env flags strict reps r sp =
         Inl (PackageRejected (ReplacementsDontApply
                (set (map rep_name reps) - honored (set (map rep_name reps)) lines))))) \<and>
   (resolve_gomod env flags strict reps r sp = Inr res \<longrightarrow>
      (\<forall>rep \<in> set reps. \<exists>l \<in> set lines. \<exists>ov nn nv.
          split_on (CHR '' '') l = [rep_name rep, ov, ''=>'', nn, nv] \<and>
          \<lparr>mod_name = nn, mod_replaces = Some (rep_name rep, ov), mod_version = nv\<rparr>
            \<in> set (res_module_deps res)) \<and>
      (\<forall>d \<in> set (res_module_deps res). \<forall>n ov. mod_replaces d = Some (n, ov) \<longrightarrow>
          n \<in> set (map rep_name reps) \<and>
          (\<exists>l \<in> set lines.
             split_on (CHR '' '') l = [n, ov, ''=>'', mod_name d, mod_version d])))"
proof -
  let ?R = "set (map rep_name reps)"
  let ?H = "honored ?R lines"
  let ?res = "resolve_gomod env flags strict reps r sp"
  note eq = resolve_gomod_listed[OF assms, of r sp]
  have rej: "?R - ?H \<noteq> {} \<Longrightarrow> ?res = Inl (PackageRejected (ReplacementsDontApply (?R - ?H)))"
    unfolding eq by (rule resolve_after_listing_rejected)
  have nrej: "?R - ?H = {} \<Longrightarrow> ?res \<noteq> Inl (PackageRejected x)" for x
    unfolding eq by (rule resolve_after_listing_not_rejected)
  have 1: "(\<exists>rej. ?res = Inl (PackageRejected rej)) \<longleftrightarrow> ?R - ?H \<noteq> {}"
    using rej nrej by (cases "?R - ?H = {}") auto
  have 2: "?res = Inl (PackageRejected rej) \<longrightarrow> rej = ReplacementsDontApply (?R - ?H)"
    using rej nrej by (cases "?R - ?H = {}") auto
  have 3: "rep_name rep \<in> ?H \<or>
      (rep_name rep \<in> ?R - ?H \<and>
       ?res = Inl (PackageRejected (ReplacementsDontApply (?R - ?H))))"
    if "rep \<in> set reps" for rep
  proof (cases "rep_name rep \<in> ?H")
    case True
    then show ?thesis by blast
  next
    case False
    with that have "rep_name rep \<in> ?R - ?H" by simp
    with rej show ?thesis by blast
  qed
  have 4: "(\<forall>rep \<in> set reps. \<exists>l \<in> set lines. \<exists>ov nn nv.
          split_on (CHR '' '') l = [rep_name rep, ov, ''=>'', nn, nv] \<and>
          \<lparr>mod_name = nn, mod_replaces = Some (rep_name rep, ov), mod_version = nv\<rparr>
            \<in> set (res_module_deps res)) \<and>
      (\<forall>d \<in> set (res_module_deps res). \<forall>n ov. mod_replaces d = Some (n, ov) \<longrightarrow>
          n \<in> ?R \<and>
          (\<exists>l \<in> set lines.
             split_on (CHR '' '') l = [n, ov, ''=>'', mod_name d, mod_version d]))"
    if s: "?res = Inr res"
  proof -
    from s eq have "resolve_after_listing env reps name lines r sp = Inr res" by simp
    from resolve_after_listing_success[OF this] have e: "?R - ?H = {}"
      and d: "res_module_deps res = fst (module_lines_loop ?R lines [] {})" by auto
    have a: "\<exists>l \<in> set lines. \<exists>ov nn nv.
          split_on (CHR '' '') l = [rep_name rep, ov, ''=>'', nn, nv] \<and>
          \<lparr>mod_name = nn, mod_replaces = Some (rep_name rep, ov), mod_version = nv\<rparr>
            \<in> set (res_module_deps res)" if m: "rep \<in> set reps" for rep
    proof -
      from m e have "rep_name rep \<in> ?H" by auto
      from honored_line_record[OF this] show ?thesis unfolding d .
    qed
    have b: "n \<in> ?R \<and>
          (\<exists>l \<in> set lines.
             split_on (CHR '' '') l = [n, ov, ''=>'', mod_name d, mod_version d])"
      if "d \<in> set (res_module_deps res)" "mod_replaces d = Some (n, ov)" for d n ov
      using replaces_record_line[of d ?R lines n ov] that d by simp
    from a b show ?thesis by blast
  qed
  from 1 2 3 4 show ?thesis by blast
qed

theorem replacements_reconciled_witness:
  "go_clean_modcache_ok \<lparr>go_mod_edit_ok = (\<lambda>r. True), go_mod_vendor_ok = True, go_mod_download_ok = True,
      go_mod_tidy_ok = True, go_list_m = Some ''example.com/mod'',
      go_list_m_all = Some ['''', ''rsc.io/quote v1.5.2''],
      go_list_find = Some [],
      go_list_deps = Some [],
      go_clean_modcache_ok = True, vendor_dir = Absent, vendor_modules_txt = None,
      git_add_ok = True, modules_txt_diff = Some [], vendor_diff = Some [],
      git_reset_ok = True, bundle_dir_ok = True\<rparr> \<and>
   module_listing \<lparr>go_mod_edit_ok = (\<lambda>r. True), go_mod_vendor_ok = True, go_mod_download_ok = True,
      go_mod_tidy_ok = True, go_list_m = Some ''example.com/mod'',
      go_list_m_all = Some ['''', ''rsc.io/quote v1.5.2''],
      go_list_find = Some [],
      go_list_deps = Some [],
      go_clean_modcache_ok = True, vendor_dir = Absent, vendor_modules_txt = None,
      git_add_ok = True, modules_txt_diff = Some [], vendor_diff = Some [],
      git_reset_ok = True, bundle_dir_ok = True\<rparr> [] True [\<lparr>rep_name = ''pizza'', rep_new_name = None, rep_version = ''v1.0.0''\<rparr>]
     = Inr (''example.com/mod'', ['''', ''rsc.io/quote v1.5.2'']) \<and>
   resolve_gomod \<lparr>go_mod_edit_ok = (\<lambda>r. True), go_mod_vendor_ok = True, go_mod_download_ok = True,
      go_mod_tidy_ok = True, go_list_m = Some ''example.com/mod'',
      go_list_m_all = Some ['''', ''rsc.io/quote v1.5.2''],
      go_list_find = Some [],
      go_list_deps = Some [],
      go_clean_modcache_ok = True, vendor_dir = Absent, vendor_modules_txt = None,
      git_add_ok = True, modules_txt_diff = Some [], vendor_diff = Some [],
      git_reset_ok = True, bundle_dir_ok = True\<rparr> [] True [\<lparr>rep_name = ''pizza'', rep_new_name = None, rep_version = ''v1.0.0''\<rparr>]
     \<lparr>head_sha = ''d1b74311a7bf'',
      commit_of = (\<lambda>s. Some \<lparr>hexsha = s, committed_date = 1573158576\<rparr>),
      fetch_tags_ok = True,
      tags_points_at = (\<lambda>s. Some [''v1.0.0'']),
      tags_merged = (\<lambda>s. Some [''v1.0.0''])\<rparr> None
     = Inl (PackageRejected (ReplacementsDontApply {''pizza''})) \<and>
   go_clean_modcache_ok \<lparr>go_mod_edit_ok = (\<lambda>r. True), go_mod_vendor_ok = True, go_mod_download_ok = True,
      go_mod_tidy_ok = True, go_list_m = Some ''example.com/mod'',
      go_list_m_all = Some ['''', ''rsc.io/quote v1.5.2 => rsc.io/quote v1.5.1''],
      go_list_find = Some [],
      go_list_deps = Some [],
      go_clean_modcache_ok = True, vendor_dir = Absent, vendor_modules_txt = None,
      git_add_ok = True, modules_txt_diff = Some [], vendor_diff = Some [],
      git_reset_ok = True, bundle_dir_ok = True\<rparr> \<and>
   module_listing \<lparr>go_mod_edit_ok = (\<lambda>r. True), go_mod_vendor_ok = True, go_mod_download_ok = True,
      go_mod_tidy_ok = True, go_list_m = Some ''example.com/mod'',
      go_list_m_all = Some ['''', ''rsc.io/quote v1.5.2 => rsc.io/quote v1.5.1''],
      go_list_find = Some [],
      go_list_deps = Some [],
      go_clean_modcache_ok = True, vendor_dir = Absent, vendor_modules_txt = None,
      git_add_ok = True, modules_txt_diff = Some [], vendor_diff = Some [],
      git_reset_ok = True, bundle_dir_ok = True\<rparr> [] True [\<lparr>rep_name = ''rsc.io/quote'', rep_new_name = None, rep_version = ''v1.5.1''\<rparr>]
     = Inr (''example.com/mod'', ['''', ''rsc.io/quote v1.5.2 => rsc.io/quote v1.5.1'']) \<and>
   resolve_gomod \<lparr>go_mod_edit_ok = (\<lambda>r. True), go_mod_vendor_ok = True, go_mod_download_ok = True,
      go_mod_tidy_ok = True, go_list_m = Some ''example.com/mod'',
      go_list_m_all = Some ['''', ''rsc.io/quote v1.5.2 => rsc.io/quote v1.5.1''],
      go_list_find = Some [],
      go_list_deps = Some [],
      go_clean_modcache_ok = True, vendor_dir = Absent, vendor_modules_txt = None,
      git_add_ok = True, modules_txt_diff = Some [], vendor_diff = Some [],
      git_reset_ok = True, bundle_dir_ok = True\<rparr> [] True [\<lparr>rep_name = ''rsc.io/quote'', rep_new_name = None, rep_version = ''v1.5.1''\<rparr>]
     \<lparr>head_sha = ''d1b74311a7bf'',
      commit_of = (\<lambda>s. Some \<lparr>hexsha = s, committed_date = 1573158576\<rparr>),
      fetch_tags_ok = True,
      tags_points_at = (\<lambda>s. Some [''v1.0.0'']),
      tags_merged = (\<lambda>s. Some [''v1.0.0''])\<rparr> None
     = Inr \<lparr>res_module = (''example.com/mod'', ''v1.0.0''),
          res_module_deps = [\<lparr>mod_name = ''rsc.io/quote'',
             mod_replaces = Some (''rsc.io/quote'', ''v1.5.2''), mod_version = ''v1.5.1''\<rparr>],
          res_packages = []\<rparr> \<and>
   (\<exists>l \<in> set ['''', ''rsc.io/quote v1.5.2 => rsc.io/quote v1.5.1'']. \<exists>ov nn nv.
      split_on (CHR '' '') l = [''rsc.io/quote'', ov, ''=>'', nn, nv] \<and>
      \<lparr>mod_name = nn, mod_replaces = Some (''rsc.io/quote'', ov), mod_version = nv\<rparr>
        \<in> set (res_module_deps \<lparr>res_module = (''example.com/mod'', ''v1.0.0''),
          res_module_deps = [\<lparr>mod_name = ''rsc.io/quote'',
             mod_replaces = Some (''rsc.io/quote'', ''v1.5.2''), mod_version = ''v1.5.1''\<rparr>],
          res_packages = []\<rparr>))"
proof -
  let ?r = "\<lparr>head_sha = ''d1b74311a7bf'',
      commit_of = (\<lambda>s. Some \<lparr>hexsha = s, committed_date = 1573158576\<rparr>),
      fetch_tags_ok = True,
      tags_points_at = (\<lambda>s. Some [''v1.0.0'']),
      tags_merged = (\<lambda>s. Some [''v1.0.0''])\<rparr>"
  let ?envp = "\<lparr>go_mod_edit_ok = (\<lambda>r. True), go_mod_vendor_ok = True, go_mod_download_ok = True,
      go_mod_tidy_ok = True, go_list_m = Some ''example.com/mod'',
      go_list_m_all = Some ['''', ''rsc.io/quote v1.5.2''],
      go_list_find = Some [],
      go_list_deps = Some [],
      go_clean_modcache_ok = True, vendor_dir = Absent, vendor_modules_txt = None,
      git_add_ok = True, modules_txt_diff = Some [], vendor_diff = Some [],
      git_reset_ok = True, bundle_dir_ok = True\<rparr>"
  let ?envq = "\<lparr>go_mod_edit_ok = (\<lambda>r. True), go_mod_vendor_ok = True, go_mod_download_ok = True,
      go_mod_tidy_ok = True, go_list_m = Some ''example.com/mod'',
      go_list_m_all = Some ['''', ''rsc.io/quote v1.5.2 => rsc.io/quote v1.5.1''],
      go_list_find = Some [],
      go_list_deps = Some [],
      go_clean_modcache_ok = True, vendor_dir = Absent, vendor_modules_txt = None,
      git_add_ok = True, modules_txt_diff = Some [], vendor_diff = Some [],
      git_reset_ok = True, bundle_dir_ok = True\<rparr>"
  let ?pizza = "[\<lparr>rep_name = ''pizza'', rep_new_name = None, rep_version = ''v1.0.0''\<rparr>]"
  let ?quote = "[\<lparr>rep_name = ''rsc.io/quote'', rep_new_name = None, rep_version = ''v1.5.1''\<rparr>]"
  let ?res = "\<lparr>res_module = (''example.com/mod'', ''v1.0.0''),
          res_module_deps = [\<lparr>mod_name = ''rsc.io/quote'',
             mod_replaces = Some (''rsc.io/quote'', ''v1.5.2''), mod_version = ''v1.5.1''\<rparr>],
          res_packages = []\<rparr>"
  let ?lp = "['''', ''rsc.io/quote v1.5.2'']"
  let ?lq = "['''', ''rsc.io/quote v1.5.2 => rsc.io/quote v1.5.1'']"
  have cp: "go_clean_modcache_ok ?envp" by simp
  have cq: "go_clean_modcache_ok ?envq" by simp
  have d: "set (map rep_name ?pizza) - honored (set (map rep_name ?pizza)) ?lp = {''pizza''}"
    using honored_example_none by simp
  then have ne: "set (map rep_name ?pizza) - honored (set (map rep_name ?pizza)) ?lp \<noteq> {}"
    by simp
  from replacements_reconciled[OF cp module_listing_example_pizza, of ?r None] ne
  obtain rej where
    r: "resolve_gomod ?envp [] True ?pizza ?r None = Inl (PackageRejected rej)" by blast
  with replacements_reconciled[OF cp module_listing_example_pizza, of ?r None rej]
  have "rej = ReplacementsDontApply (set (map rep_name ?pizza)
      - honored (set (map rep_name ?pizza)) ?lp)" by blast
  with d r have w1: "resolve_gomod ?envp [] True ?pizza ?r None
          = Inl (PackageRejected (ReplacementsDontApply {''pizza''}))" by simp
  from replacements_reconciled[OF cq module_listing_example_quote, of ?r None _ ?res]
    resolve_gomod_example
  have "\<forall>rep \<in> set ?quote. \<exists>l \<in> set ?lq. \<exists>ov nn nv.
          split_on (CHR '' '') l = [rep_name rep, ov, ''=>'', nn, nv] \<and>
          \<lparr>mod_name = nn, mod_replaces = Some (rep_name rep, ov), mod_version = nv\<rparr>
            \<in> set (res_module_deps ?res)" by blast
  then have w3: "\<exists>l \<in> set ?lq. \<exists>ov nn nv.
      split_on (CHR '' '') l = [''rsc.io/quote'', ov, ''=>'', nn, nv] \<and>
      \<lparr>mod_name = nn, mod_replaces = Some (''rsc.io/quote'', ov), mod_version = nv\<rparr>
        \<in> set (res_module_deps ?res)"
    by simp
  from cp module_listing_example_pizza w1 cq module_listing_example_quote resolve_gomod_example w3
  show ?thesis by blast
qed

section \<open>The package graph\<close>

lemma dict_get_Nil [simp]: "dict_get [] k = JNull"
  by (simp add: dict_get_def)

lemma assign_standard:
  "map_of dep_info ''Standard'' \<noteq> None \<Longrightarrow> assign_version dep_info mv = Inr JNull"
  by (simp add: assign_version_def)

lemma assign_no_module:
  "map_of dep_info ''Standard'' = None \<Longrightarrow> \<not> truthy (dict_get dep_info ''Module'') \<Longrightarrow>
   assign_version dep_info mv = Inr (JStr mv)"
  by (simp add: assign_version_def get_dep_version_def py_or_def)

lemma assign_replace:
  "map_of dep_info ''Standard'' = None \<Longrightarrow> dict_get dep_info ''Module'' = JObj m \<Longrightarrow> m \<noteq> [] \<Longrightarrow>
   dict_get m ''Replace'' = JObj rp \<Longrightarrow> rp \<noteq> [] \<Longrightarrow>
   assign_version dep_info mv =
     Inr (py_or (py_or (dict_get rp ''Version'') (dict_get rp ''Path'')) (JStr mv))"
  by (simp add: assign_version_def get_dep_version_def py_get_def py_or_def)

lemma assign_no_replace:
  "map_of dep_info ''Standard'' = None \<Longrightarrow> dict_get dep_info ''Module'' = JObj m \<Longrightarrow> m \<noteq> [] \<Longrightarrow>
   \<not> truthy (dict_get m ''Replace'') \<Longrightarrow>
   assign_version dep_info mv = Inr (py_or (dict_get m ''Version'') (JStr mv))"
  by (simp add: assign_version_def get_dep_version_def py_get_def py_or_def)

lemma assign_spec:
  assumes "truthy (dict_get dep_info ''Module'') \<longrightarrow>
             (\<exists>m. dict_get dep_info ''Module'' = JObj m \<and>
                (truthy (dict_get m ''Replace'') \<longrightarrow>
                   (\<exists>rp. dict_get m ''Replace'' = JObj rp \<and>
                      (truthy (dict_get rp ''Version'') \<or> truthy (dict_get rp ''Path'')))))"
  shows "assign_version dep_info mv = Inr (spec_dep_version dep_info mv)"
proof (cases "map_of dep_info ''Standard'' \<noteq> None")
  case True
  then show ?thesis by (simp add: assign_version_def spec_dep_version_def)
next
  case ns: False
  show ?thesis
  proof (cases "truthy (dict_get dep_info ''Module'')")
    case False
    with ns show ?thesis
      by (cases "dict_get dep_info ''Module''")
         (auto simp: assign_version_def get_dep_version_def spec_dep_version_def py_or_def Let_def dict_get_def)
  next
    case True
    with assms obtain m where m: "dict_get dep_info ''Module'' = JObj m"
      and r: "truthy (dict_get m ''Replace'') \<longrightarrow>
                   (\<exists>rp. dict_get m ''Replace'' = JObj rp \<and>
                      (truthy (dict_get rp ''Version'') \<or> truthy (dict_get rp ''Path'')))" by blast
    from True m have mne: "m \<noteq> []" by simp
    show ?thesis
    proof (cases "truthy (dict_get m ''Replace'')")
      case False
      with ns m mne show ?thesis
        by (cases "dict_get m ''Replace''")
           (auto simp: assign_version_def get_dep_version_def spec_dep_version_def py_or_def py_get_def Let_def)
    next
      case True
      with r obtain rp where rp: "dict_get m ''Replace'' = JObj rp"
        "truthy (dict_get rp ''Version'') \<or> truthy (dict_get rp ''Path'')" by blast
      with True ns m mne show ?thesis
        by (auto simp: assign_version_def get_dep_version_def spec_dep_version_def py_or_def py_get_def Let_def)
    qed
  qed
qed

lemma pkg_deps_loop_out:
  "pkg_deps_loop pi mv ds P acc = Inr (out, P') \<Longrightarrow>
     P' = P \<union> set ds \<and>
     (\<exists>new. out = acc @ new \<and> map dep_name new = ds \<and>
        (\<forall>d \<in> set new. \<exists>info. pi (dep_name d) = Some info \<and>
            assign_version info mv = Inr (dep_version d)))"
proof (induction ds arbitrary: P acc)
  case Nil
  then show ?case by simp
next
  case (Cons n ds)
  from Cons.prems obtain info v where i: "pi n = Some info" and v: "assign_version info mv = Inr v"
    and r: "pkg_deps_loop pi mv ds (insert n P) (acc @ [\<lparr>dep_name = n, dep_version = v\<rparr>]) = Inr (out, P')"
    by (auto split: option.splits sum.splits)
  from Cons.IH[OF r] obtain new where P: "P' = insert n P \<union> set ds"
    and n: "out = (acc @ [\<lparr>dep_name = n, dep_version = v\<rparr>]) @ new" "map dep_name new = ds"
      "\<forall>d \<in> set new. \<exists>info. pi (dep_name d) = Some info \<and> assign_version info mv = Inr (dep_version d)"
    by blast
  let ?new = "\<lparr>dep_name = n, dep_version = v\<rparr> # new"
  from n i v have "out = acc @ ?new \<and> map dep_name ?new = n # ds \<and>
      (\<forall>d \<in> set ?new. \<exists>info. pi (dep_name d) = Some info \<and> assign_version info mv = Inr (dep_version d))"
    by simp
  then have "\<exists>new. out = acc @ new \<and> map dep_name new = n # ds \<and>
      (\<forall>d \<in> set new. \<exists>info. pi (dep_name d) = Some info \<and> assign_version info mv = Inr (dep_version d))"
    by (rule exI)
  moreover from P have "P' = P \<union> set (n # ds)" by auto
  ultimately show ?case by simp
qed

lemma packages_loop_out:
  "packages_loop pi mv ns P acc = Inr out \<Longrightarrow>
     \<exists>new. out = acc @ new \<and>
        map pkg_name new = enumerate_packages (listed_deps pi) ns P \<and>
        (\<forall>p \<in> set new. map dep_name (pkg_deps p) = listed_deps pi (pkg_name p) \<and>
            pkg_version p = mv) \<and>
        no_earlier_dep P new"
proof (induction ns arbitrary: P acc)
  case Nil
  then show ?case by simp
next
  case (Cons n ns)
  show ?case
  proof (cases "n \<in> P")
    case True
    with Cons.prems have "packages_loop pi mv ns P acc = Inr out" by simp
    from Cons.IH[OF this] True show ?thesis by simp
  next
    case False
    with Cons.prems obtain info ds deps P' where i: "pi n = Some info" and d: "deps_of info = Inr ds"
      and l: "pkg_deps_loop pi mv ds P [] = Inr (deps, P')"
      and r: "packages_loop pi mv ns P'
               (acc @ [\<lparr>pkg_name = n, pkg_version = mv, pkg_deps = deps\<rparr>]) = Inr out"
      by (auto split: option.splits sum.splits prod.splits)
    from pkg_deps_loop_out[OF l] have P': "P' = P \<union> set ds" and dn: "map dep_name deps = ds"
      by auto
    from i d have ld: "listed_deps pi n = ds" by (simp add: listed_deps_def)
    from dn have ds: "dep_name ` set deps = set ds" by (metis list.set_map)
    let ?p = "\<lparr>pkg_name = n, pkg_version = mv, pkg_deps = deps\<rparr>"
    from Cons.IH[OF r] obtain new where
      n: "out = (acc @ [?p]) @ new"
        "map pkg_name new = enumerate_packages (listed_deps pi) ns P'"
        "\<forall>p \<in> set new. map dep_name (pkg_deps p) = listed_deps pi (pkg_name p) \<and> pkg_version p = mv"
        "no_earlier_dep P' new" by blast
    have "out = acc @ (?p # new) \<and>
        map pkg_name (?p # new) = enumerate_packages (listed_deps pi) (n # ns) P \<and>
        (\<forall>p \<in> set (?p # new). map dep_name (pkg_deps p) = listed_deps pi (pkg_name p) \<and>
            pkg_version p = mv) \<and>
        no_earlier_dep P (?p # new)"
      using n False P' ld dn ds by simp
    then show ?thesis by (rule exI)
  qed
qed

lemma no_earlier_dep_nth:
  "no_earlier_dep S ps \<Longrightarrow> j < length ps \<Longrightarrow>
     pkg_name (ps ! j) \<notin> S \<and> (\<forall>i < j. pkg_name (ps ! j) \<notin> dep_name ` set (pkg_deps (ps ! i)))"
proof (induction ps arbitrary: S j)
  case Nil
  then show ?case by simp
next
  case (Cons p ps)
  show ?case
  proof (cases j)
    case 0
    with Cons.prems show ?thesis by simp
  next
    case (Suc k)
    with Cons.prems have k: "k < length ps"
      and n: "no_earlier_dep (S \<union> dep_name ` set (pkg_deps p)) ps" by auto
    from Cons.IH[OF n k] have a: "pkg_name (ps ! k) \<notin> S \<union> dep_name ` set (pkg_deps p)"
      and b: "\<forall>i < k. pkg_name (ps ! k) \<notin> dep_name ` set (pkg_deps (ps ! i))" by auto
    have "pkg_name ((p # ps) ! j) \<notin> dep_name ` set (pkg_deps ((p # ps) ! i))" if "i < j" for i
    proof (cases i)
      case 0
      with a Suc show ?thesis by simp
    next
      case (Suc i')
      with that \<open>j = Suc k\<close> b show ?thesis by simp
    qed
    with a Suc show ?thesis by simp
  qed
qed

lemma relpaths_loop_names:
  "relpaths_loop ds ms = Inr ds' \<Longrightarrow> map dep_name ds' = map dep_name ds"
  by (induction ds arbitrary: ds')
     (auto split: sum.splits if_splits json.splits option.splits)

lemma vet_packages_loop_names:
  "vet_packages_loop ps ms = Inr ps' \<Longrightarrow>
     map pkg_name ps' = map pkg_name ps \<and>
     map (\<lambda>p. map dep_name (pkg_deps p)) ps' = map (\<lambda>p. map dep_name (pkg_deps p)) ps"
proof (induction ps arbitrary: ps')
  case Nil
  then show ?case by simp
next
  case (Cons p ps)
  from Cons.prems obtain deps rest where
    d: "set_full_local_dep_relpaths (pkg_deps p) ms = Inr deps"
    and r: "vet_packages_loop ps ms = Inr rest" and e: "ps' = p\<lparr>pkg_deps := deps\<rparr> # rest"
    by (auto split: sum.splits)
  from d have "map dep_name deps = map dep_name (pkg_deps p)"
    unfolding set_full_local_dep_relpaths_def by (rule relpaths_loop_names)
  with Cons.IH[OF r] e show ?case by simp
qed

lemma no_earlier_dep_cong:
  "map pkg_name ps' = map pkg_name ps \<Longrightarrow>
   map (\<lambda>p. map dep_name (pkg_deps p)) ps' = map (\<lambda>p. map dep_name (pkg_deps p)) ps \<Longrightarrow>
   no_earlier_dep S ps' = no_earlier_dep S ps"
proof (induction ps arbitrary: ps' S)
  case Nil
  then show ?case by simp
next
  case (Cons p ps)
  from Cons.prems(1) obtain p' rest where e: "ps' = p' # rest" by (cases ps') auto
  with Cons.prems have n: "pkg_name p' = pkg_name p" "map pkg_name rest = map pkg_name ps"
    and d: "map dep_name (pkg_deps p') = map dep_name (pkg_deps p)"
      "map (\<lambda>p. map dep_name (pkg_deps p)) rest = map (\<lambda>p. map dep_name (pkg_deps p)) ps"
    by auto
  from d(1) have "dep_name ` set (pkg_deps p') = dep_name ` set (pkg_deps p)"
    by (metis list.set_map)
  with Cons.IH[OF n(2) d(2)] n(1) e show ?case by simp
qed

text \<open>
  Claim C4, as stated, fails for a \<^verbatim>\<open>Replace\<close> object that carries neither \<^verbatim>\<open>Version\<close> nor
  \<^verbatim>\<open>Path\<close>: the source then stops at the replacement and the version falls back to the main
  module's, where the chain of the claim goes on to \<^verbatim>\<open>Module.Version\<close>.
\<close>

theorem dep_version_replace_counterexample:
  "assign_version
     [(''Module'', JObj [(''Path'', JStr ''github.com/o/w''), (''Version'', JStr ''v1.0.0''),
                         (''Replace'', JObj [(''Dir'', JStr ''/src/w'')])])] ''v0.5.0''
     = Inr (JStr ''v0.5.0'') \<and>
   spec_dep_version
     [(''Module'', JObj [(''Path'', JStr ''github.com/o/w''), (''Version'', JStr ''v1.0.0''),
                         (''Replace'', JObj [(''Dir'', JStr ''/src/w'')])])] ''v0.5.0''
     = JStr ''v1.0.0''"
  by (simp add: assign_version_def get_dep_version_def spec_dep_version_def dict_get_def py_get_def
      py_or_def)

text \<open>
  Claim C4, amended. For a dependency whose entry has \<^verbatim>\<open>Standard\<close> the version assigned is null.
  Otherwise, when the \<^verbatim>\<open>Module\<close> object has a non-empty \<^verbatim>\<open>Replace\<close> object it is
  \<^verbatim>\<open>Replace.Version\<close>, else \<^verbatim>\<open>Replace.Path\<close>; when it has none it is \<^verbatim>\<open>Module.Version\<close>; and if
  that yields nothing (empty or missing) it is the main module's version. So the chain of the
  claim is what the code computes whenever a \<^verbatim>\<open>Replace\<close> object that is there carries a
  \<^verbatim>\<open>Version\<close> or a \<^verbatim>\<open>Path\<close>. Every dependency the loop over \<^verbatim>\<open>Deps\<close> emits has the version
  assigned in this way.
\<close>

theorem dep_version_assigned:
  "(map_of dep_info ''Standard'' \<noteq> None \<longrightarrow> assign_version dep_info mv = Inr JNull) \<and>
   (map_of dep_info ''Standard'' = None \<and> \<not> truthy (dict_get dep_info ''Module'') \<longrightarrow>
      assign_version dep_info mv = Inr (JStr mv)) \<and>
   (map_of dep_info ''Standard'' = None \<and> dict_get dep_info ''Module'' = JObj m \<and> m \<noteq> [] \<and>
    dict_get m ''Replace'' = JObj rp \<and> rp \<noteq> [] \<longrightarrow>
      assign_version dep_info mv =
        Inr (py_or (py_or (dict_get rp ''Version'') (dict_get rp ''Path'')) (JStr mv))) \<and>
   (map_of dep_info ''Standard'' = None \<and> dict_get dep_info ''Module'' = JObj m \<and> m \<noteq> [] \<and>
    \<not> truthy (dict_get m ''Replace'') \<longrightarrow>
      assign_version dep_info mv = Inr (py_or (dict_get m ''Version'') (JStr mv))) \<and>
   ((truthy (dict_get dep_info ''Module'') \<longrightarrow>
       (\<exists>m. dict_get dep_info ''Module'' = JObj m \<and>
          (truthy (dict_get m ''Replace'') \<longrightarrow>
             (\<exists>rp. dict_get m ''Replace'' = JObj rp \<and>
                (truthy (dict_get rp ''Version'') \<or> truthy (dict_get rp ''Path'')))))) \<longrightarrow>
      assign_version dep_info mv = Inr (spec_dep_version dep_info mv)) \<and>
   (pkg_deps_loop package_info mv deps processed [] = Inr (out, processed') \<longrightarrow>
      map dep_name out = deps \<and>
      (\<forall>d \<in> set out. \<exists>info. package_info (dep_name d) = Some info \<and>
          assign_version info mv = Inr (dep_version d)))"
proof -
  have 6: "map dep_name out = deps \<and>
      (\<forall>d \<in> set out. \<exists>info. package_info (dep_name d) = Some info \<and>
          assign_version info mv = Inr (dep_version d))"
    if "pkg_deps_loop package_info mv deps processed [] = Inr (out, processed')"
    using pkg_deps_loop_out[OF that] by auto
  from assign_standard[of dep_info mv] assign_no_module[of dep_info mv]
    assign_replace[of dep_info m rp mv] assign_no_replace[of dep_info m mv]
    assign_spec[of dep_info mv] 6
  show ?thesis by blast
qed

lemma retained_standard:
  "(map_of (retained_info pkg) ''Standard'' \<noteq> None) = (dict_get pkg ''Standard'' \<noteq> JNull)"
  by (simp add: retained_info_def)

lemma load_list_deps_loop_lookup:
  "load_list_deps_loop objs pi0 = Inr pi \<Longrightarrow> pi n = Some info \<Longrightarrow>
     pi0 n = Some info \<or>
     (\<exists>pkg. JObj pkg \<in> set objs \<and> map_of pkg ''ImportPath'' = Some (JStr n) \<and>
        info = retained_info pkg)"
proof (induction objs arbitrary: pi0)
  case Nil
  then show ?case by simp
next
  case (Cons obj objs)
  from Cons.prems(1) obtain pkg k where o: "obj = JObj pkg"
    and k: "map_of pkg ''ImportPath'' = Some (JStr k)"
    and r: "load_list_deps_loop objs (pi0(k \<mapsto> retained_info pkg)) = Inr pi"
    by (auto split: json.splits option.splits)
  from Cons.IH[OF r Cons.prems(2)] o k show ?case
    by (auto split: if_splits)
qed

text \<open>
  Claim C10. The loader keeps the \<^verbatim>\<open>Standard\<close> field of an object exactly when its value is
  not \<^verbatim>\<open>None\<close>, the value \<^verbatim>\<open>false\<close> included, and the resolver gives the version null to
  every dependency whose loaded entry has the key, whatever its value.
\<close>

theorem standard_key_presence:
  "((map_of (retained_info pkg) ''Standard'' \<noteq> None) = (dict_get pkg ''Standard'' \<noteq> JNull)) \<and>
   (dict_get pkg ''Standard'' \<noteq> JNull \<longrightarrow> assign_version (retained_info pkg) mv = Inr JNull) \<and>
   (load_list_deps objs = Inr package_info \<and> package_info n = Some info \<longrightarrow>
      (\<exists>pkg. JObj pkg \<in> set objs \<and> map_of pkg ''ImportPath'' = Some (JStr n) \<and>
         info = retained_info pkg)) \<and>
   (package_info n = Some info \<and> map_of info ''Standard'' \<noteq> None \<and>
    pkg_deps_loop package_info mv deps processed [] = Inr (out, processed') \<and>
    d \<in> set out \<and> dep_name d = n \<longrightarrow> dep_version d = JNull)"
proof -
  have 2: "dict_get pkg ''Standard'' \<noteq> JNull \<longrightarrow> assign_version (retained_info pkg) mv = Inr JNull"
    using retained_standard[of pkg] assign_standard[of "retained_info pkg" mv] by blast
  have 3: "\<exists>pkg. JObj pkg \<in> set objs \<and> map_of pkg ''ImportPath'' = Some (JStr n) \<and>
         info = retained_info pkg"
    if "load_list_deps objs = Inr package_info" "package_info n = Some info"
    using load_list_deps_loop_lookup[of objs Map.empty package_info n info] that
    by (simp add: load_list_deps_def)
  have 4: "dep_version d = JNull"
    if i: "package_info n = Some info" and s: "map_of info ''Standard'' \<noteq> None"
      and l: "pkg_deps_loop package_info mv deps processed [] = Inr (out, processed')"
      and d: "d \<in> set out" "dep_name d = n"
  proof -
    from pkg_deps_loop_out[OF l] d(1) obtain info' where
      "package_info (dep_name d) = Some info'" "assign_version info' mv = Inr (dep_version d)"
      by auto
    with i d(2) have "assign_version info mv = Inr (dep_version d)" by simp
    with assign_standard[OF s, of mv] show ?thesis by simp
  qed
  from retained_standard[of pkg] 2 3 4 show ?thesis by blast
qed

text \<open>
  Claim C8. In the result of a resolve, no top-level package is among the dependencies of a
  top-level package emitted before it. The packages emitted are those the enumeration with a
  processed set yields, over the package names of \<^verbatim>\<open>go list -find\<close> and the dependencies that
  \<^verbatim>\<open>go list -deps -json\<close> lists: the set starts empty, a package in it is skipped, and an
  emitted package adds all its listed dependencies to it.
\<close>

theorem top_level_packages_not_earlier_deps:
  "(resolve_gomod env flags strict reps r sp = Inr res \<longrightarrow>
      (\<forall>j < length (res_packages res). \<forall>i < j.
          pkg_name (res_packages res ! j) \<notin> dep_name ` set (pkg_deps (res_packages res ! i)))) \<and>
   (resolve_gomod env flags strict reps r sp = Inr res \<longrightarrow>
      (\<exists>pl ld package_info.
         go_list_find env = Some pl \<and> go_list_deps env = Some ld \<and>
         load_list_deps ld = Inr package_info \<and>
         map pkg_name (res_packages res) = enumerate_packages (listed_deps package_info) pl {} \<and>
         (\<forall>p \<in> set (res_packages res).
             map dep_name (pkg_deps p) = listed_deps package_info (pkg_name p))))"
proof -
  have main: "no_earlier_dep {} (res_packages res) \<and>
      (\<exists>pl ld package_info.
         go_list_find env = Some pl \<and> go_list_deps env = Some ld \<and>
         load_list_deps ld = Inr package_info \<and>
         map pkg_name (res_packages res) = enumerate_packages (listed_deps package_info) pl {} \<and>
         (\<forall>p \<in> set (res_packages res).
             map dep_name (pkg_deps p) = listed_deps package_info (pkg_name p)))"
    if s: "resolve_gomod env flags strict reps r sp = Inr res"
  proof -
    from resolve_gomod_success[OF s] obtain name lines where
      s': "resolve_after_listing env reps name lines r sp = Inr res" by blast
    from resolve_after_listing_success[OF s'] obtain mds mv pl ld pi pkgs pkgs' where
      f: "go_list_find env = Some pl" and g: "go_list_deps env = Some ld"
      and pi: "load_list_deps ld = Inr pi" and p: "packages_loop pi mv pl {} [] = Inr pkgs"
      and v: "vet_packages_loop pkgs mds = Inr pkgs'"
      and res: "res = \<lparr>res_module = (name, mv), res_module_deps = mds, res_packages = pkgs'\<rparr>"
      by blast
    from packages_loop_out[OF p] have
      e: "map pkg_name pkgs = enumerate_packages (listed_deps pi) pl {}"
      and d: "\<forall>p \<in> set pkgs. map dep_name (pkg_deps p) = listed_deps pi (pkg_name p)"
      and n: "no_earlier_dep {} pkgs" by auto
    from vet_packages_loop_names[OF v] have
      vn: "map pkg_name pkgs' = map pkg_name pkgs"
      and vd: "map (\<lambda>p. map dep_name (pkg_deps p)) pkgs' = map (\<lambda>p. map dep_name (pkg_deps p)) pkgs"
      by auto
    from no_earlier_dep_cong[OF vn vd] n have n': "no_earlier_dep {} pkgs'" by simp
    have d': "\<forall>p \<in> set pkgs'. map dep_name (pkg_deps p) = listed_deps pi (pkg_name p)"
    proof
      fix p assume "p \<in> set pkgs'"
      then obtain i where i: "i < length pkgs'" "p = pkgs' ! i" by (auto simp: in_set_conv_nth)
      from vn have len: "length pkgs' = length pkgs" by (metis length_map)
      from vn i len have a: "pkg_name p = pkg_name (pkgs ! i)" by (metis nth_map)
      from vd i len have b: "map dep_name (pkg_deps p) = map dep_name (pkg_deps (pkgs ! i))"
        by (metis (mono_tags, lifting) nth_map)
      from d i len have "map dep_name (pkg_deps (pkgs ! i)) = listed_deps pi (pkg_name (pkgs ! i))"
        by simp
      with a b show "map dep_name (pkg_deps p) = listed_deps pi (pkg_name p)" by simp
    qed
    from e vn have e': "map pkg_name pkgs' = enumerate_packages (listed_deps pi) pl {}" by simp
    from res have rp: "res_packages res = pkgs'" by simp
    from n' rp have c1: "no_earlier_dep {} (res_packages res)" by simp
    from f g pi e' d' rp have c2: "\<exists>pl ld package_info.
         go_list_find env = Some pl \<and> go_list_deps env = Some ld \<and>
         load_list_deps ld = Inr package_info \<and>
         map pkg_name (res_packages res) = enumerate_packages (listed_deps package_info) pl {} \<and>
         (\<forall>p \<in> set (res_packages res).
             map dep_name (pkg_deps p) = listed_deps package_info (pkg_name p))" by blast
    from c1 c2 show ?thesis ..
  qed
  have idx: "\<forall>j < length (res_packages res). \<forall>i < j.
          pkg_name (res_packages res ! j) \<notin> dep_name ` set (pkg_deps (res_packages res ! i))"
    if s: "resolve_gomod env flags strict reps r sp = Inr res"
    using main[OF s] no_earlier_dep_nth[of "{}" "res_packages res"] by blast
  from main idx show ?thesis by blast
qed

theorem dep_version_assigned_witness:
  "assign_version [(''Standard'', JBool True)] ''v0.5.0'' = Inr JNull \<and>
   assign_version [] ''v0.5.0'' = Inr (JStr ''v0.5.0'') \<and>
   assign_version
     [(''Module'', JObj [(''Path'', JStr ''github.com/foo/bar''), (''Version'', JStr ''v1.0.0''),
         (''Replace'', JObj [(''Path'', JStr ''github.com/xyz/bar''), (''Version'', JStr ''v2.0.0'')])])]
     ''v0.5.0'' = Inr (JStr ''v2.0.0'') \<and>
   assign_version
     [(''Module'', JObj [(''Path'', JStr ''github.com/foo/bar''), (''Version'', JStr ''v1.0.0''),
         (''Replace'', JObj [(''Path'', JStr ''./local/src/bar'')])])]
     ''v0.5.0'' = Inr (JStr ''./local/src/bar'') \<and>
   assign_version
     [(''Module'', JObj [(''Path'', JStr ''github.com/foo/bar''), (''Version'', JStr ''v1.0.0'')])]
     ''v0.5.0'' = Inr (JStr ''v1.0.0'') \<and>
   assign_version
     [(''Module'', JObj [(''Path'', JStr ''github.com/foo/bar''), (''Main'', JBool True)])]
     ''v0.5.0'' = Inr (JStr ''v0.5.0'') \<and>
   spec_dep_version
     [(''Module'', JObj [(''Path'', JStr ''github.com/foo/bar''), (''Version'', JStr ''v1.0.0''),
         (''Replace'', JObj [(''Path'', JStr ''./local/src/bar'')])])]
     ''v0.5.0'' = JStr ''./local/src/bar'' \<and>
   pkg_deps_loop [''unsafe'' \<mapsto> [(''Standard'', JBool True)]] ''v0.5.0'' [''unsafe''] {} []
     = Inr ([\<lparr>dep_name = ''unsafe'', dep_version = JNull\<rparr>], {''unsafe''}) \<and>
   map dep_name [\<lparr>dep_name = ''unsafe'', dep_version = JNull\<rparr>] = [''unsafe'']"
proof -
  let ?path = "(''Path'', JStr ''github.com/foo/bar'')"
  let ?ver = "(''Version'', JStr ''v1.0.0'')"
  let ?rv = "[(''Path'', JStr ''github.com/xyz/bar''), (''Version'', JStr ''v2.0.0'')]"
  let ?rp = "[(''Path'', JStr ''./local/src/bar'')]"
  let ?m1 = "[?path, ?ver, (''Replace'', JObj ?rv)]"
  let ?m2 = "[?path, ?ver, (''Replace'', JObj ?rp)]"
  let ?m3 = "[?path, ?ver]"
  let ?m4 = "[?path, (''Main'', JBool True)]"
  have w1: "assign_version [(''Standard'', JBool True)] ''v0.5.0'' = Inr JNull"
    using dep_version_assigned [of "[(''Standard'', JBool True)]" "''v0.5.0''"] by simp
  have w2: "assign_version [] ''v0.5.0'' = Inr (JStr ''v0.5.0'')"
    using dep_version_assigned [of "[]" "''v0.5.0''"] by simp
  have "assign_version [(''Module'', JObj ?m1)] ''v0.5.0'' =
      Inr (py_or (py_or (dict_get ?rv ''Version'') (dict_get ?rv ''Path'')) (JStr ''v0.5.0''))"
    using dep_version_assigned [of "[(''Module'', JObj ?m1)]" "''v0.5.0''" ?m1 ?rv]
    by (simp add: dict_get_def)
  then have w3: "assign_version [(''Module'', JObj ?m1)] ''v0.5.0'' = Inr (JStr ''v2.0.0'')"
    by (simp add: dict_get_def py_or_def)
  have "assign_version [(''Module'', JObj ?m2)] ''v0.5.0'' =
      Inr (py_or (py_or (dict_get ?rp ''Version'') (dict_get ?rp ''Path'')) (JStr ''v0.5.0''))"
    using dep_version_assigned [of "[(''Module'', JObj ?m2)]" "''v0.5.0''" ?m2 ?rp]
    by (simp add: dict_get_def)
  then have w4: "assign_version [(''Module'', JObj ?m2)] ''v0.5.0'' = Inr (JStr ''./local/src/bar'')"
    by (simp add: dict_get_def py_or_def)
  have "assign_version [(''Module'', JObj ?m3)] ''v0.5.0'' =
      Inr (py_or (dict_get ?m3 ''Version'') (JStr ''v0.5.0''))"
    using dep_version_assigned [of "[(''Module'', JObj ?m3)]" "''v0.5.0''" ?m3]
    by (simp add: dict_get_def)
  then have w5: "assign_version [(''Module'', JObj ?m3)] ''v0.5.0'' = Inr (JStr ''v1.0.0'')"
    by (simp add: dict_get_def py_or_def)
  have "assign_version [(''Module'', JObj ?m4)] ''v0.5.0'' =
      Inr (py_or (dict_get ?m4 ''Version'') (JStr ''v0.5.0''))"
    using dep_version_assigned [of "[(''Module'', JObj ?m4)]" "''v0.5.0''" ?m4]
    by (simp add: dict_get_def)
  then have w6: "assign_version [(''Module'', JObj ?m4)] ''v0.5.0'' = Inr (JStr ''v0.5.0'')"
    by (simp add: dict_get_def py_or_def)
  have "assign_version [(''Module'', JObj ?m2)] ''v0.5.0'' =
      Inr (spec_dep_version [(''Module'', JObj ?m2)] ''v0.5.0'')"
    using dep_version_assigned [of "[(''Module'', JObj ?m2)]" "''v0.5.0''"]
    by (simp add: dict_get_def)
  with w4 have w7: "spec_dep_version [(''Module'', JObj ?m2)] ''v0.5.0'' = JStr ''./local/src/bar''"
    by simp
  have l: "pkg_deps_loop [''unsafe'' \<mapsto> [(''Standard'', JBool True)]] ''v0.5.0'' [''unsafe''] {} []
     = Inr ([\<lparr>dep_name = ''unsafe'', dep_version = JNull\<rparr>], {''unsafe''})"
    by (simp add: assign_version_def)
  have w9: "map dep_name [\<lparr>dep_name = ''unsafe'', dep_version = JNull\<rparr>] = [''unsafe'']"
    using dep_version_assigned [where package_info = "[''unsafe'' \<mapsto> [(''Standard'', JBool True)]]"
        and mv = "''v0.5.0''" and deps = "[''unsafe'']" and processed = "{}"
        and out = "[\<lparr>dep_name = ''unsafe'', dep_version = JNull\<rparr>]" and processed' = "{''unsafe''}"] l
    by blast
  from w1 w2 w3 w4 w5 w6 w7 l w9 show ?thesis by blast
qed

theorem standard_key_presence_witness:
  "dict_get [(''ImportPath'', JStr ''fmt''), (''Standard'', JBool False)] ''Standard'' \<noteq> JNull \<and>
   map_of (retained_info [(''ImportPath'', JStr ''fmt''), (''Standard'', JBool False)]) ''Standard''
     \<noteq> None \<and>
   assign_version (retained_info [(''ImportPath'', JStr ''fmt''), (''Standard'', JBool False)])
     ''v0.5.0'' = Inr JNull \<and>
   load_list_deps [JObj [(''ImportPath'', JStr ''fmt''), (''Standard'', JBool False)]]
     = Inr [''fmt'' \<mapsto> [(''Standard'', JBool False)]] \<and>
   pkg_deps_loop [''fmt'' \<mapsto> [(''Standard'', JBool False)]] ''v0.5.0'' [''fmt''] {} []
     = Inr ([\<lparr>dep_name = ''fmt'', dep_version = JNull\<rparr>], {''fmt''}) \<and>
   dep_version \<lparr>dep_name = ''fmt'', dep_version = JNull\<rparr> = JNull"
proof -
  let ?pkg = "[(''ImportPath'', JStr ''fmt''), (''Standard'', JBool False)]"
  let ?pi = "[''fmt'' \<mapsto> [(''Standard'', JBool False)]]"
  let ?d = "\<lparr>dep_name = ''fmt'', dep_version = JNull\<rparr>"
  have h: "dict_get ?pkg ''Standard'' \<noteq> JNull" by (simp add: dict_get_def)
  from h standard_key_presence [of ?pkg] have a: "map_of (retained_info ?pkg) ''Standard'' \<noteq> None"
    by blast
  from h standard_key_presence [of ?pkg "''v0.5.0''"]
  have b: "assign_version (retained_info ?pkg) ''v0.5.0'' = Inr JNull" by blast
  have c: "load_list_deps [JObj ?pkg] = Inr ?pi"
    by (simp add: load_list_deps_def retained_info_def dict_get_def)
  have l: "pkg_deps_loop ?pi ''v0.5.0'' [''fmt''] {} [] = Inr ([?d], {''fmt''})"
    by (simp add: assign_version_def)
  have i: "?pi ''fmt'' = Some [(''Standard'', JBool False)]"
    "map_of [(''Standard'', JBool False)] ''Standard'' \<noteq> None" "?d \<in> set [?d]" "dep_name ?d = ''fmt''"
    by simp_all
  from standard_key_presence [where package_info = ?pi and n = "''fmt''"
      and info = "[(''Standard'', JBool False)]" and mv = "''v0.5.0''" and deps = "[''fmt'']"
      and processed = "{}" and out = "[?d]" and processed' = "{''fmt''}" and d = ?d] i l
  have e: "dep_version ?d = JNull" by blast
  from h a b c l e show ?thesis by blast
qed

lemma packages_example_listing:
  "load_list_deps
     [JObj [(''ImportPath'', JStr ''example.com/mod/sub''),
            (''Module'', JObj [(''Path'', JStr ''example.com/mod''), (''Main'', JBool True)])],
      JObj [(''ImportPath'', JStr ''example.com/mod''), (''Deps'', JArr [JStr ''example.com/mod/sub''])],
      JObj [(''ImportPath'', JStr ''example.com/mod/other'')]]
   = Inr [''example.com/mod/sub'' \<mapsto> [(''Module'', JObj [(''Path'', JStr ''example.com/mod''), (''Main'', JBool True)])],
          ''example.com/mod'' \<mapsto> [(''Deps'', JArr [JStr ''example.com/mod/sub''])],
          ''example.com/mod/other'' \<mapsto> []]"
  by (simp add: load_list_deps_def retained_info_def dict_get_def)

lemma packages_example_loop:
  "packages_loop
     [''example.com/mod/sub'' \<mapsto> [(''Module'', JObj [(''Path'', JStr ''example.com/mod''), (''Main'', JBool True)])],
      ''example.com/mod'' \<mapsto> [(''Deps'', JArr [JStr ''example.com/mod/sub''])],
      ''example.com/mod/other'' \<mapsto> []]
     ''v1.0.0'' [''example.com/mod'', ''example.com/mod/sub'', ''example.com/mod/other''] {} []
   = Inr [\<lparr>pkg_name = ''example.com/mod'', pkg_version = ''v1.0.0'',
            pkg_deps = [\<lparr>dep_name = ''example.com/mod/sub'', dep_version = JStr ''v1.0.0''\<rparr>]\<rparr>,
          \<lparr>pkg_name = ''example.com/mod/other'', pkg_version = ''v1.0.0'', pkg_deps = []\<rparr>]"
  by (simp add: deps_of_def assign_version_def get_dep_version_def dict_get_def py_get_def py_or_def)

lemma packages_example_vet:
  "vet_packages_loop
     [\<lparr>pkg_name = ''example.com/mod'', pkg_version = ''v1.0.0'',
            pkg_deps = [\<lparr>dep_name = ''example.com/mod/sub'', dep_version = JStr ''v1.0.0''\<rparr>]\<rparr>,
          \<lparr>pkg_name = ''example.com/mod/other'', pkg_version = ''v1.0.0'', pkg_deps = []\<rparr>] []
   = Inr [\<lparr>pkg_name = ''example.com/mod'', pkg_version = ''v1.0.0'',
            pkg_deps = [\<lparr>dep_name = ''example.com/mod/sub'', dep_version = JStr ''v1.0.0''\<rparr>]\<rparr>,
          \<lparr>pkg_name = ''example.com/mod/other'', pkg_version = ''v1.0.0'', pkg_deps = []\<rparr>]"
  by (simp add: vet_version_def startswith_def PureWindowsPath_root_def backslash_def Let_def
      set_full_local_dep_relpaths_def)

lemma module_listing_example_packages:
  "module_listing \<lparr>go_mod_edit_ok = (\<lambda>r. True), go_mod_vendor_ok = True, go_mod_download_ok = True,
      go_mod_tidy_ok = True, go_list_m = Some ''example.com/mod'',
      go_list_m_all = Some [],
      go_list_find = Some [''example.com/mod'', ''example.com/mod/sub'', ''example.com/mod/other''],
      go_list_deps = Some [JObj [(''ImportPath'', JStr ''example.com/mod/sub''),
            (''Module'', JObj [(''Path'', JStr ''example.com/mod''), (''Main'', JBool True)])],
      JObj [(''ImportPath'', JStr ''example.com/mod''), (''Deps'', JArr [JStr ''example.com/mod/sub''])],
      JObj [(''ImportPath'', JStr ''example.com/mod/other'')]],
      go_clean_modcache_ok = True, vendor_dir = Absent, vendor_modules_txt = None,
      git_add_ok = True, modules_txt_diff = Some [], vendor_diff = Some [],
      git_reset_ok = True, bundle_dir_ok = True\<rparr> [] True []
     = Inr (''example.com/mod'', [])"
  by (simp add: module_listing_def should_vendor_deps_def path_is_dir_def run_gomod_cmd_def)

lemma packages_example_resolve:
  "resolve_gomod \<lparr>go_mod_edit_ok = (\<lambda>r. True), go_mod_vendor_ok = True, go_mod_download_ok = True,
      go_mod_tidy_ok = True, go_list_m = Some ''example.com/mod'',
      go_list_m_all = Some [],
      go_list_find = Some [''example.com/mod'', ''example.com/mod/sub'', ''example.com/mod/other''],
      go_list_deps = Some [JObj [(''ImportPath'', JStr ''example.com/mod/sub''),
            (''Module'', JObj [(''Path'', JStr ''example.com/mod''), (''Main'', JBool True)])],
      JObj [(''ImportPath'', JStr ''example.com/mod''), (''Deps'', JArr [JStr ''example.com/mod/sub''])],
      JObj [(''ImportPath'', JStr ''example.com/mod/other'')]],
      go_clean_modcache_ok = True, vendor_dir = Absent, vendor_modules_txt = None,
      git_add_ok = True, modules_txt_diff = Some [], vendor_diff = Some [],
      git_reset_ok = True, bundle_dir_ok = True\<rparr> [] True []
     \<lparr>head_sha = ''d1b74311a7bf'',
      commit_of = (\<lambda>s. Some \<lparr>hexsha = s, committed_date = 1573158576\<rparr>),
      fetch_tags_ok = True,
      tags_points_at = (\<lambda>s. Some [''v1.0.0'']),
      tags_merged = (\<lambda>s. Some [''v1.0.0''])\<rparr> None
   = Inr \<lparr>res_module = (''example.com/mod'', ''v1.0.0''),
          res_module_deps = [],
          res_packages =
            [\<lparr>pkg_name = ''example.com/mod'', pkg_version = ''v1.0.0'',
                pkg_deps = [\<lparr>dep_name = ''example.com/mod/sub'', dep_version = JStr ''v1.0.0''\<rparr>]\<rparr>,
             \<lparr>pkg_name = ''example.com/mod/other'', pkg_version = ''v1.0.0'', pkg_deps = []\<rparr>]\<rparr>"
proof -
  have ml: "module_lines_loop (set (map rep_name [])) [] [] {} = ([], {})" by simp
  have c: "go_clean_modcache_ok \<lparr>go_mod_edit_ok = (\<lambda>r. True), go_mod_vendor_ok = True, go_mod_download_ok = True,
      go_mod_tidy_ok = True, go_list_m = Some ''example.com/mod'',
      go_list_m_all = Some [],
      go_list_find = Some [''example.com/mod'', ''example.com/mod/sub'', ''example.com/mod/other''],
      go_list_deps = Some [JObj [(''ImportPath'', JStr ''example.com/mod/sub''),
            (''Module'', JObj [(''Path'', JStr ''example.com/mod''), (''Main'', JBool True)])],
      JObj [(''ImportPath'', JStr ''example.com/mod''), (''Deps'', JArr [JStr ''example.com/mod/sub''])],
      JObj [(''ImportPath'', JStr ''example.com/mod/other'')]],
      go_clean_modcache_ok = True, vendor_dir = Absent, vendor_modules_txt = None,
      git_add_ok = True, modules_txt_diff = Some [], vendor_diff = Some [],
      git_reset_ok = True, bundle_dir_ok = True\<rparr>" by simp
  have f: "run_gomod_cmd (go_list_find \<lparr>go_mod_edit_ok = (\<lambda>r. True), go_mod_vendor_ok = True, go_mod_download_ok = True,
      go_mod_tidy_ok = True, go_list_m = Some ''example.com/mod'',
      go_list_m_all = Some [],
      go_list_find = Some [''example.com/mod'', ''example.com/mod/sub'', ''example.com/mod/other''],
      go_list_deps = Some [JObj [(''ImportPath'', JStr ''example.com/mod/sub''),
            (''Module'', JObj [(''Path'', JStr ''example.com/mod''), (''Main'', JBool True)])],
      JObj [(''ImportPath'', JStr ''example.com/mod''), (''Deps'', JArr [JStr ''example.com/mod/sub''])],
      JObj [(''ImportPath'', JStr ''example.com/mod/other'')]],
      go_clean_modcache_ok = True, vendor_dir = Absent, vendor_modules_txt = None,
      git_add_ok = True, modules_txt_diff = Some [], vendor_diff = Some [],
      git_reset_ok = True, bundle_dir_ok = True\<rparr>) = Inr [''example.com/mod'', ''example.com/mod/sub'', ''example.com/mod/other'']"
    by simp
  have g: "run_gomod_cmd (go_list_deps \<lparr>go_mod_edit_ok = (\<lambda>r. True), go_mod_vendor_ok = True, go_mod_download_ok = True,
      go_mod_tidy_ok = True, go_list_m = Some ''example.com/mod'',
      go_list_m_all = Some [],
      go_list_find = Some [''example.com/mod'', ''example.com/mod/sub'', ''example.com/mod/other''],
      go_list_deps = Some [JObj [(''ImportPath'', JStr ''example.com/mod/sub''),
            (''Module'', JObj [(''Path'', JStr ''example.com/mod''), (''Main'', JBool True)])],
      JObj [(''ImportPath'', JStr ''example.com/mod''), (''Deps'', JArr [JStr ''example.com/mod/sub''])],
      JObj [(''ImportPath'', JStr ''example.com/mod/other'')]],
      go_clean_modcache_ok = True, vendor_dir = Absent, vendor_modules_txt = None,
      git_add_ok = True, modules_txt_diff = Some [], vendor_diff = Some [],
      git_reset_ok = True, bundle_dir_ok = True\<rparr>) = Inr [JObj [(''ImportPath'', JStr ''example.com/mod/sub''),
            (''Module'', JObj [(''Path'', JStr ''example.com/mod''), (''Main'', JBool True)])],
      JObj [(''ImportPath'', JStr ''example.com/mod''), (''Deps'', JArr [JStr ''example.com/mod/sub''])],
      JObj [(''ImportPath'', JStr ''example.com/mod/other'')]]"
    by simp
  have b: "bundle_dir_ok \<lparr>go_mod_edit_ok = (\<lambda>r. True), go_mod_vendor_ok = True, go_mod_download_ok = True,
      go_mod_tidy_ok = True, go_list_m = Some ''example.com/mod'',
      go_list_m_all = Some [],
      go_list_find = Some [''example.com/mod'', ''example.com/mod/sub'', ''example.com/mod/other''],
      go_list_deps = Some [JObj [(''ImportPath'', JStr ''example.com/mod/sub''),
            (''Module'', JObj [(''Path'', JStr ''example.com/mod''), (''Main'', JBool True)])],
      JObj [(''ImportPath'', JStr ''example.com/mod''), (''Deps'', JArr [JStr ''example.com/mod/sub''])],
      JObj [(''ImportPath'', JStr ''example.com/mod/other'')]],
      go_clean_modcache_ok = True, vendor_dir = Absent, vendor_modules_txt = None,
      git_add_ok = True, modules_txt_diff = Some [], vendor_diff = Some [],
      git_reset_ok = True, bundle_dir_ok = True\<rparr>" by simp
  show ?thesis
    unfolding resolve_gomod_listed[OF c module_listing_example_packages]
      resolve_after_listing_cases[OF ml] get_golang_version_example f g
      packages_example_listing
    using b
    by (simp add: packages_example_listing packages_example_loop packages_example_vet
          del: packages_loop.simps vet_packages_loop.simps)
qed

theorem top_level_packages_not_earlier_deps_witness:
  "resolve_gomod \<lparr>go_mod_edit_ok = (\<lambda>r. True), go_mod_vendor_ok = True, go_mod_download_ok = True,
      go_mod_tidy_ok = True, go_list_m = Some ''example.com/mod'',
      go_list_m_all = Some [],
      go_list_find = Some [''example.com/mod'', ''example.com/mod/sub'', ''example.com/mod/other''],
      go_list_deps = Some [JObj [(''ImportPath'', JStr ''example.com/mod/sub''),
            (''Module'', JObj [(''Path'', JStr ''example.com/mod''), (''Main'', JBool True)])],
      JObj [(''ImportPath'', JStr ''example.com/mod''), (''Deps'', JArr [JStr ''example.com/mod/sub''])],
      JObj [(''ImportPath'', JStr ''example.com/mod/other'')]],
      go_clean_modcache_ok = True, vendor_dir = Absent, vendor_modules_txt = None,
      git_add_ok = True, modules_txt_diff = Some [], vendor_diff = Some [],
      git_reset_ok = True, bundle_dir_ok = True\<rparr> [] True []
     \<lparr>head_sha = ''d1b74311a7bf'',
      commit_of = (\<lambda>s. Some \<lparr>hexsha = s, committed_date = 1573158576\<rparr>),
      fetch_tags_ok = True,
      tags_points_at = (\<lambda>s. Some [''v1.0.0'']),
      tags_merged = (\<lambda>s. Some [''v1.0.0''])\<rparr> None
   = Inr \<lparr>res_module = (''example.com/mod'', ''v1.0.0''),
          res_module_deps = [],
          res_packages =
            [\<lparr>pkg_name = ''example.com/mod'', pkg_version = ''v1.0.0'',
                pkg_deps = [\<lparr>dep_name = ''example.com/mod/sub'', dep_version = JStr ''v1.0.0''\<rparr>]\<rparr>,
             \<lparr>pkg_name = ''example.com/mod/other'', pkg_version = ''v1.0.0'', pkg_deps = []\<rparr>]\<rparr> \<and>
   ''example.com/mod/other'' \<notin> {''example.com/mod/sub''} \<and>
   [''example.com/mod'', ''example.com/mod/other''] =
     enumerate_packages
       (listed_deps
          [''example.com/mod/sub'' \<mapsto>
             [(''Module'', JObj [(''Path'', JStr ''example.com/mod''), (''Main'', JBool True)])],
           ''example.com/mod'' \<mapsto> [(''Deps'', JArr [JStr ''example.com/mod/sub''])],
           ''example.com/mod/other'' \<mapsto> []])
       [''example.com/mod'', ''example.com/mod/sub'', ''example.com/mod/other''] {}"
proof -
  let ?r = "\<lparr>head_sha = ''d1b74311a7bf'',
      commit_of = (\<lambda>s. Some \<lparr>hexsha = s, committed_date = 1573158576\<rparr>),
      fetch_tags_ok = True,
      tags_points_at = (\<lambda>s. Some [''v1.0.0'']),
      tags_merged = (\<lambda>s. Some [''v1.0.0''])\<rparr>"
  let ?env = "\<lparr>go_mod_edit_ok = (\<lambda>r. True), go_mod_vendor_ok = True, go_mod_download_ok = True,
      go_mod_tidy_ok = True, go_list_m = Some ''example.com/mod'',
      go_list_m_all = Some [],
      go_list_find = Some [''example.com/mod'', ''example.com/mod/sub'', ''example.com/mod/other''],
      go_list_deps = Some [JObj [(''ImportPath'', JStr ''example.com/mod/sub''),
            (''Module'', JObj [(''Path'', JStr ''example.com/mod''), (''Main'', JBool True)])],
      JObj [(''ImportPath'', JStr ''example.com/mod''), (''Deps'', JArr [JStr ''example.com/mod/sub''])],
      JObj [(''ImportPath'', JStr ''example.com/mod/other'')]],
      go_clean_modcache_ok = True, vendor_dir = Absent, vendor_modules_txt = None,
      git_add_ok = True, modules_txt_diff = Some [], vendor_diff = Some [],
      git_reset_ok = True, bundle_dir_ok = True\<rparr>"
  let ?pl = "[''example.com/mod'', ''example.com/mod/sub'', ''example.com/mod/other'']"
  let ?ld = "[JObj [(''ImportPath'', JStr ''example.com/mod/sub''),
            (''Module'', JObj [(''Path'', JStr ''example.com/mod''), (''Main'', JBool True)])],
      JObj [(''ImportPath'', JStr ''example.com/mod''), (''Deps'', JArr [JStr ''example.com/mod/sub''])],
      JObj [(''ImportPath'', JStr ''example.com/mod/other'')]]"
  let ?pi = "[''example.com/mod/sub'' \<mapsto>
             [(''Module'', JObj [(''Path'', JStr ''example.com/mod''), (''Main'', JBool True)])],
           ''example.com/mod'' \<mapsto> [(''Deps'', JArr [JStr ''example.com/mod/sub''])],
           ''example.com/mod/other'' \<mapsto> []]"
  let ?ps = "[\<lparr>pkg_name = ''example.com/mod'', pkg_version = ''v1.0.0'',
                pkg_deps = [\<lparr>dep_name = ''example.com/mod/sub'', dep_version = JStr ''v1.0.0''\<rparr>]\<rparr>,
             \<lparr>pkg_name = ''example.com/mod/other'', pkg_version = ''v1.0.0'', pkg_deps = []\<rparr>]"
  let ?res = "\<lparr>res_module = (''example.com/mod'', ''v1.0.0''), res_module_deps = [],
      res_packages = ?ps\<rparr>"
  note t = top_level_packages_not_earlier_deps [where env = ?env and flags = "[]" and strict = True
      and reps = "[]" and r = ?r and sp = None and res = ?res]
  from t packages_example_resolve have
    "\<forall>j < length (res_packages ?res). \<forall>i < j.
          pkg_name (res_packages ?res ! j) \<notin> dep_name ` set (pkg_deps (res_packages ?res ! i))"
    by blast
  then have "pkg_name (res_packages ?res ! 1) \<notin> dep_name ` set (pkg_deps (res_packages ?res ! 0))"
    by simp
  then have a: "''example.com/mod/other'' \<notin> {''example.com/mod/sub''}" by simp
  from t packages_example_resolve obtain pl ld package_info where
    f: "go_list_find ?env = Some pl" and g: "go_list_deps ?env = Some ld"
    and l: "load_list_deps ld = Inr package_info"
    and e: "map pkg_name (res_packages ?res) = enumerate_packages (listed_deps package_info) pl {}"
    by blast
  from f have pl: "pl = ?pl" by simp
  from g have ld: "ld = ?ld" by simp
  from l packages_example_listing have pi: "package_info = ?pi" unfolding ld by simp
  from e have b: "[''example.com/mod'', ''example.com/mod/other''] =
      enumerate_packages (listed_deps ?pi) ?pl {}" unfolding pl pi by simp
  from packages_example_resolve a b show ?thesis by blast
qed

section \<open>Vetting of local paths\<close>















lemma split_on_nonempty [simp]: "split_on c s \<noteq> []"
  by (induction s) (auto split: list.splits)









lemma vetted_example_local: "vetted ''./local''"
  by (simp add: vetted_def startswith_def PureWindowsPath_root_def Let_def backslash_def
      posix_path_parts_def)

lemma vetted_example_version: "vetted ''v1.5.1''"
  by (simp add: vetted_def startswith_def PureWindowsPath_root_def Let_def backslash_def
      ascii_letter_def)


















end
